theory Spec2Isabelle
  imports Complex_Main "HOL-Library.Multiset" "HOL-Library.Sublist" "HOL-Library.Log_Nat"
begin

section \<open>Data model (shared/schema.ts)\<close>

text \<open>
  A JavaScript string is a sequence of UTF-16 code units: that is what \<open>length\<close>,
  \<open>includes\<close>, \<open>trim\<close> and a regular expression without the \<open>u\<close> flag work on. A code
  unit is its number here. Every string literal of the source is in ASCII, and
  \<open>utf16\<close> gives the code units of such a literal.
\<close>

type_synonym js_string = "nat list"

definition utf16 :: "string \<Rightarrow> js_string" where
  "utf16 literal = map of_char literal"

text \<open>
  The three PostgreSQL enums of the schema are datatypes whose constructors carry the
  enum labels. Where the code compares a field with a plain string (the filters of the
  query layer) or prints it (the status-change activity), the label is recovered with
  the \<open>_name\<close> functions below.
\<close>

datatype issue_type = crosswalk | pothole | sidewalk | streetlight | other

datatype urgency_level = low | medium | high

datatype progress_status =
  idea_submitted | community_support | email_campaign_active
  | official_acknowledgment | planning_stage | implementation | completed

fun issue_type_name :: "issue_type \<Rightarrow> js_string" where
  "issue_type_name crosswalk = utf16 ''crosswalk''"
| "issue_type_name pothole = utf16 ''pothole''"
| "issue_type_name sidewalk = utf16 ''sidewalk''"
| "issue_type_name streetlight = utf16 ''streetlight''"
| "issue_type_name other = utf16 ''other''"

fun progress_status_name :: "progress_status \<Rightarrow> js_string" where
  "progress_status_name idea_submitted = utf16 ''idea_submitted''"
| "progress_status_name community_support = utf16 ''community_support''"
| "progress_status_name email_campaign_active = utf16 ''email_campaign_active''"
| "progress_status_name official_acknowledgment = utf16 ''official_acknowledgment''"
| "progress_status_name planning_stage = utf16 ''planning_stage''"
| "progress_status_name implementation = utf16 ''implementation''"
| "progress_status_name completed = utf16 ''completed''"

text \<open>
  Rows of the six tables. Field names are the source's, prefixed by a tag for the row
  type (\<open>p_\<close> project, \<open>v_\<close> upvote, \<open>e_\<close> email, \<open>a_\<close> activity, \<open>c_\<close> comment,
  \<open>u_\<close> user; \<open>ip_\<close>, \<open>iv_\<close>, \<open>ie_\<close>, \<open>ia_\<close>, \<open>ic_\<close>, \<open>iu_\<close> for the insert
  shapes), because the same field name occurs in several tables. Identifiers and
  counters are JavaScript numbers holding integers, so they are \<open>int\<close>; a nullable or
  optional field is an \<open>option\<close>; a timestamp is the number of milliseconds of its
  \<open>Date\<close>.
\<close>

record user =
  u_id :: int
  u_username :: js_string
  u_password :: js_string
  u_email :: js_string

record insert_user =
  iu_username :: js_string
  iu_password :: js_string
  iu_email :: js_string

record project =
  p_id :: int
  p_title :: js_string
  p_description :: js_string
  p_issueType :: issue_type
  p_location :: js_string
  p_latitude :: js_string
  p_longitude :: js_string
  p_urgencyLevel :: "urgency_level option"
  p_contactEmail :: "js_string option"
  p_emailTemplate :: js_string
  p_emailSubject :: js_string
  p_emailRecipient :: js_string
  p_upvotes :: int
  p_emailsSent :: int
  p_progressStatus :: progress_status
  p_createdAt :: int
  p_createdBy :: "int option"

record insert_project =
  ip_title :: js_string
  ip_description :: js_string
  ip_issueType :: issue_type
  ip_location :: js_string
  ip_latitude :: js_string
  ip_longitude :: js_string
  ip_urgencyLevel :: "urgency_level option"
  ip_contactEmail :: "js_string option"
  ip_emailTemplate :: js_string
  ip_emailSubject :: js_string
  ip_emailRecipient :: js_string
  ip_createdBy :: "int option"

text \<open>\<open>Partial<Project>\<close>: every field of a project, each of them optional.\<close>

record project_updates =
  up_id :: "int option"
  up_title :: "js_string option"
  up_description :: "js_string option"
  up_issueType :: "issue_type option"
  up_location :: "js_string option"
  up_latitude :: "js_string option"
  up_longitude :: "js_string option"
  up_urgencyLevel :: "urgency_level option option"
  up_contactEmail :: "js_string option option"
  up_emailTemplate :: "js_string option"
  up_emailSubject :: "js_string option"
  up_emailRecipient :: "js_string option"
  up_upvotes :: "int option"
  up_emailsSent :: "int option"
  up_progressStatus :: "progress_status option"
  up_createdAt :: "int option"
  up_createdBy :: "int option option"

record upvote =
  v_id :: int
  v_projectId :: int
  v_userId :: "int option"
  v_ipAddress :: js_string
  v_createdAt :: int

record insert_upvote =
  iv_projectId :: int
  iv_userId :: "int option"
  iv_ipAddress :: js_string

record email =
  e_id :: int
  e_projectId :: int
  e_senderEmail :: "js_string option"
  e_senderName :: "js_string option"
  e_customContent :: "js_string option"
  e_sentAt :: int

record insert_email =
  ie_projectId :: int
  ie_senderEmail :: "js_string option"
  ie_senderName :: "js_string option"
  ie_customContent :: "js_string option"

record activity =
  a_id :: int
  a_projectId :: int
  a_activityType :: js_string
  a_actorName :: "js_string option"
  a_description :: js_string
  a_createdAt :: int

record insert_activity =
  ia_projectId :: int
  ia_activityType :: js_string
  ia_actorName :: "js_string option"
  ia_description :: js_string

record comment =
  c_id :: int
  c_projectId :: int
  c_text :: js_string
  c_commenterName :: js_string
  c_createdAt :: int

record insert_comment =
  ic_projectId :: int
  ic_text :: js_string
  ic_commenterName :: js_string

section \<open>The in-memory store (class MemStorage)\<close>

text \<open>
  A JavaScript \<open>Map<number, V>\<close> keeps its entries in insertion order; \<open>set\<close> on a
  key that is present replaces the value in place, on a new key it appends. It is an
  association list here, so that \<open>Array.from(m.values())\<close> has the order the code sees.
\<close>

type_synonym 'v js_map = "(int \<times> 'v) list"

primrec Map_set :: "int \<Rightarrow> 'v \<Rightarrow> 'v js_map \<Rightarrow> 'v js_map" where
  "Map_set k v [] = [(k, v)]"
| "Map_set k v (kv # m) = (if fst kv = k then (k, v) # m else kv # Map_set k v m)"

primrec Map_get :: "'v js_map \<Rightarrow> int \<Rightarrow> 'v option" where
  "Map_get [] k = None"
| "Map_get (kv # m) k = (if fst kv = k then Some (snd kv) else Map_get m k)"

definition Map_values :: "'v js_map \<Rightarrow> 'v list" where
  "Map_values m = map snd m"

record store =
  users :: "user js_map"
  projects :: "project js_map"
  upvotes :: "upvote js_map"
  emails :: "email js_map"
  activities :: "activity js_map"
  comments :: "comment js_map"
  userId :: int
  projectId :: int
  upvoteId :: int
  emailId :: int
  activityId :: int
  commentId :: int

text \<open>
  \<open>x || null\<close> on an optional string or number: \<open>undefined\<close>, \<open>null\<close>, the empty
  string and \<open>0\<close> all become \<open>null\<close>.
\<close>

fun string_or_null :: "js_string option \<Rightarrow> js_string option" where
  "string_or_null None = None"
| "string_or_null (Some x) = (if x = [] then None else Some x)"

fun number_or_null :: "int option \<Rightarrow> int option" where
  "number_or_null None = None"
| "number_or_null (Some n) = (if n = 0 then None else Some n)"

subsection \<open>Numbers\<close>

text \<open>
  Every number of the program is an IEEE 754 double, and \<open>+\<close>, \<open>/\<close> and \<open>*\<close> return
  the double nearest to the exact result, ties to the even mantissa. A non-negative
  double is a pair \<open>(m, e)\<close> standing for \<open>m * 2 ^ e\<close> (\<open>double_value\<close>).
  \<open>round_frac a b\<close> is the double nearest to \<open>a / b\<close> for \<open>a \<ge> 0\<close> and \<open>b > 0\<close>: with
  \<open>floor_log2_ratio a b\<close> the binary exponent of the quotient, the quotient is scaled
  so that its integer part has 53 bits, and \<open>nearest_even\<close> rounds it. Exponent limits
  play no role for counts of rows and percentages, and are left out. \<open>Math.round\<close>
  returns the nearest integer, the larger one at a tie.

  The counters \<open>upvotes\<close> and \<open>emailsSent\<close> hold integers. \<open>js_plus\<close> is \<open>+\<close> on two
  such numbers: the exact sum, made a double again by \<open>nearest_double\<close>. A sum of at
  most \<open>2 ^ 53\<close> in absolute value is a double already; \<open>2 ^ 53 + 1\<close> is not, and
  becomes \<open>2 ^ 53\<close>. The identifier counters start at 1 and grow by one for each row
  stored; they are incremented as integers.
\<close>

type_synonym js_double = "int \<times> int"

definition double_value :: "js_double \<Rightarrow> real" where
  "double_value x = real_of_int (fst x) * 2 powr real_of_int (snd x)"

definition floor_log2_ratio :: "int \<Rightarrow> int \<Rightarrow> int" where
  "floor_log2_ratio a b =
     (let d = bitlen a - bitlen b
      in if (if d \<ge> 0 then a \<ge> b * 2 ^ nat d else a * 2 ^ nat (- d) \<ge> b)
         then d else d - 1)"

definition nearest_even :: "int \<Rightarrow> int \<Rightarrow> int" where
  "nearest_even n dd =
     (let q = n div dd; r = n mod dd
      in if 2 * r < dd then q
         else if 2 * r > dd then q + 1
         else if even q then q else q + 1)"

definition round_frac :: "int \<Rightarrow> int \<Rightarrow> js_double" where
  "round_frac a b =
     (if a = 0 then (0, 0)
      else
        let sh = 52 - floor_log2_ratio a b
        in (if sh \<ge> 0 then nearest_even (a * 2 ^ nat sh) b
            else nearest_even a (b * 2 ^ nat (- sh)),
            - sh))"

definition js_divide :: "int \<Rightarrow> int \<Rightarrow> js_double" where
  "js_divide a b = round_frac a b"

definition js_times :: "js_double \<Rightarrow> int \<Rightarrow> js_double" where
  "js_times x c = (let y = round_frac (fst x * c) 1 in (fst y, snd y + snd x))"

definition Math_round :: "js_double \<Rightarrow> int" where
  "Math_round x =
     (if snd x \<ge> 0 then fst x * 2 ^ nat (snd x)
      else (fst x + 2 ^ nat (- snd x - 1)) div 2 ^ nat (- snd x))"

definition nearest_double :: "int \<Rightarrow> int" where
  "nearest_double n =
     (let x = round_frac \<bar>n\<bar> 1;
          v = (if snd x \<ge> 0 then fst x * 2 ^ nat (snd x) else fst x div 2 ^ nat (- snd x))
      in if n < 0 then - v else v)"

definition js_plus :: "int \<Rightarrow> int \<Rightarrow> int" where
  "js_plus a b = nearest_double (a + b)"

subsection \<open>The progress state machine\<close>

fun determineProgressStatus :: "int \<Rightarrow> int \<Rightarrow> progress_status \<Rightarrow> progress_status" where
  "determineProgressStatus upvotes_n emailsSent_n currentStatus =
     (if currentStatus \<in> set [official_acknowledgment, planning_stage, implementation, completed]
      then currentStatus
      else if emailsSent_n \<ge> 50 then email_campaign_active
      else if upvotes_n \<ge> 25 then community_support
      else idea_submitted)"

subsection \<open>Mutating operations\<close>

text \<open>
  Every operation takes the store and returns its result together with the store it
  leaves. \<open>now\<close> is the value of \<open>new Date()\<close> during the call.
\<close>

definition createUser :: "store \<Rightarrow> insert_user \<Rightarrow> user \<times> store" where
  "createUser s insertUser =
     (let id = userId s;
          s1 = s\<lparr>userId := id + 1\<rparr>;
          usr = \<lparr>u_id = id, u_username = iu_username insertUser,
                 u_password = iu_password insertUser, u_email = iu_email insertUser\<rparr>
      in (usr, s1\<lparr>users := Map_set id usr (users s1)\<rparr>))"

definition createActivity :: "store \<Rightarrow> insert_activity \<Rightarrow> int \<Rightarrow> activity \<times> store" where
  "createActivity s insertActivity now =
     (let id = activityId s;
          s1 = s\<lparr>activityId := id + 1\<rparr>;
          act = \<lparr>a_id = id, a_projectId = ia_projectId insertActivity,
                 a_activityType = ia_activityType insertActivity,
                 a_actorName = string_or_null (ia_actorName insertActivity),
                 a_description = ia_description insertActivity,
                 a_createdAt = now\<rparr>
      in (act, s1\<lparr>activities := Map_set id act (activities s1)\<rparr>))"

definition createProject :: "store \<Rightarrow> insert_project \<Rightarrow> int \<Rightarrow> project \<times> store" where
  "createProject s insertProject now =
     (let id = projectId s;
          s1 = s\<lparr>projectId := id + 1\<rparr>;
          proj = \<lparr>p_id = id, p_title = ip_title insertProject,
                  p_description = ip_description insertProject,
                  p_issueType = ip_issueType insertProject,
                  p_location = ip_location insertProject,
                  p_latitude = ip_latitude insertProject,
                  p_longitude = ip_longitude insertProject,
                  p_urgencyLevel = ip_urgencyLevel insertProject,
                  p_contactEmail = ip_contactEmail insertProject,
                  p_emailTemplate = ip_emailTemplate insertProject,
                  p_emailSubject = ip_emailSubject insertProject,
                  p_emailRecipient = ip_emailRecipient insertProject,
                  p_upvotes = 0, p_emailsSent = 0, p_progressStatus = idea_submitted,
                  p_createdAt = now,
                  p_createdBy = number_or_null (ip_createdBy insertProject)\<rparr>;
          s2 = s1\<lparr>projects := Map_set id proj (projects s1)\<rparr>;
          s3 = snd (createActivity s2
                 \<lparr>ia_projectId = id, ia_activityType = utf16 ''project_created'',
                  ia_actorName = Some (utf16 ''Anonymous User''),
                  ia_description = utf16 ''New issue submitted: '' @ p_title proj\<rparr> now)
      in (proj, s3))"

text \<open>
  \<open>{ ...project, ...updates }\<close>: a field present in \<open>updates\<close> replaces the project's;
  \<open>None\<close> stands for a field that \<open>updates\<close> does not have.
\<close>

definition merge_updates :: "project \<Rightarrow> project_updates \<Rightarrow> project" where
  "merge_updates proj updates =
     \<lparr>p_id = (case up_id updates of Some x \<Rightarrow> x | None \<Rightarrow> p_id proj),
      p_title = (case up_title updates of Some x \<Rightarrow> x | None \<Rightarrow> p_title proj),
      p_description = (case up_description updates of Some x \<Rightarrow> x | None \<Rightarrow> p_description proj),
      p_issueType = (case up_issueType updates of Some x \<Rightarrow> x | None \<Rightarrow> p_issueType proj),
      p_location = (case up_location updates of Some x \<Rightarrow> x | None \<Rightarrow> p_location proj),
      p_latitude = (case up_latitude updates of Some x \<Rightarrow> x | None \<Rightarrow> p_latitude proj),
      p_longitude = (case up_longitude updates of Some x \<Rightarrow> x | None \<Rightarrow> p_longitude proj),
      p_urgencyLevel = (case up_urgencyLevel updates of Some x \<Rightarrow> x | None \<Rightarrow> p_urgencyLevel proj),
      p_contactEmail = (case up_contactEmail updates of Some x \<Rightarrow> x | None \<Rightarrow> p_contactEmail proj),
      p_emailTemplate = (case up_emailTemplate updates of Some x \<Rightarrow> x | None \<Rightarrow> p_emailTemplate proj),
      p_emailSubject = (case up_emailSubject updates of Some x \<Rightarrow> x | None \<Rightarrow> p_emailSubject proj),
      p_emailRecipient = (case up_emailRecipient updates of Some x \<Rightarrow> x | None \<Rightarrow> p_emailRecipient proj),
      p_upvotes = (case up_upvotes updates of Some x \<Rightarrow> x | None \<Rightarrow> p_upvotes proj),
      p_emailsSent = (case up_emailsSent updates of Some x \<Rightarrow> x | None \<Rightarrow> p_emailsSent proj),
      p_progressStatus = (case up_progressStatus updates of Some x \<Rightarrow> x | None \<Rightarrow> p_progressStatus proj),
      p_createdAt = (case up_createdAt updates of Some x \<Rightarrow> x | None \<Rightarrow> p_createdAt proj),
      p_createdBy = (case up_createdBy updates of Some x \<Rightarrow> x | None \<Rightarrow> p_createdBy proj)\<rparr>"

text \<open>The empty \<open>updates\<close> object, to be extended field by field.\<close>

definition no_updates :: project_updates where
  "no_updates =
     \<lparr>up_id = None, up_title = None, up_description = None, up_issueType = None,
      up_location = None, up_latitude = None, up_longitude = None, up_urgencyLevel = None,
      up_contactEmail = None, up_emailTemplate = None, up_emailSubject = None,
      up_emailRecipient = None, up_upvotes = None, up_emailsSent = None,
      up_progressStatus = None, up_createdAt = None, up_createdBy = None\<rparr>"

text \<open>
  \<open>updateProject\<close> returns \<open>None\<close> for \<open>undefined\<close>. Every label of the status enum is
  a non-empty string, so \<open>updates.progressStatus && ...\<close> asks only whether the field
  is present.
\<close>

definition updateProject ::
  "store \<Rightarrow> int \<Rightarrow> project_updates \<Rightarrow> int \<Rightarrow> project option \<times> store" where
  "updateProject s pid updates now =
     (case Map_get (projects s) pid of
        None \<Rightarrow> (None, s)
      | Some proj \<Rightarrow>
          (let updatedProject = merge_updates proj updates;
               s1 = s\<lparr>projects := Map_set pid updatedProject (projects s)\<rparr>;
               s2 = (case up_progressStatus updates of
                       None \<Rightarrow> s1
                     | Some st \<Rightarrow>
                         if st \<noteq> p_progressStatus proj
                         then snd (createActivity s1
                                \<lparr>ia_projectId = pid, ia_activityType = utf16 ''status_change'',
                                 ia_actorName = Some (utf16 ''System''),
                                 ia_description =
                                   utf16 ''Project status updated to: '' @ progress_status_name st\<rparr> now)
                         else s1)
           in (Some updatedProject, s2)))"

definition createUpvote :: "store \<Rightarrow> insert_upvote \<Rightarrow> int \<Rightarrow> upvote \<times> store" where
  "createUpvote s insertUpvote now =
     (let id = upvoteId s;
          s1 = s\<lparr>upvoteId := id + 1\<rparr>;
          upv = \<lparr>v_id = id, v_projectId = iv_projectId insertUpvote,
                 v_userId = number_or_null (iv_userId insertUpvote),
                 v_ipAddress = iv_ipAddress insertUpvote, v_createdAt = now\<rparr>;
          s2 = s1\<lparr>upvotes := Map_set id upv (upvotes s1)\<rparr>
      in case Map_get (projects s2) (v_projectId upv) of
           None \<Rightarrow> (upv, s2)
         | Some proj \<Rightarrow>
             (let s3 = snd (updateProject s2 (p_id proj)
                        (no_updates\<lparr>up_upvotes := Some (js_plus (p_upvotes proj) 1),
                           up_progressStatus := Some (determineProgressStatus
                             (js_plus (p_upvotes proj) 1) (p_emailsSent proj)
                             (p_progressStatus proj))\<rparr>)
                        now);
                  s4 = snd (createActivity s3
                        \<lparr>ia_projectId = p_id proj, ia_activityType = utf16 ''upvote'',
                         ia_actorName = Some (utf16 ''Anonymous User''),
                         ia_description = utf16 ''Someone upvoted: '' @ p_title proj\<rparr> now)
              in (upv, s4)))"

definition createEmail :: "store \<Rightarrow> insert_email \<Rightarrow> int \<Rightarrow> email \<times> store" where
  "createEmail s insertEmail now =
     (let id = emailId s;
          s1 = s\<lparr>emailId := id + 1\<rparr>;
          eml = \<lparr>e_id = id, e_projectId = ie_projectId insertEmail,
                 e_senderEmail = string_or_null (ie_senderEmail insertEmail),
                 e_senderName = string_or_null (ie_senderName insertEmail),
                 e_customContent = string_or_null (ie_customContent insertEmail),
                 e_sentAt = now\<rparr>;
          s2 = s1\<lparr>emails := Map_set id eml (emails s1)\<rparr>
      in case Map_get (projects s2) (e_projectId eml) of
           None \<Rightarrow> (eml, s2)
         | Some proj \<Rightarrow>
             (let s3 = snd (updateProject s2 (p_id proj)
                        (no_updates\<lparr>up_emailsSent := Some (js_plus (p_emailsSent proj) 1),
                           up_progressStatus := Some (determineProgressStatus
                             (p_upvotes proj) (js_plus (p_emailsSent proj) 1)
                             (p_progressStatus proj))\<rparr>)
                        now);
                  s4 = snd (createActivity s3
                        \<lparr>ia_projectId = p_id proj, ia_activityType = utf16 ''email_sent'',
                         ia_actorName = Some (case e_senderName eml of
                                                None \<Rightarrow> utf16 ''Anonymous User''
                                              | Some n \<Rightarrow> n),
                         ia_description = utf16 ''Email sent regarding: '' @ p_title proj\<rparr> now)
              in (eml, s4)))"

definition createComment :: "store \<Rightarrow> insert_comment \<Rightarrow> int \<Rightarrow> comment \<times> store" where
  "createComment s insertComment now =
     (let id = commentId s;
          s1 = s\<lparr>commentId := id + 1\<rparr>;
          cmt = \<lparr>c_id = id, c_projectId = ic_projectId insertComment,
                 c_text = ic_text insertComment,
                 c_commenterName = ic_commenterName insertComment, c_createdAt = now\<rparr>;
          s2 = s1\<lparr>comments := Map_set id cmt (comments s1)\<rparr>;
          title = (case Map_get (projects s2) (c_projectId cmt) of
                     None \<Rightarrow> utf16 ''Unknown Project''
                   | Some proj \<Rightarrow>
                       if p_title proj = [] then utf16 ''Unknown Project'' else p_title proj);
          s3 = snd (createActivity s2
                 \<lparr>ia_projectId = c_projectId cmt, ia_activityType = utf16 ''comment_added'',
                  ia_actorName = Some (c_commenterName cmt),
                  ia_description = utf16 ''New comment on project: '' @ title\<rparr> now)
      in (cmt, s3))"

subsection \<open>Read operations\<close>

definition getProjectById :: "store \<Rightarrow> int \<Rightarrow> project option" where
  "getProjectById s pid = Map_get (projects s) pid"

definition getUpvotesByProject :: "store \<Rightarrow> int \<Rightarrow> upvote list" where
  "getUpvotesByProject s pid = filter (\<lambda>u. v_projectId u = pid) (Map_values (upvotes s))"

definition hasUserUpvoted :: "store \<Rightarrow> int \<Rightarrow> js_string \<Rightarrow> bool" where
  "hasUserUpvoted s pid ipAddress =
     list_ex (\<lambda>u. v_projectId u = pid \<and> v_ipAddress u = ipAddress) (Map_values (upvotes s))"

text \<open>
  \<open>getEmailsByProject\<close> sorts by \<open>sentAt\<close>, newest first; \<open>Array.prototype.sort\<close> is
  stable, as \<open>sort_key\<close> is.
\<close>

definition getEmailsByProject :: "store \<Rightarrow> int \<Rightarrow> email list" where
  "getEmailsByProject s pid =
     sort_key (\<lambda>e. - e_sentAt e) (filter (\<lambda>e. e_projectId e = pid) (Map_values (emails s)))"

subsection \<open>Statistics\<close>

text \<open>
  \<open>Math.round((issuesResolved / totalIssues) * 100)\<close>: a division and a multiplication
  of doubles, then \<open>Math.round\<close>.
\<close>

record community_stats =
  activeIssues :: int
  emailsSent :: int
  issuesResolved :: int
  successRate :: int

definition getCommunityStats :: "store \<Rightarrow> community_stats" where
  "getCommunityStats s =
     (let projs = Map_values (projects s);
          active = int (length (filter (\<lambda>p. p_progressStatus p \<noteq> completed) projs));
          resolved = int (length (filter (\<lambda>p. p_progressStatus p = completed) projs));
          totalIssues = int (length projs);
          totalEmails = int (length (Map_values (emails s)));
          rate = (if totalIssues > 0
                  then Math_round (js_times (js_divide resolved totalIssues) 100)
                  else 0)
      in \<lparr>activeIssues = active, emailsSent = totalEmails,
          issuesResolved = resolved, successRate = rate\<rparr>)"

subsection \<open>Listing, filtering and searching\<close>

text \<open>
  \<open>.sort((a, b) => b.upvotes - a.upvotes)\<close> is a stable sort by descending upvotes:
  \<open>sort_key\<close> on the negated count, which is stable too.
\<close>

definition sort_by_upvotes :: "project list \<Rightarrow> project list" where
  "sort_by_upvotes ps = sort_key (\<lambda>p. - p_upvotes p) ps"

definition getAllProjects :: "store \<Rightarrow> project list" where
  "getAllProjects s = sort_by_upvotes (Map_values (projects s))"

definition getProjectsByType :: "store \<Rightarrow> js_string \<Rightarrow> project list" where
  "getProjectsByType s issueType =
     sort_by_upvotes
       (filter (\<lambda>p. issue_type_name (p_issueType p) = issueType) (Map_values (projects s)))"

definition getProjectsByStatus :: "store \<Rightarrow> js_string \<Rightarrow> project list" where
  "getProjectsByStatus s progressStatus =
     sort_by_upvotes
       (filter (\<lambda>p. progress_status_name (p_progressStatus p) = progressStatus)
          (Map_values (projects s)))"

text \<open>
  \<open>String.prototype.toLowerCase\<close> is the runtime's: it applies the case mappings of the
  Unicode character database, which are no part of the program. \<open>searchProjects\<close>, and
  \<open>normalizeEmail\<close> below, take it as the parameter \<open>toLowerCase\<close>. \<open>String_includes\<close>
  is \<open>String.prototype.includes\<close>: the argument occurs as a contiguous piece of the
  string.
\<close>

primrec String_includes :: "js_string \<Rightarrow> js_string \<Rightarrow> bool" where
  "String_includes [] q = (q = [])"
| "String_includes (c # cs) q = (prefix q (c # cs) \<or> String_includes cs q)"

definition searchProjects ::
  "(js_string \<Rightarrow> js_string) \<Rightarrow> store \<Rightarrow> js_string \<Rightarrow> project list" where
  "searchProjects toLowerCase s query =
     (let lowerQuery = toLowerCase query
      in sort_by_upvotes
           (filter (\<lambda>p. String_includes (toLowerCase (p_title p)) lowerQuery
                       \<or> String_includes (toLowerCase (p_description p)) lowerQuery
                       \<or> String_includes (toLowerCase (p_location p)) lowerQuery)
              (Map_values (projects s))))"

text \<open>
  Letter case in ASCII, for comparison with the code. Two code units are the same
  letter up to case when they are equal, or one of them is a capital letter \<open>A\<close> to \<open>Z\<close>
  (65 to 90) and the other one its small letter, 32 above. A text contains a query up
  to case when, at some position of the text, the next code units are as many as the
  query has and are the same letters up to case, one by one. A text is in ASCII when
  its code units are below 128; on such a text \<open>toLowerCase\<close> returns \<open>ascii_lower\<close> of
  it, the capital letters replaced by the small ones. \<open>ascii_texts\<close> holds of a project
  whose title, description and location are in ASCII.
\<close>

definition same_letter :: "nat \<Rightarrow> nat \<Rightarrow> bool" where
  "same_letter a b =
     (a = b \<or> (65 \<le> a \<and> a \<le> 90 \<and> b = a + 32) \<or> (65 \<le> b \<and> b \<le> 90 \<and> a = b + 32))"

definition contains_up_to_case :: "js_string \<Rightarrow> js_string \<Rightarrow> bool" where
  "contains_up_to_case txt query =
     list_ex (\<lambda>i. list_all2 same_letter (take (length query) (drop i txt)) query)
       [0 ..< length txt + 1]"

definition is_ascii :: "js_string \<Rightarrow> bool" where
  "is_ascii txt = list_all (\<lambda>c. c < 128) txt"

definition ascii_lower :: "js_string \<Rightarrow> js_string" where
  "ascii_lower txt = map (\<lambda>c. if 65 \<le> c \<and> c \<le> 90 then c + 32 else c) txt"

definition ascii_texts :: "project \<Rightarrow> bool" where
  "ascii_texts p = (is_ascii (p_title p) \<and> is_ascii (p_description p) \<and> is_ascii (p_location p))"

section \<open>The mail dispatcher (server/email.ts)\<close>

text \<open>
  \<open>sendEmail\<close> depends on the process environment: the flag \<open>SIMULATE_EMAIL_SENDING\<close>
  and the SMTP transport, whose \<open>sendMail\<close> either resolves (\<open>None\<close>) or throws. Both are
  fields of \<open>mail_env\<close>. A thrown value is an \<open>Error\<close> with its message, or anything else.
\<close>

datatype thrown = Error js_string | Not_an_Error

record mail_options =
  mo_from :: js_string
  mo_to :: js_string
  mo_subject :: js_string
  mo_text :: js_string
  mo_html :: "js_string option"
  mo_senderName :: "js_string option"

record smtp_message =
  sm_from :: js_string
  sm_to :: js_string
  sm_subject :: js_string
  sm_text :: js_string
  sm_html :: js_string

record mail_env =
  SIMULATE_EMAIL_SENDING :: bool
  transporter_sendMail :: "smtp_message \<Rightarrow> thrown option"

record send_result =
  success :: bool
  message :: js_string

text \<open>\<open>text.replace(/\n/g, '<br>')\<close>\<close>

primrec newlines_to_br :: "js_string \<Rightarrow> js_string" where
  "newlines_to_br [] = []"
| "newlines_to_br (c # cs) =
     (if c = 10 then utf16 ''<br>'' @ newlines_to_br cs else c # newlines_to_br cs)"

definition sendEmail :: "mail_env \<Rightarrow> mail_options \<Rightarrow> send_result" where
  "sendEmail env options =
     (if SIMULATE_EMAIL_SENDING env
      then \<lparr>success = True, message = utf16 ''Email simulation successful''\<rparr>
      else
        let mailOptions =
              \<lparr>sm_from = (case string_or_null (mo_senderName options) of
                            Some n \<Rightarrow> n @ utf16 '' <'' @ mo_from options @ utf16 ''>''
                          | None \<Rightarrow> mo_from options),
               sm_to = mo_to options,
               sm_subject = mo_subject options,
               sm_text = mo_text options,
               sm_html = (case string_or_null (mo_html options) of
                            Some h \<Rightarrow> h
                          | None \<Rightarrow> newlines_to_br (mo_text options))\<rparr>
        in case transporter_sendMail env mailOptions of
             None \<Rightarrow> \<lparr>success = True, message = utf16 ''Email sent successfully''\<rparr>
           | Some err \<Rightarrow>
               \<lparr>success = False,
                message = utf16 ''Failed to send email: ''
                  @ (case err of Error msg \<Rightarrow> msg | Not_an_Error \<Rightarrow> utf16 ''Unknown error'')\<rparr>)"

text \<open>
  \<open>normalizeEmail\<close>. White space, for \<open>trim\<close> and for the class \<open>\s\<close>, is what the
  language calls WhiteSpace and LineTerminator: tab, line feed, vertical tab, form
  feed, carriage return, space, no-break space, U+1680, U+2000 to U+200A, U+2028,
  U+2029, U+202F, U+205F, U+3000 and U+FEFF. The pattern
  \<open>/^[^\s@]+@[^\s@]+\.[^\s@]+$/\<close> matches when the text before the first \<open>@\<close> (64) is
  not empty, no code unit but that \<open>@\<close> is white space or \<open>@\<close>, and the text after it has
  a dot (46) that is neither its first nor its last code unit.
\<close>

definition is_space :: "nat \<Rightarrow> bool" where
  "is_space c =
     (c \<in> set [9, 10, 11, 12, 13, 32, 160, 5760, 8232, 8233, 8239, 8287, 12288, 65279]
      \<or> (8192 \<le> c \<and> c \<le> 8202))"

definition trim :: "js_string \<Rightarrow> js_string" where
  "trim str = rev (dropWhile is_space (rev (dropWhile is_space str)))"

definition matches_email_pattern :: "js_string \<Rightarrow> bool" where
  "matches_email_pattern str =
     (let plain = (\<lambda>c. \<not> is_space c \<and> c \<noteq> 64);
          name = takeWhile (\<lambda>c. c \<noteq> 64) str;
          rest = dropWhile (\<lambda>c. c \<noteq> 64) str
      in name \<noteq> [] \<and> list_all plain name \<and> rest \<noteq> []
         \<and> list_all plain (tl rest) \<and> 46 \<in> set (butlast (tl (tl rest))))"

definition normalizeEmail ::
  "(js_string \<Rightarrow> js_string) \<Rightarrow> js_string option \<Rightarrow> js_string option" where
  "normalizeEmail toLowerCase email_arg =
     (case string_or_null email_arg of
        None \<Rightarrow> None
      | Some em \<Rightarrow>
          (let em1 = toLowerCase (trim em)
           in if \<not> matches_email_pattern em1 then None else Some em1))"

section \<open>The request handlers (registerRoutes)\<close>

text \<open>
  A response is its status code and its JSON body; \<open>res.json\<close> alone answers with 200.
  A handler takes the store and returns the response with the store it leaves.
\<close>

datatype response =
  Json_message int js_string
  | Json_project int "project option"
  | Json_email int email

text \<open>
  \<open>POST /api/projects/:id/upvote\<close>. \<open>parsed_id\<close> is \<open>parseInt(req.params.id)\<close>, \<open>None\<close>
  for \<open>NaN\<close>; \<open>req_ip\<close> and \<open>remoteAddress\<close> are \<open>req.ip\<close> and
  \<open>req.socket.remoteAddress\<close>. \<open>insertUpvoteSchema.parse\<close> is the zod library's: it
  returns the data it is given or throws a \<open>ZodError\<close>, whose message \<open>schema_error\<close>
  gives. No other statement of the handler throws.
\<close>

definition client_ip :: "js_string option \<Rightarrow> js_string option \<Rightarrow> js_string" where
  "client_ip req_ip remoteAddress =
     (case string_or_null req_ip of
        Some a \<Rightarrow> a
      | None \<Rightarrow> (case string_or_null remoteAddress of Some a \<Rightarrow> a | None \<Rightarrow> utf16 ''unknown''))"

definition upvote_route ::
  "(insert_upvote \<Rightarrow> js_string option) \<Rightarrow> store \<Rightarrow> int option \<Rightarrow> js_string option \<Rightarrow> js_string option
     \<Rightarrow> int \<Rightarrow> response \<times> store" where
  "upvote_route schema_error s parsed_id req_ip remoteAddress now =
     (case parsed_id of
        None \<Rightarrow> (Json_message 400 (utf16 ''Invalid project ID''), s)
      | Some pid \<Rightarrow>
          (case getProjectById s pid of
             None \<Rightarrow> (Json_message 404 (utf16 ''Project not found''), s)
           | Some proj \<Rightarrow>
               (let ipAddress = client_ip req_ip remoteAddress
                in if hasUserUpvoted s pid ipAddress
                   then (Json_message 400 (utf16 ''You have already upvoted this project''), s)
                   else
                     (let upvoteData = \<lparr>iv_projectId = pid, iv_userId = None,
                                          iv_ipAddress = ipAddress\<rparr>
                      in case schema_error upvoteData of
                           Some msg \<Rightarrow> (Json_message 400 msg, s)
                         | None \<Rightarrow>
                             (let s1 = snd (createUpvote s upvoteData now)
                              in (Json_project 200 (getProjectById s1 pid), s1))))))"

text \<open>
  \<open>POST /api/send-email\<close>. \<open>body\<close> is the outcome of \<open>insertEmailSchema.parse(req.body)\<close>:
  the message of the \<open>ZodError\<close>, or the validated data. \<open>outgoing_mail\<close> is the argument
  the handler builds for \<open>sendEmail\<close>; \<open>toLowerCase\<close> is the runtime's, as above.
\<close>

definition outgoing_mail ::
  "(js_string \<Rightarrow> js_string) \<Rightarrow> project \<Rightarrow> insert_email \<Rightarrow> mail_options" where
  "outgoing_mail toLowerCase proj validatedData =
     (let emailContent = (case string_or_null (ie_customContent validatedData) of
                            Some c \<Rightarrow> c
                          | None \<Rightarrow> p_emailTemplate proj);
          sender = (case normalizeEmail toLowerCase (ie_senderEmail validatedData) of
                      Some a \<Rightarrow> a
                    | None \<Rightarrow> utf16 ''noreply@civicvoice.org'')
      in \<lparr>mo_from = sender, mo_to = p_emailRecipient proj,
          mo_subject = p_emailSubject proj, mo_text = emailContent,
          mo_html = None, mo_senderName = ie_senderName validatedData\<rparr>)"

definition send_email_route ::
  "(js_string \<Rightarrow> js_string) \<Rightarrow> mail_env \<Rightarrow> store \<Rightarrow> js_string + insert_email \<Rightarrow> int
     \<Rightarrow> response \<times> store" where
  "send_email_route toLowerCase env s body now =
     (case body of
        Inl msg \<Rightarrow> (Json_message 400 msg, s)
      | Inr validatedData \<Rightarrow>
          (case getProjectById s (ie_projectId validatedData) of
             None \<Rightarrow> (Json_message 404 (utf16 ''Project not found''), s)
           | Some proj \<Rightarrow>
               (let result = sendEmail env (outgoing_mail toLowerCase proj validatedData)
                in if \<not> success result
                   then (Json_message 500 (message result), s)
                   else
                     (let created = createEmail s validatedData now
                      in (Json_email 201 (fst created), snd created)))))"

section \<open>Construction and the sample data\<close>

definition empty_store :: store where
  "empty_store =
     \<lparr>users = [], projects = [], upvotes = [], emails = [], activities = [], comments = [],
      userId = 1, projectId = 1, upvoteId = 1, emailId = 1, activityId = 1, commentId = 1\<rparr>"

definition day_ms :: int where
  "day_ms = 24 * 60 * 60 * 1000"

text \<open>The three drafted emails of the sample projects.\<close>

definition emailTemplate1 :: js_string where
  "emailTemplate1 =
     utf16 ''Dear Transportation Department,\<newline>\<newline>I am writing to request the installation of a crosswalk at the intersection of Lincoln Avenue and 5th Street. This intersection experiences high pedestrian traffic, particularly during rush hours, yet lacks a safe crossing option for pedestrians.\<newline>\<newline>As a regular commuter through this area, I have witnessed several near-miss incidents between vehicles and pedestrians attempting to cross this busy intersection. The lack of a designated crosswalk creates a medium-urgency safety concern for our community members, especially children and elderly individuals who frequently use this route.\<newline>\<newline>The installation of a crosswalk at this location would significantly improve pedestrian safety and traffic flow. Many residents in the surrounding neighborhoods would benefit from this infrastructure improvement, as it connects residential areas to local businesses and public transportation stops.\<newline>\<newline>I would appreciate your department's consideration of this request. Please feel free to contact me at the information provided below if you require any additional details or community input regarding this matter.\<newline>\<newline>Thank you for your attention to this important safety concern.\<newline>\<newline>Sincerely,\<newline>[Your Name]\<newline>[Optional Contact Information]''"

definition emailTemplate2 :: js_string where
  "emailTemplate2 =
     utf16 ''Dear Public Works Department,\<newline>\<newline>I am writing to bring to your attention a sidewalk in serious disrepair on Oak Street between 10th and 11th Avenue. The sidewalk has multiple large cracks and uneven surfaces that create significant accessibility challenges.\<newline>\<newline>This damaged sidewalk poses a particular hardship for individuals using wheelchairs, walkers, or strollers. I have personally observed wheelchair users having to navigate into the street to bypass the damaged section, creating unnecessary safety risks.\<newline>\<newline>Repairing this sidewalk would greatly improve accessibility in our neighborhood and demonstrate our city's commitment to providing safe infrastructure for all residents regardless of mobility needs.\<newline>\<newline>I would appreciate your attention to this matter and would be happy to provide additional information if needed.\<newline>\<newline>Thank you for your consideration.\<newline>\<newline>Sincerely,\<newline>[Your Name]''"

definition emailTemplate3 :: js_string where
  "emailTemplate3 =
     utf16 ''Dear Street Maintenance Department,\<newline>\<newline>I am writing to report a large, hazardous pothole on Main Street near the intersection with Broadway. This pothole is approximately 2 feet wide and 8 inches deep, posing a significant risk to vehicles and causing traffic disruptions, especially during peak hours.\<newline>\<newline>Over the past two weeks, I have observed multiple vehicles sustaining damage after hitting this pothole, and the situation worsens during rainy weather when the pothole fills with water and becomes less visible to drivers.\<newline>\<newline>This section of Main Street experiences heavy traffic throughout the day, and the pothole has already caused several near-accidents as drivers swerve unexpectedly to avoid it. I believe this represents a high-urgency safety issue that requires prompt attention.\<newline>\<newline>I respectfully request that the maintenance team repair this pothole as soon as possible to prevent further vehicle damage and potential accidents. I would be happy to provide more specific location details or photos if needed.\<newline>\<newline>Thank you for your attention to this matter.\<newline>\<newline>Sincerely,\<newline>[Your Name]''"

definition project1 :: "int \<Rightarrow> int \<Rightarrow> project" where
  "project1 pid now =
     \<lparr>p_id = pid,
      p_title = utf16 ''Crosswalk Needed at Lincoln & 5th Ave'',
      p_description = utf16 ''Dangerous intersection with high pedestrian traffic and no safe crossing.'',
      p_issueType = crosswalk,
      p_location = utf16 ''Lincoln & 5th Ave'',
      p_latitude = utf16 ''37.7749'',
      p_longitude = utf16 ''-122.4194'',
      p_urgencyLevel = Some medium,
      p_contactEmail = Some (utf16 ''example@example.com''),
      p_emailTemplate = emailTemplate1,
      p_emailSubject = utf16 ''Request for Crosswalk Installation at Lincoln & 5th Avenue'',
      p_emailRecipient = utf16 ''citytransportation@cityname.gov'',
      p_upvotes = 45, p_emailsSent = 38, p_progressStatus = community_support,
      p_createdAt = now - 7 * day_ms,
      p_createdBy = None\<rparr>"

definition project2 :: "int \<Rightarrow> int \<Rightarrow> project" where
  "project2 pid now =
     \<lparr>p_id = pid,
      p_title = utf16 ''Broken Sidewalk on Oak Street'',
      p_description = utf16 ''Multiple large cracks making it difficult for wheelchair access.'',
      p_issueType = sidewalk,
      p_location = utf16 ''Oak Street'',
      p_latitude = utf16 ''37.7746'',
      p_longitude = utf16 ''-122.4184'',
      p_urgencyLevel = Some low,
      p_contactEmail = None,
      p_emailTemplate = emailTemplate2,
      p_emailSubject = utf16 ''Request for Sidewalk Repair on Oak Street'',
      p_emailRecipient = utf16 ''publicworks@cityname.gov'',
      p_upvotes = 23, p_emailsSent = 12, p_progressStatus = idea_submitted,
      p_createdAt = now - 14 * day_ms,
      p_createdBy = None\<rparr>"

definition project3 :: "int \<Rightarrow> int \<Rightarrow> project" where
  "project3 pid now =
     \<lparr>p_id = pid,
      p_title = utf16 ''Large Pothole on Main Street'',
      p_description = utf16 ''Deep pothole causing vehicle damage and traffic backup during rush hours.'',
      p_issueType = pothole,
      p_location = utf16 ''Main Street & Broadway'',
      p_latitude = utf16 ''37.7739'',
      p_longitude = utf16 ''-122.4174'',
      p_urgencyLevel = Some high,
      p_contactEmail = Some (utf16 ''reporter@example.com''),
      p_emailTemplate = emailTemplate3,
      p_emailSubject = utf16 ''Urgent: Hazardous Pothole on Main Street Requiring Immediate Repair'',
      p_emailRecipient = utf16 ''streetmaintenance@cityname.gov'',
      p_upvotes = 67, p_emailsSent = 52, p_progressStatus = official_acknowledgment,
      p_createdAt = now - 21 * day_ms,
      p_createdBy = None\<rparr>"

text \<open>
  \<open>addSampleData\<close> takes three project ids and three comment ids from the counters,
  stores the projects, records three activities and stores the comments. No upvote
  and no email row is stored.
\<close>

definition addSampleData :: "store \<Rightarrow> int \<Rightarrow> store" where
  "addSampleData s now =
     (let pr1 = project1 (projectId s) now;
          s1 = s\<lparr>projectId := projectId s + 1\<rparr>;
          pr2 = project2 (projectId s1) now;
          s2 = s1\<lparr>projectId := projectId s1 + 1\<rparr>;
          pr3 = project3 (projectId s2) now;
          s3 = s2\<lparr>projectId := projectId s2 + 1\<rparr>;
          s4 = s3\<lparr>projects := Map_set (p_id pr1) pr1 (projects s3)\<rparr>;
          s5 = s4\<lparr>projects := Map_set (p_id pr2) pr2 (projects s4)\<rparr>;
          s6 = s5\<lparr>projects := Map_set (p_id pr3) pr3 (projects s5)\<rparr>;
          s7 = snd (createActivity s6
                 \<lparr>ia_projectId = p_id pr1, ia_activityType = utf16 ''email_sent'',
                  ia_actorName = Some (utf16 ''Alex Johnson''),
                  ia_description = utf16 ''Sent an email about Crosswalk Needed at Lincoln & 5th Ave''\<rparr>
                 now);
          s8 = snd (createActivity s7
                 \<lparr>ia_projectId = p_id pr3, ia_activityType = utf16 ''status_change'',
                  ia_actorName = Some (utf16 ''City Council''),
                  ia_description = utf16 ''Acknowledged Large Pothole on Main Street''\<rparr> now);
          s9 = snd (createActivity s8
                 \<lparr>ia_projectId = p_id pr2, ia_activityType = utf16 ''project_created'',
                  ia_actorName = Some (utf16 ''Maria Lopez''),
                  ia_description = utf16 ''Submitted a new issue: Broken Sidewalk on Oak Street''\<rparr>
                 now);
          comment1 = \<lparr>c_id = commentId s9, c_projectId = p_id pr1,
                      c_text = utf16 ''I cross this intersection daily and it's very dangerous. We definitely need a crosswalk here.'',
                      c_commenterName = utf16 ''David Chen'', c_createdAt = now - 5 * day_ms\<rparr>;
          s10 = s9\<lparr>commentId := commentId s9 + 1\<rparr>;
          comment2 = \<lparr>c_id = commentId s10, c_projectId = p_id pr1,
                      c_text = utf16 ''I witnessed a near-miss accident here last week. The city needs to take action quickly.'',
                      c_commenterName = utf16 ''Sarah Williams'', c_createdAt = now - 3 * day_ms\<rparr>;
          s11 = s10\<lparr>commentId := commentId s10 + 1\<rparr>;
          comment3 = \<lparr>c_id = commentId s11, c_projectId = p_id pr3,
                      c_text = utf16 ''My car was damaged by this pothole. It's much worse after the recent rain.'',
                      c_commenterName = utf16 ''Michael Rodriguez'', c_createdAt = now - 10 * day_ms\<rparr>;
          s12 = s11\<lparr>commentId := commentId s11 + 1\<rparr>;
          s13 = s12\<lparr>comments := Map_set (c_id comment1) comment1 (comments s12)\<rparr>;
          s14 = s13\<lparr>comments := Map_set (c_id comment2) comment2 (comments s13)\<rparr>;
          s15 = s14\<lparr>comments := Map_set (c_id comment3) comment3 (comments s14)\<rparr>
      in s15)"

text \<open>The constructor: empty collections, counters at 1, then the sample data.\<close>

definition new_MemStorage :: "int \<Rightarrow> store" where
  "new_MemStorage now = addSampleData empty_store now"

section \<open>Sequences of store operations\<close>

datatype store_op =
  CreateUser insert_user
  | CreateProject insert_project int
  | UpdateProject int project_updates int
  | CreateUpvote insert_upvote int
  | CreateEmail insert_email int
  | CreateActivity insert_activity int
  | CreateComment insert_comment int

fun exec :: "store_op \<Rightarrow> store \<Rightarrow> store" where
  "exec (CreateUser i) s = snd (createUser s i)"
| "exec (CreateProject i now) s = snd (createProject s i now)"
| "exec (UpdateProject pid updates now) s = snd (updateProject s pid updates now)"
| "exec (CreateUpvote i now) s = snd (createUpvote s i now)"
| "exec (CreateEmail i now) s = snd (createEmail s i now)"
| "exec (CreateActivity i now) s = snd (createActivity s i now)"
| "exec (CreateComment i now) s = snd (createComment s i now)"

definition run :: "store_op list \<Rightarrow> store \<Rightarrow> store" where
  "run ops s = fold exec ops s"

text \<open>The operations that create a row, as opposed to the direct patch of a project.\<close>

fun is_create :: "store_op \<Rightarrow> bool" where
  "is_create (UpdateProject pid updates now) = False"
| "is_create _ = True"

text \<open>
  What the identifier counters guarantee: every key in use lies below the counter that
  hands out the next one (\<open>fresh_ids\<close>), and a project is stored under its own id.
\<close>

definition keys_below :: "int \<Rightarrow> 'v js_map \<Rightarrow> bool" where
  "keys_below n m = list_all (\<lambda>kv. fst kv < n) m"

definition fresh_ids :: "store \<Rightarrow> bool" where
  "fresh_ids s =
     (keys_below (userId s) (users s)
      \<and> keys_below (projectId s) (projects s)
      \<and> keys_below (upvoteId s) (upvotes s)
      \<and> keys_below (emailId s) (emails s)
      \<and> keys_below (activityId s) (activities s)
      \<and> keys_below (commentId s) (comments s))"

definition wf_store :: "store \<Rightarrow> bool" where
  "wf_store s = (list_all (\<lambda>kv. p_id (snd kv) = fst kv) (projects s) \<and> fresh_ids s)"

text \<open>The number of upvote rows and of email rows that refer to a project id.\<close>

definition upvote_count :: "store \<Rightarrow> int \<Rightarrow> int" where
  "upvote_count s k = int (length (getUpvotesByProject s k))"

definition email_count :: "store \<Rightarrow> int \<Rightarrow> int" where
  "email_count s k = int (length (getEmailsByProject s k))"

text \<open>
  \<open>follows s s' k P P'\<close>: from \<open>s\<close> to \<open>s'\<close> each counter of the project stored under
  \<open>k\<close> stayed as it was, with the rows that refer to \<open>k\<close>, or one row was added and the
  counter was incremented; its status is the old one or the one the state machine
  computes from the old one.
\<close>

definition follows :: "store \<Rightarrow> store \<Rightarrow> int \<Rightarrow> project \<Rightarrow> project \<Rightarrow> bool" where
  "follows s s' k P P' =
     (((upvote_count s' k = upvote_count s k \<and> p_upvotes P' = p_upvotes P)
        \<or> (upvote_count s' k = upvote_count s k + 1
            \<and> p_upvotes P' = js_plus (p_upvotes P) 1))
      \<and> ((email_count s' k = email_count s k \<and> p_emailsSent P' = p_emailsSent P)
           \<or> (email_count s' k = email_count s k + 1
               \<and> p_emailsSent P' = js_plus (p_emailsSent P) 1))
      \<and> (p_progressStatus P' = p_progressStatus P
           \<or> p_progressStatus P' =
               determineProgressStatus (p_upvotes P') (p_emailsSent P') (p_progressStatus P)))"

text \<open>
  \<open>tracks\<close> is what \<open>follows\<close> gives when steps are chained: rows are only added; a
  counter that starts at \<open>- 2 ^ 53\<close> or above and ends at \<open>2 ^ 53\<close> or below, counting
  the rows added, has moved by the number of rows added; and a status that the state
  machine does not touch is still there.
\<close>

definition tracks :: "store \<Rightarrow> store \<Rightarrow> int \<Rightarrow> project \<Rightarrow> project \<Rightarrow> bool" where
  "tracks s s' k P P' =
     (upvote_count s k \<le> upvote_count s' k
      \<and> email_count s k \<le> email_count s' k
      \<and> (- (2 ^ 53) \<le> p_upvotes P
           \<and> p_upvotes P + (upvote_count s' k - upvote_count s k) \<le> 2 ^ 53
           \<longrightarrow> p_upvotes P' = p_upvotes P + (upvote_count s' k - upvote_count s k))
      \<and> (- (2 ^ 53) \<le> p_emailsSent P
           \<and> p_emailsSent P + (email_count s' k - email_count s k) \<le> 2 ^ 53
           \<longrightarrow> p_emailsSent P' = p_emailsSent P + (email_count s' k - email_count s k))
      \<and> (p_progressStatus P
             \<in> set [official_acknowledgment, planning_stage, implementation, completed]
           \<longrightarrow> p_progressStatus P' = p_progressStatus P))"

section \<open>Example inputs\<close>

text \<open>The store right after construction, and a few requests, for the worked examples.\<close>

definition store0 :: store where
  "store0 = new_MemStorage 1700000000000"

definition upvote_on :: "int \<Rightarrow> js_string \<Rightarrow> insert_upvote" where
  "upvote_on pid ip = \<lparr>iv_projectId = pid, iv_userId = None, iv_ipAddress = ip\<rparr>"

definition email_on :: "int \<Rightarrow> insert_email" where
  "email_on pid =
     \<lparr>ie_projectId = pid, ie_senderEmail = Some (utf16 ''Ann@Example.org''),
      ie_senderName = Some (utf16 ''Ann''), ie_customContent = None\<rparr>"

definition comment_on :: "int \<Rightarrow> insert_comment" where
  "comment_on pid =
     \<lparr>ic_projectId = pid, ic_text = utf16 ''Please fix this soon.'', ic_commenterName = utf16 ''Ann''\<rparr>"

definition example_ops :: "store_op list" where
  "example_ops =
     [CreateUpvote (upvote_on 3 (utf16 ''1.2.3.4'')) 1700000000100,
      CreateEmail (email_on 3) 1700000000200,
      CreateUpvote (upvote_on 2 (utf16 ''1.2.3.4'')) 1700000000300,
      CreateUpvote (upvote_on 2 (utf16 ''5.6.7.8'')) 1700000000400,
      CreateComment (comment_on 2) 1700000000500]"

text \<open>
  A project whose title is in Greek capital letters: \<open>[927, 916, 927, 931]\<close> are the
  code units U+039F, U+0394, U+039F, U+03A3 of omicron, delta, omicron, sigma; the
  other texts are in small ASCII letters. \<open>toLowerCase_here\<close> gives the values of
  \<open>toLowerCase\<close> at the texts of the examples: the title becomes
  \<open>[959, 948, 959, 962]\<close>, with the final sigma U+03C2 in the last place, the single
  letter \<open>[931]\<close> becomes the sigma U+03C3 \<open>[963]\<close>, and a text in ASCII becomes
  \<open>ascii_lower\<close> of it.
\<close>

definition street_project :: insert_project where
  "street_project =
     \<lparr>ip_title = [927, 916, 927, 931], ip_description = utf16 ''unpaved road'',
      ip_issueType = other, ip_location = utf16 ''athens'',
      ip_latitude = utf16 ''37.9838'', ip_longitude = utf16 ''23.7275'',
      ip_urgencyLevel = None, ip_contactEmail = None,
      ip_emailTemplate = utf16 ''please pave the road'',
      ip_emailSubject = utf16 ''unpaved road'',
      ip_emailRecipient = utf16 ''publicworks@cityname.gov'', ip_createdBy = None\<rparr>"

definition street_store :: store where
  "street_store = snd (createProject store0 street_project 1700000000100)"

definition toLowerCase_here :: "js_string \<Rightarrow> js_string" where
  "toLowerCase_here t =
     (if t = [927, 916, 927, 931] then [959, 948, 959, 962]
      else if t = [931] then [963]
      else ascii_lower t)"

text \<open>
  Forty projects, twenty-three of them completed: thirty-seven projects are created
  after the three of the constructor (they get the ids 4 to 40), then the projects 1
  to 23 are set to \<open>completed\<close>. \<open>statuses\<close> lists the status stored under each
  project id.
\<close>

definition forty_ops :: "store_op list" where
  "forty_ops =
     map (\<lambda>i. CreateProject street_project 1700000000100) [4 .. 40]
     @ map (\<lambda>i. UpdateProject i (no_updates\<lparr>up_progressStatus := Some completed\<rparr>)
                   1700000000200) [1 .. 23]"

definition forty_projects :: store where
  "forty_projects = run forty_ops store0"

definition statuses :: "store \<Rightarrow> (int \<times> progress_status) list" where
  "statuses s = map (\<lambda>kv. (fst kv, p_progressStatus (snd kv))) (projects s)"

section \<open>Facts about the maps and the operations\<close>

subsection \<open>String literals\<close>

lemma utf16_eq_iff [simp]: "(utf16 a = utf16 b) = (a = b)"
  unfolding utf16_def by (induction a arbitrary: b) (auto simp: map_eq_Cons_conv Cons_eq_map_conv)

lemma utf16_empty [simp]:
  "utf16 [] = []" "(utf16 a = []) = (a = [])" "([] = utf16 a) = (a = [])"
  by (auto simp: utf16_def)

lemma length_utf16 [simp]: "length (utf16 a) = length a"
  by (simp add: utf16_def)

lemma utf16_append [simp]:
  "utf16 a @ utf16 b = utf16 (a @ b)" "utf16 a @ utf16 b @ rest = utf16 (a @ b) @ rest"
  by (simp_all add: utf16_def)

subsection \<open>Sums of integers up to \<open>2 ^ 53\<close> are exact\<close>

lemma floor_log2_ratio_one:
  assumes "0 < a"
  shows "floor_log2_ratio a 1 = bitlen a - 1"
proof -
  have "2 ^ nat (bitlen a - 1) \<le> a"
    using bitlen_bounds [OF assms] by simp
  moreover have "bitlen a - 1 \<ge> 0"
    using assms bitlen_ge_iff_power [of 1 a] by simp
  moreover have "bitlen 1 = 1"
    by (simp add: bitlen_alt_def)
  ultimately show ?thesis
    by (simp add: floor_log2_ratio_def Let_def)
qed

lemma nearest_even_one: "nearest_even n 1 = n"
  by (simp add: nearest_even_def)

lemma round_frac_integer:
  assumes "0 < a" and "a < 2 ^ 53"
  shows "round_frac a 1 = (a * 2 ^ nat (53 - bitlen a), bitlen a - 53)
         \<and> bitlen a \<le> 53"
proof -
  have le: "bitlen a \<le> 53"
    using assms(2) bitlen_le_iff_power [of a 53] by simp
  then show ?thesis
    using assms(1)
    by (simp add: round_frac_def floor_log2_ratio_one Let_def nearest_even_one)
qed

lemma nearest_double_exact:
  assumes "\<bar>n\<bar> \<le> 2 ^ 53"
  shows "nearest_double n = n"
proof -
  have top: "round_frac 9007199254740992 1 = (4503599627370496, 1)"
    by code_simp
  have key: "(let x = round_frac a 1
              in if snd x \<ge> 0 then fst x * 2 ^ nat (snd x)
                 else fst x div 2 ^ nat (- snd x)) = a"
    if "0 \<le> a" and "a \<le> 2 ^ 53" for a :: int
  proof -
    have "a = 0 \<or> a = 2 ^ 53 \<or> (0 < a \<and> a < 2 ^ 53)"
      using that by auto
    then show ?thesis
    proof (elim disjE conjE)
      assume "a = 0"
      then show ?thesis by (simp add: round_frac_def)
    next
      assume "a = 2 ^ 53"
      then show ?thesis by (simp add: top)
    next
      assume "0 < a" and "a < 2 ^ 53"
      from round_frac_integer [OF this]
      show ?thesis
        by (auto simp: Let_def)
    qed
  qed
  show ?thesis
  proof (cases "n < 0")
    case True
    with assms key [of "- n"] show ?thesis
      by (simp add: nearest_double_def Let_def)
  next
    case False
    with assms key [of n] show ?thesis
      by (simp add: nearest_double_def Let_def)
  qed
qed

lemma js_plus_exact:
  "\<bar>a + b\<bar> \<le> 2 ^ 53 \<Longrightarrow> js_plus a b = a + b"
  by (simp add: js_plus_def nearest_double_exact)

text \<open>One step of a counter, then the rest of the run.\<close>

lemma counter_chain:
  assumes step: "(n1 = n0 \<and> c1 = c0) \<or> (n1 = n0 + 1 \<and> c1 = js_plus c0 1)"
    and mono: "n1 \<le> nN"
    and rest: "- (2 ^ 53) \<le> c1 \<and> c1 + (nN - n1) \<le> 2 ^ 53 \<longrightarrow> cN = c1 + (nN - n1)"
  shows "n0 \<le> nN
         \<and> (- (2 ^ 53) \<le> c0 \<and> c0 + (nN - n0) \<le> 2 ^ 53 \<longrightarrow> cN = c0 + (nN - n0))"
  using step
proof
  assume "n1 = n0 \<and> c1 = c0"
  with mono rest show ?thesis by simp
next
  assume inc: "n1 = n0 + 1 \<and> c1 = js_plus c0 1"
  with mono have le: "n0 \<le> nN" by simp
  have "cN = c0 + (nN - n0)" if lo: "- (2 ^ 53) \<le> c0" and hi: "c0 + (nN - n0) \<le> 2 ^ 53"
  proof -
    from inc mono hi have "c0 + 1 \<le> 2 ^ 53" by simp
    with lo have "\<bar>c0 + 1\<bar> \<le> 2 ^ 53" by simp
    then have c1: "c1 = c0 + 1"
      using inc by (simp add: js_plus_exact)
    with lo hi inc have "- (2 ^ 53) \<le> c1 \<and> c1 + (nN - n1) \<le> 2 ^ 53" by simp
    with rest have "cN = c1 + (nN - n1)" by blast
    with c1 inc show ?thesis by simp
  qed
  with le show ?thesis by blast
qed

subsection \<open>Maps\<close>

lemma Map_get_Map_set:
  "Map_get (Map_set k v m) k' = (if k' = k then Some v else Map_get m k')"
  by (induction m) auto

lemma Map_set_member:
  "(k, v) \<in> set (Map_set k v m)"
  by (induction m) auto

lemma keys_below_mono:
  "keys_below n m \<Longrightarrow> n \<le> n' \<Longrightarrow> keys_below n' m"
  by (induction m) (auto simp: keys_below_def)

lemma keys_below_succ:
  "keys_below n m \<Longrightarrow> keys_below (n + 1) m"
  using keys_below_mono [of n m "n + 1"] by simp

lemma keys_below_Map_set:
  "keys_below n (Map_set k v m) = (k < n \<and> keys_below n m)"
  by (induction m) (auto simp: keys_below_def)

lemma Map_get_keys_below:
  "keys_below n m \<Longrightarrow> n \<le> k \<Longrightarrow> Map_get m k = None"
  by (induction m) (auto simp: keys_below_def)

lemma Map_get_Some_below:
  assumes "keys_below n m" and "Map_get m k = Some v"
  shows "k < n"
proof (rule ccontr)
  assume "\<not> k < n"
  then have "Map_get m k = None"
    using assms(1) by (simp add: Map_get_keys_below)
  with assms(2) show False by simp
qed

text \<open>A key that the counter has not handed out yet is appended.\<close>

lemma Map_set_fresh:
  "keys_below n m \<Longrightarrow> n \<le> k \<Longrightarrow> Map_set k v m = m @ [(k, v)]"
  by (induction m) (auto simp: keys_below_def)

lemma list_all_Map_set:
  "list_all Q m \<Longrightarrow> Q (k, v) \<Longrightarrow> list_all Q (Map_set k v m)"
  by (induction m) auto

lemma Map_get_own_id:
  "list_all (\<lambda>kv. p_id (snd kv) = fst kv) m \<Longrightarrow> Map_get m k = Some proj \<Longrightarrow> p_id proj = k"
  by (induction m) (auto split: if_splits)

subsection \<open>What each operation leaves in the store\<close>

lemma merge_counts:
  "merge_updates proj (no_updates\<lparr>up_upvotes := Some x, up_progressStatus := Some y\<rparr>)
     = proj\<lparr>p_upvotes := x, p_progressStatus := y\<rparr>"
  "merge_updates proj (no_updates\<lparr>up_emailsSent := Some x, up_progressStatus := Some y\<rparr>)
     = proj\<lparr>p_emailsSent := x, p_progressStatus := y\<rparr>"
  by (simp_all add: merge_updates_def no_updates_def)

lemma createActivity_store:
  "snd (createActivity s a now) =
     s\<lparr>activityId := activityId s + 1,
       activities := Map_set (activityId s)
         \<lparr>a_id = activityId s, a_projectId = ia_projectId a,
          a_activityType = ia_activityType a, a_actorName = string_or_null (ia_actorName a),
          a_description = ia_description a, a_createdAt = now\<rparr> (activities s)\<rparr>"
  by (simp add: createActivity_def Let_def)

lemma updateProject_store:
  assumes "Map_get (projects s) k = Some proj"
  shows "snd (updateProject s k updates now) =
     (let s1 = s\<lparr>projects := Map_set k (merge_updates proj updates) (projects s)\<rparr>
      in case up_progressStatus updates of
           None \<Rightarrow> s1
         | Some st \<Rightarrow>
             if st \<noteq> p_progressStatus proj
             then snd (createActivity s1
                    \<lparr>ia_projectId = k, ia_activityType = utf16 ''status_change'',
                     ia_actorName = Some (utf16 ''System''),
                     ia_description = utf16 ''Project status updated to: '' @ progress_status_name st\<rparr>
                    now)
             else s1)"
  using assms by (simp add: updateProject_def Let_def)

lemma updateProject_frame:
  "upvotes (snd (updateProject s k u now)) = upvotes s"
  "emails (snd (updateProject s k u now)) = emails s"
  "projects (snd (updateProject s k u now)) =
     (case Map_get (projects s) k of
        None \<Rightarrow> projects s
      | Some proj \<Rightarrow> Map_set k (merge_updates proj u) (projects s))"
  by (simp_all add: updateProject_def Let_def createActivity_store split: option.splits)

lemma createUpvote_frame:
  "upvotes (snd (createUpvote s i now)) =
     Map_set (upvoteId s)
       \<lparr>v_id = upvoteId s, v_projectId = iv_projectId i,
        v_userId = number_or_null (iv_userId i),
        v_ipAddress = iv_ipAddress i, v_createdAt = now\<rparr> (upvotes s)"
  "emails (snd (createUpvote s i now)) = emails s"
  "projects (snd (createUpvote s i now)) =
     (case Map_get (projects s) (iv_projectId i) of
        None \<Rightarrow> projects s
      | Some proj \<Rightarrow>
          (case Map_get (projects s) (p_id proj) of
             None \<Rightarrow> projects s
           | Some proj2 \<Rightarrow>
               Map_set (p_id proj)
                 (proj2\<lparr>p_upvotes := js_plus (p_upvotes proj) 1,
                    p_progressStatus := determineProgressStatus (js_plus (p_upvotes proj) 1)
                      (p_emailsSent proj) (p_progressStatus proj)\<rparr>) (projects s)))"
  by (simp_all add: createUpvote_def Let_def createActivity_store updateProject_frame
        merge_counts split: option.splits)

lemma createEmail_frame:
  "emails (snd (createEmail s i now)) =
     Map_set (emailId s)
       \<lparr>e_id = emailId s, e_projectId = ie_projectId i,
        e_senderEmail = string_or_null (ie_senderEmail i),
        e_senderName = string_or_null (ie_senderName i),
        e_customContent = string_or_null (ie_customContent i), e_sentAt = now\<rparr> (emails s)"
  "upvotes (snd (createEmail s i now)) = upvotes s"
  "projects (snd (createEmail s i now)) =
     (case Map_get (projects s) (ie_projectId i) of
        None \<Rightarrow> projects s
      | Some proj \<Rightarrow>
          (case Map_get (projects s) (p_id proj) of
             None \<Rightarrow> projects s
           | Some proj2 \<Rightarrow>
               Map_set (p_id proj)
                 (proj2\<lparr>p_emailsSent := js_plus (p_emailsSent proj) 1,
                    p_progressStatus := determineProgressStatus (p_upvotes proj)
                      (js_plus (p_emailsSent proj) 1) (p_progressStatus proj)\<rparr>) (projects s)))"
  by (simp_all add: createEmail_def Let_def createActivity_store updateProject_frame
        merge_counts split: option.splits)

lemma create_frame:
  "projects (snd (createUser s iu)) = projects s"
  "upvotes (snd (createUser s iu)) = upvotes s"
  "emails (snd (createUser s iu)) = emails s"
  "projects (snd (createActivity s ia now)) = projects s"
  "upvotes (snd (createActivity s ia now)) = upvotes s"
  "emails (snd (createActivity s ia now)) = emails s"
  "projects (snd (createComment s ic now)) = projects s"
  "upvotes (snd (createComment s ic now)) = upvotes s"
  "emails (snd (createComment s ic now)) = emails s"
  "upvotes (snd (createProject s ip now)) = upvotes s"
  "emails (snd (createProject s ip now)) = emails s"
  by (simp_all add: createUser_def createComment_def createProject_def Let_def
        createActivity_store)

subsection \<open>Fresh identifiers are kept by every operation\<close>

lemma fresh_createActivity:
  "fresh_ids s \<Longrightarrow> fresh_ids (snd (createActivity s a now))"
  by (simp add: createActivity_store fresh_ids_def keys_below_Map_set keys_below_succ)

lemma fresh_updateProject:
  assumes "fresh_ids s"
  shows "fresh_ids (snd (updateProject s k u now))"
proof (cases "Map_get (projects s) k")
  case None
  then show ?thesis using assms by (simp add: updateProject_def)
next
  case (Some proj)
  have "k < projectId s"
    using assms Some by (auto simp: fresh_ids_def intro: Map_get_Some_below)
  then have "fresh_ids (s\<lparr>projects := Map_set k (merge_updates proj u) (projects s)\<rparr>)"
    using assms by (simp add: fresh_ids_def keys_below_Map_set)
  then show ?thesis
    by (simp add: updateProject_store [OF Some] Let_def fresh_createActivity
          split: option.splits)
qed

lemma fresh_createUser:
  "fresh_ids s \<Longrightarrow> fresh_ids (snd (createUser s i))"
  by (simp add: createUser_def Let_def fresh_ids_def keys_below_Map_set keys_below_succ)

lemma fresh_createComment:
  "fresh_ids s \<Longrightarrow> fresh_ids (snd (createComment s i now))"
  by (simp add: createComment_def Let_def createActivity_store fresh_ids_def
        keys_below_Map_set keys_below_succ)

lemma fresh_createProject:
  "fresh_ids s \<Longrightarrow> fresh_ids (snd (createProject s i now))"
  by (simp add: createProject_def Let_def createActivity_store fresh_ids_def
        keys_below_Map_set keys_below_succ)

lemma fresh_createUpvote:
  assumes "fresh_ids s"
  shows "fresh_ids (snd (createUpvote s i now))"
proof -
  have "fresh_ids (s\<lparr>upvoteId := upvoteId s + 1, upvotes := Map_set (upvoteId s) v (upvotes s)\<rparr>)"
    for v
    using assms by (simp add: fresh_ids_def keys_below_Map_set keys_below_succ)
  then show ?thesis
    by (simp add: createUpvote_def Let_def fresh_createActivity fresh_updateProject
          split: option.splits)
qed

lemma fresh_createEmail:
  assumes "fresh_ids s"
  shows "fresh_ids (snd (createEmail s i now))"
proof -
  have "fresh_ids (s\<lparr>emailId := emailId s + 1, emails := Map_set (emailId s) e (emails s)\<rparr>)"
    for e
    using assms by (simp add: fresh_ids_def keys_below_Map_set keys_below_succ)
  then show ?thesis
    by (simp add: createEmail_def Let_def fresh_createActivity fresh_updateProject
          split: option.splits)
qed

lemma fresh_exec:
  "fresh_ids s \<Longrightarrow> fresh_ids (exec op s)"
  by (cases op)
     (simp_all add: fresh_createUser fresh_createProject fresh_updateProject
        fresh_createUpvote fresh_createEmail fresh_createActivity fresh_createComment)

lemma fresh_run:
  "fresh_ids s \<Longrightarrow> fresh_ids (run ops s)"
  unfolding run_def by (induction ops arbitrary: s) (simp_all add: fresh_exec)

subsection \<open>Projects stay stored under their own ids\<close>

lemma own_ids_exec:
  assumes "wf_store s" and "is_create op"
  shows "list_all (\<lambda>kv. p_id (snd kv) = fst kv) (projects (exec op s))"
proof -
  have ids: "list_all (\<lambda>kv. p_id (snd kv) = fst kv) (projects s)"
    using assms(1) by (simp add: wf_store_def)
  show ?thesis
  proof (cases op)
    case (CreateProject i now)
    then show ?thesis using ids
      by (simp add: createProject_def Let_def createActivity_store list_all_Map_set)
  next
    case (CreateUpvote i now)
    then show ?thesis using ids
      by (auto simp: createUpvote_frame list_all_Map_set split: option.splits
            dest: Map_get_own_id [OF ids])
  next
    case (CreateEmail i now)
    then show ?thesis using ids
      by (auto simp: createEmail_frame list_all_Map_set split: option.splits
            dest: Map_get_own_id [OF ids])
  next
    case (UpdateProject k u now)
    then show ?thesis using assms(2) by simp
  qed (use ids in \<open>simp_all add: create_frame\<close>)
qed

lemma wf_exec:
  "wf_store s \<Longrightarrow> is_create op \<Longrightarrow> wf_store (exec op s)"
  using own_ids_exec [of s op] fresh_exec [of s op] by (simp add: wf_store_def)

lemma wf_run:
  "wf_store s \<Longrightarrow> list_all is_create ops \<Longrightarrow> wf_store (run ops s)"
  unfolding run_def by (induction ops arbitrary: s) (simp_all add: wf_exec)

subsection \<open>Counters against rows, one operation at a time\<close>

lemma upvote_count_createUpvote:
  assumes "wf_store s"
  shows "upvote_count (snd (createUpvote s i now)) k =
           upvote_count s k + (if iv_projectId i = k then 1 else 0)"
proof -
  have "keys_below (upvoteId s) (upvotes s)"
    using assms by (simp add: wf_store_def fresh_ids_def)
  then show ?thesis
    by (simp add: upvote_count_def getUpvotesByProject_def Map_values_def createUpvote_frame
          Map_set_fresh [of "upvoteId s" _ "upvoteId s"])
qed

lemma email_count_createEmail:
  assumes "wf_store s"
  shows "email_count (snd (createEmail s i now)) k =
           email_count s k + (if ie_projectId i = k then 1 else 0)"
proof -
  have "keys_below (emailId s) (emails s)"
    using assms by (simp add: wf_store_def fresh_ids_def)
  then show ?thesis
    by (simp add: email_count_def getEmailsByProject_def Map_values_def createEmail_frame
          Map_set_fresh [of "emailId s" _ "emailId s"])
qed

lemma count_frame:
  "upvote_count (snd (createUser s iu)) k = upvote_count s k"
  "email_count (snd (createUser s iu)) k = email_count s k"
  "upvote_count (snd (createActivity s ia now)) k = upvote_count s k"
  "email_count (snd (createActivity s ia now)) k = email_count s k"
  "upvote_count (snd (createComment s ic now)) k = upvote_count s k"
  "email_count (snd (createComment s ic now)) k = email_count s k"
  "upvote_count (snd (createProject s ip now)) k = upvote_count s k"
  "email_count (snd (createProject s ip now)) k = email_count s k"
  "email_count (snd (createUpvote s iv now)) k = email_count s k"
  "upvote_count (snd (createEmail s ie now)) k = upvote_count s k"
  by (simp_all add: upvote_count_def email_count_def getUpvotesByProject_def
        getEmailsByProject_def create_frame createUpvote_frame createEmail_frame)

lemma createProject_keeps:
  assumes "wf_store s" and "Map_get (projects s) k = Some P"
  shows "Map_get (projects (snd (createProject s ip now))) k = Some P"
proof -
  have "k < projectId s"
    using assms by (auto simp: wf_store_def fresh_ids_def intro: Map_get_Some_below)
  then show ?thesis
    using assms(2)
    by (simp add: createProject_def Let_def createActivity_store Map_get_Map_set)
qed

lemma createUpvote_follows:
  assumes wf: "wf_store s" and P: "Map_get (projects s) k = Some P"
  shows "\<exists>P'. Map_get (projects (snd (createUpvote s i now))) k = Some P'
              \<and> follows s (snd (createUpvote s i now)) k P P'"
proof (cases "Map_get (projects s) (iv_projectId i)")
  case None
  then have "iv_projectId i \<noteq> k" using P by auto
  with None P show ?thesis
    by (simp add: follows_def createUpvote_frame upvote_count_createUpvote [OF wf] count_frame)
next
  case (Some proj)
  have pid: "p_id proj = iv_projectId i"
    using wf Some by (auto simp: wf_store_def dest: Map_get_own_id)
  show ?thesis
  proof (cases "iv_projectId i = k")
    case True
    with Some P have "proj = P" by simp
    with True Some pid P show ?thesis
      by (simp add: follows_def createUpvote_frame upvote_count_createUpvote [OF wf]
            count_frame Map_get_Map_set del: determineProgressStatus.simps)
  next
    case False
    with Some pid P show ?thesis
      by (simp add: follows_def createUpvote_frame upvote_count_createUpvote [OF wf]
            count_frame Map_get_Map_set del: determineProgressStatus.simps)
  qed
qed

lemma createEmail_follows:
  assumes wf: "wf_store s" and P: "Map_get (projects s) k = Some P"
  shows "\<exists>P'. Map_get (projects (snd (createEmail s i now))) k = Some P'
              \<and> follows s (snd (createEmail s i now)) k P P'"
proof (cases "Map_get (projects s) (ie_projectId i)")
  case None
  then have "ie_projectId i \<noteq> k" using P by auto
  with None P show ?thesis
    by (simp add: follows_def createEmail_frame email_count_createEmail [OF wf] count_frame)
next
  case (Some proj)
  have pid: "p_id proj = ie_projectId i"
    using wf Some by (auto simp: wf_store_def dest: Map_get_own_id)
  show ?thesis
  proof (cases "ie_projectId i = k")
    case True
    with Some P have "proj = P" by simp
    with True Some pid P show ?thesis
      by (simp add: follows_def createEmail_frame email_count_createEmail [OF wf]
            count_frame Map_get_Map_set del: determineProgressStatus.simps)
  next
    case False
    with Some pid P show ?thesis
      by (simp add: follows_def createEmail_frame email_count_createEmail [OF wf]
            count_frame Map_get_Map_set del: determineProgressStatus.simps)
  qed
qed

lemma exec_follows:
  assumes wf: "wf_store s" and c: "is_create op" and P: "Map_get (projects s) k = Some P"
  shows "\<exists>P'. Map_get (projects (exec op s)) k = Some P' \<and> follows s (exec op s) k P P'"
proof (cases op)
  case (CreateUpvote i now)
  then show ?thesis using createUpvote_follows [OF wf P] by simp
next
  case (CreateEmail i now)
  then show ?thesis using createEmail_follows [OF wf P] by simp
next
  case (CreateProject i now)
  then show ?thesis using createProject_keeps [OF wf P]
    by (simp add: follows_def count_frame)
next
  case (UpdateProject pid u now)
  then show ?thesis using c by simp
qed (use P in \<open>simp_all add: follows_def count_frame create_frame\<close>)

subsection \<open>Counters against rows, along a sequence of operations\<close>

lemma run_tracks:
  assumes "wf_store s" and "list_all is_create ops" and "Map_get (projects s) k = Some P"
  shows "wf_store (run ops s) \<and>
         (\<exists>P'. Map_get (projects (run ops s)) k = Some P' \<and> tracks s (run ops s) k P P')"
  using assms
proof (induction ops arbitrary: s P)
  case Nil
  then show ?case by (simp add: run_def tracks_def)
next
  case (Cons op ops)
  from Cons.prems have wf1: "wf_store (exec op s)" and c: "is_create op"
    and rest: "list_all is_create ops"
    by (simp_all add: wf_exec)
  from exec_follows [OF Cons.prems(1) c Cons.prems(3)]
  obtain P1 where P1: "Map_get (projects (exec op s)) k = Some P1"
    and f1: "follows s (exec op s) k P P1" by blast
  from Cons.IH [OF wf1 rest P1]
  obtain P' where wf': "wf_store (run ops (exec op s))"
    and P': "Map_get (projects (run ops (exec op s))) k = Some P'"
    and t: "tracks (exec op s) (run ops (exec op s)) k P1 P'" by blast
  let ?s1 = "exec op s" and ?sN = "run ops (exec op s)"
  from f1 have step_up: "(upvote_count ?s1 k = upvote_count s k \<and> p_upvotes P1 = p_upvotes P)
      \<or> (upvote_count ?s1 k = upvote_count s k + 1 \<and> p_upvotes P1 = js_plus (p_upvotes P) 1)"
    and step_em: "(email_count ?s1 k = email_count s k \<and> p_emailsSent P1 = p_emailsSent P)
      \<or> (email_count ?s1 k = email_count s k + 1
          \<and> p_emailsSent P1 = js_plus (p_emailsSent P) 1)"
    and step_st: "p_progressStatus P1 = p_progressStatus P
      \<or> p_progressStatus P1 =
          determineProgressStatus (p_upvotes P1) (p_emailsSent P1) (p_progressStatus P)"
    unfolding follows_def by blast+
  from t have mono_up: "upvote_count ?s1 k \<le> upvote_count ?sN k"
    and mono_em: "email_count ?s1 k \<le> email_count ?sN k"
    and rest_up: "- (2 ^ 53) \<le> p_upvotes P1
           \<and> p_upvotes P1 + (upvote_count ?sN k - upvote_count ?s1 k) \<le> 2 ^ 53
           \<longrightarrow> p_upvotes P' = p_upvotes P1 + (upvote_count ?sN k - upvote_count ?s1 k)"
    and rest_em: "- (2 ^ 53) \<le> p_emailsSent P1
           \<and> p_emailsSent P1 + (email_count ?sN k - email_count ?s1 k) \<le> 2 ^ 53
           \<longrightarrow> p_emailsSent P' = p_emailsSent P1 + (email_count ?sN k - email_count ?s1 k)"
    and rest_st: "p_progressStatus P1
             \<in> set [official_acknowledgment, planning_stage, implementation, completed]
           \<longrightarrow> p_progressStatus P' = p_progressStatus P1"
    unfolding tracks_def by blast+
  note up = counter_chain [OF step_up mono_up rest_up]
  note em = counter_chain [OF step_em mono_em rest_em]
  have st: "p_progressStatus P
              \<in> set [official_acknowledgment, planning_stage, implementation, completed]
            \<longrightarrow> p_progressStatus P' = p_progressStatus P"
  proof
    assume late: "p_progressStatus P
              \<in> set [official_acknowledgment, planning_stage, implementation, completed]"
    then have "determineProgressStatus u e (p_progressStatus P) = p_progressStatus P" for u e
      by simp
    with step_st have "p_progressStatus P1 = p_progressStatus P"
      by metis
    with late rest_st show "p_progressStatus P' = p_progressStatus P"
      by simp
  qed
  from up em st have "tracks s ?sN k P P'"
    unfolding tracks_def by blast
  with wf' P' show ?case by (simp add: run_def)
qed

subsection \<open>Rows and projects are never removed\<close>

lemma project_stays_exec:
  assumes "Map_get (projects s) k \<noteq> None"
  shows "Map_get (projects (exec op s)) k \<noteq> None"
proof (cases op)
  case (CreateProject i now)
  then show ?thesis using assms
    by (simp add: createProject_def Let_def createActivity_store Map_get_Map_set)
next
  case (UpdateProject pid u now)
  then show ?thesis using assms
    by (simp add: updateProject_frame Map_get_Map_set split: option.splits)
next
  case (CreateUpvote i now)
  then show ?thesis using assms
    by (simp add: createUpvote_frame Map_get_Map_set split: option.splits)
next
  case (CreateEmail i now)
  then show ?thesis using assms
    by (simp add: createEmail_frame Map_get_Map_set split: option.splits)
qed (use assms in \<open>simp_all add: create_frame\<close>)

lemma project_stays_run:
  "Map_get (projects s) k \<noteq> None \<Longrightarrow> Map_get (projects (run ops s)) k \<noteq> None"
  unfolding run_def
proof (induction ops arbitrary: s)
  case Nil
  then show ?case by simp
next
  case (Cons op ops)
  from Cons.prems have "Map_get (projects (exec op s)) k \<noteq> None"
    by (rule project_stays_exec)
  from Cons.IH [OF this] show ?case by simp
qed

lemma hasUserUpvoted_exec:
  assumes "fresh_ids s" and "hasUserUpvoted s pid ip"
  shows "hasUserUpvoted (exec op s) pid ip"
proof (cases op)
  case (CreateUpvote i now)
  have "keys_below (upvoteId s) (upvotes s)"
    using assms(1) by (simp add: fresh_ids_def)
  then show ?thesis using CreateUpvote assms(2)
    by (simp add: hasUserUpvoted_def Map_values_def createUpvote_frame
          Map_set_fresh [of "upvoteId s" _ "upvoteId s"])
next
  case (CreateProject i now)
  then show ?thesis using assms(2) by (simp add: hasUserUpvoted_def create_frame)
next
  case (UpdateProject k u now)
  then show ?thesis using assms(2) by (simp add: hasUserUpvoted_def updateProject_frame)
next
  case (CreateEmail i now)
  then show ?thesis using assms(2) by (simp add: hasUserUpvoted_def createEmail_frame)
qed (use assms(2) in \<open>simp_all add: hasUserUpvoted_def create_frame\<close>)

lemma hasUserUpvoted_run:
  "fresh_ids s \<Longrightarrow> hasUserUpvoted s pid ip \<Longrightarrow> hasUserUpvoted (run ops s) pid ip"
  unfolding run_def
  by (induction ops arbitrary: s) (simp_all add: hasUserUpvoted_exec fresh_exec)

subsection \<open>The activities each operation appends\<close>

lemma keys_below_snoc:
  "keys_below n m \<Longrightarrow> keys_below (n + 1) (m @ [(n, v)])"
  using keys_below_succ [of n m] by (simp add: keys_below_def)

lemma createActivity_appends:
  assumes "keys_below (activityId s) (activities s)"
  shows "activities (snd (createActivity s a now)) =
           activities s @
             [(activityId s,
               \<lparr>a_id = activityId s, a_projectId = ia_projectId a,
                a_activityType = ia_activityType a,
                a_actorName = string_or_null (ia_actorName a),
                a_description = ia_description a, a_createdAt = now\<rparr>)]"
    and "activityId (snd (createActivity s a now)) = activityId s + 1"
    and "keys_below (activityId (snd (createActivity s a now)))
           (activities (snd (createActivity s a now)))"
  using assms
  by (simp_all add: createActivity_store Map_set_fresh [of "activityId s" _ "activityId s"]
        keys_below_snoc)

lemma updateProject_activities:
  assumes "keys_below (activityId s) (activities s)" and "Map_get (projects s) k = Some P"
  shows "activities (snd (updateProject s k u now)) =
           activities s @
             (case up_progressStatus u of
                None \<Rightarrow> []
              | Some st \<Rightarrow>
                  if st \<noteq> p_progressStatus P
                  then [(activityId s,
                         \<lparr>a_id = activityId s, a_projectId = k,
                          a_activityType = utf16 ''status_change'', a_actorName = Some (utf16 ''System''),
                          a_description =
                            utf16 ''Project status updated to: '' @ progress_status_name st,
                          a_createdAt = now\<rparr>)]
                  else [])"
    and "activityId (snd (updateProject s k u now)) =
           activityId s +
             (case up_progressStatus u of
                None \<Rightarrow> 0
              | Some st \<Rightarrow> if st \<noteq> p_progressStatus P then 1 else 0)"
    and "keys_below (activityId (snd (updateProject s k u now)))
           (activities (snd (updateProject s k u now)))"
  using assms
  by (simp_all add: updateProject_store [OF assms(2)] Let_def createActivity_appends
        keys_below_snoc split: option.splits)

lemma patch_then_activity:
  assumes kb: "keys_below (activityId s) (activities s)"
    and P: "Map_get (projects s) k = Some P"
  shows "Map_values (activities (snd (createActivity (snd (updateProject s k u now)) a now')))
           = Map_values (activities s) @
             (case up_progressStatus u of
                None \<Rightarrow> []
              | Some st \<Rightarrow>
                  if st \<noteq> p_progressStatus P
                  then [\<lparr>a_id = activityId s, a_projectId = k,
                          a_activityType = utf16 ''status_change'', a_actorName = Some (utf16 ''System''),
                          a_description =
                            utf16 ''Project status updated to: '' @ progress_status_name st,
                          a_createdAt = now\<rparr>]
                  else []) @
             [\<lparr>a_id = activityId s +
                       (case up_progressStatus u of
                          None \<Rightarrow> 0
                        | Some st \<Rightarrow> if st \<noteq> p_progressStatus P then 1 else 0),
               a_projectId = ia_projectId a, a_activityType = ia_activityType a,
               a_actorName = string_or_null (ia_actorName a),
               a_description = ia_description a, a_createdAt = now'\<rparr>]"
proof -
  note U = updateProject_activities [OF kb P, of u now]
  note C = createActivity_appends [OF U(3), of a now']
  show ?thesis
    by (simp add: Map_values_def C(1) U(1) U(2) split: option.splits)
qed

lemma sender_or_anonymous:
  "string_or_null (Some (case string_or_null x of None \<Rightarrow> utf16 ''Anonymous User'' | Some n \<Rightarrow> n))
     = Some (case string_or_null x of None \<Rightarrow> utf16 ''Anonymous User'' | Some n \<Rightarrow> n)"
  by (cases x) auto

subsection \<open>Searching and sorting\<close>

lemma String_includes_sublist:
  "String_includes str q = sublist q str"
  by (induction str) (auto simp: sublist_Cons_right)

lemma sublist_map_split:
  "sublist (map f q) (map f txt)
     = (\<exists>pre mid post. txt = pre @ mid @ post \<and> map f mid = map f q)"
proof
  assume "sublist (map f q) (map f txt)"
  then obtain ps ss where "map f txt = ps @ map f q @ ss"
    by (auto simp: sublist_def)
  then have "\<exists>pre rest. txt = pre @ rest \<and> ps = map f pre \<and> map f q @ ss = map f rest"
    by (simp only: map_eq_append_conv)
  then obtain pre rest where split1: "txt = pre @ rest" and "map f q @ ss = map f rest"
    by blast
  then have "\<exists>mid post. rest = mid @ post \<and> map f q = map f mid \<and> ss = map f post"
    by (simp only: append_eq_map_conv)
  then obtain mid post where "rest = mid @ post" and "map f mid = map f q"
    by metis
  with split1 show "\<exists>pre mid post. txt = pre @ mid @ post \<and> map f mid = map f q"
    by blast
next
  assume "\<exists>pre mid post. txt = pre @ mid @ post \<and> map f mid = map f q"
  then obtain pre mid post where "txt = pre @ mid @ post"
    and "map f mid = map f q" by blast
  then have "map f txt = map f pre @ map f q @ map f post" by simp
  then show "sublist (map f q) (map f txt)"
    unfolding sublist_def by blast
qed

text \<open>
  In ASCII the code's test is the specification's: two code units have the same
  lower-case form exactly when they are the same letter up to case.
\<close>

lemma same_letter_lower:
  "((if 65 \<le> a \<and> a \<le> 90 then a + 32 else a) = (if 65 \<le> b \<and> b \<le> 90 then b + 32 else b))
     = same_letter a b"
  by (auto simp: same_letter_def)

lemma same_letters_lower:
  "list_all2 same_letter xs ys = (ascii_lower xs = ascii_lower ys)"
proof (induction xs arbitrary: ys)
  case Nil
  then show ?case by (auto simp: ascii_lower_def)
next
  case (Cons x xs)
  show ?case
  proof (cases ys)
    case Nil
    then show ?thesis by (simp add: ascii_lower_def)
  next
    case (Cons y ys')
    then show ?thesis
      using Cons.IH [of ys'] same_letter_lower [of x y]
      by (simp add: ascii_lower_def)
  qed
qed

lemma contains_up_to_case_split:
  "contains_up_to_case txt q
     = (\<exists>pre mid post. txt = pre @ mid @ post \<and> list_all2 same_letter mid q)"
proof
  assume "contains_up_to_case txt q"
  then obtain i where "list_all2 same_letter (take (length q) (drop i txt)) q"
    by (auto simp: contains_up_to_case_def list_ex_iff)
  moreover have "txt = take i txt @ take (length q) (drop i txt) @ drop (length q) (drop i txt)"
    by (simp only: append_take_drop_id)
  ultimately show "\<exists>pre mid post. txt = pre @ mid @ post \<and> list_all2 same_letter mid q"
    by blast
next
  assume "\<exists>pre mid post. txt = pre @ mid @ post \<and> list_all2 same_letter mid q"
  then obtain pre mid post where parts: "txt = pre @ mid @ post"
    and same: "list_all2 same_letter mid q" by blast
  from same have "length mid = length q"
    by (rule list_all2_lengthD)
  then have "take (length q) (drop (length pre) txt) = mid"
    by (simp add: parts)
  with same have "list_all2 same_letter (take (length q) (drop (length pre) txt)) q"
    by simp
  moreover have "length pre \<in> set [0 ..< length txt + 1]"
    by (simp add: parts)
  ultimately show "contains_up_to_case txt q"
    unfolding contains_up_to_case_def list_ex_iff by blast
qed

lemma includes_ascii_lower:
  "String_includes (ascii_lower txt) (ascii_lower q) = contains_up_to_case txt q"
proof -
  have "String_includes (ascii_lower txt) (ascii_lower q)
          = (\<exists>pre mid post. txt = pre @ mid @ post \<and> ascii_lower mid = ascii_lower q)"
    unfolding String_includes_sublist ascii_lower_def by (rule sublist_map_split)
  then show ?thesis
    by (simp add: contains_up_to_case_split same_letters_lower)
qed

lemma sorted_sort_by_upvotes:
  "sorted_wrt (\<lambda>a b. p_upvotes a \<ge> p_upvotes b) (sort_by_upvotes ps)"
proof -
  have "sorted (map (\<lambda>p. - p_upvotes p) (sort_key (\<lambda>p. - p_upvotes p) ps))"
    by (rule sorted_sort_key)
  then show ?thesis
    by (simp add: sort_by_upvotes_def sorted_map)
qed

lemma mset_sort_by_upvotes:
  "mset (sort_by_upvotes ps) = mset ps"
  by (simp add: sort_by_upvotes_def)

lemma mset_filter_sort_by_upvotes:
  "mset (sort_by_upvotes (filter Q ps)) = filter_mset Q (mset ps)"
  by (simp add: sort_by_upvotes_def)

subsection \<open>Doubles: the error of one rounding, and the rounded percentage\<close>

lemma Math_round_floor:
  "Math_round x = \<lfloor>double_value x + 1 / 2\<rfloor>"
proof (cases "snd x \<ge> 0")
  case True
  then have "2 powr real_of_int (snd x) = 2 ^ nat (snd x)"
    by (simp add: powr_int)
  then have "double_value x = real_of_int (fst x * 2 ^ nat (snd x))"
    by (simp add: double_value_def)
  then have "\<lfloor>double_value x + 1 / 2\<rfloor> = fst x * 2 ^ nat (snd x)"
    by (simp only: floor_add_int) linarith
  with True show ?thesis by (simp add: Math_round_def)
next
  case False
  let ?k = "nat (- snd x)"
  from False have k: "?k \<ge> 1" by simp
  have p: "2 powr real_of_int (snd x) = 1 / 2 ^ ?k"
    using False by (simp add: powr_int)
  have "(2::real) ^ ?k = 2 * 2 ^ (?k - 1)"
    using k by (metis One_nat_def Suc_pred' less_eq_Suc_le power_Suc)
  then have "double_value x + 1 / 2
           = real_of_int (fst x + 2 ^ (?k - 1)) / real_of_int (2 ^ ?k)"
    by (simp add: double_value_def p field_simps)
  then have "\<lfloor>double_value x + 1 / 2\<rfloor> = (fst x + 2 ^ (?k - 1)) div 2 ^ ?k"
    by (simp only: floor_divide_of_int_eq)
  moreover have "nat (- snd x - 1) = ?k - 1" by simp
  ultimately show ?thesis using False by (simp add: Math_round_def)
qed

lemma nearest_even_close:
  fixes n dd :: int
  assumes "0 < dd"
  shows "\<bar>real_of_int (nearest_even n dd) - real_of_int n / real_of_int dd\<bar> \<le> 1 / 2"
proof -
  define q r where "q = n div dd" and "r = n mod dd"
  have n: "n = q * dd + r" by (simp add: q_def r_def)
  have r: "0 \<le> r" "r < dd" using assms by (simp_all add: r_def)
  have frac: "real_of_int n / real_of_int dd = real_of_int q + real_of_int r / real_of_int dd"
    using assms by (simp add: n field_simps)
  have lo: "0 \<le> real_of_int r / real_of_int dd" using r assms by simp
  have hi: "real_of_int r / real_of_int dd < 1" using r assms by simp
  have ne: "nearest_even n dd =
              (if 2 * r < dd then q else if 2 * r > dd then q + 1
               else if even q then q else q + 1)"
    by (simp add: nearest_even_def Let_def q_def r_def)
  consider "2 * r < dd" | "2 * r > dd" | "2 * r = dd" by linarith
  then show ?thesis
  proof cases
    case 1
    then have "real_of_int r / real_of_int dd < 1 / 2"
      using assms by (auto simp: field_simps)
    with 1 lo show ?thesis
      unfolding ne frac by simp
  next
    case 2
    then have "real_of_int r / real_of_int dd > 1 / 2"
      using assms by (auto simp: field_simps)
    with 2 hi show ?thesis
      unfolding ne frac by simp
  next
    case 3
    then have half: "real_of_int r / real_of_int dd = 1 / 2"
      using assms by (auto simp: field_simps)
    from 3 have c: "\<not> 2 * r < dd" "\<not> 2 * r > dd" by simp_all
    show ?thesis
      unfolding ne frac half by (simp add: c)
  qed
qed

lemma nearest_even_nonneg:
  assumes "0 \<le> n" and "0 < dd"
  shows "0 \<le> nearest_even n dd"
proof -
  have "0 \<le> n div dd"
    using assms by (simp add: pos_imp_zdiv_nonneg_iff)
  then show ?thesis
    by (simp add: nearest_even_def Let_def)
qed

lemma floor_log2_ratio_le:
  assumes a: "0 < a" and b: "0 < b"
  shows "2 powr real_of_int (floor_log2_ratio a b) \<le> real_of_int a / real_of_int b"
proof -
  let ?x = "real_of_int a / real_of_int b"
  define d where "d = bitlen a - bitlen b"
  define above where
    "above = (if d \<ge> 0 then a \<ge> b * 2 ^ nat d else a * 2 ^ nat (- d) \<ge> b)"
  have fl: "floor_log2_ratio a b = (if above then d else d - 1)"
    by (simp add: floor_log2_ratio_def Let_def above_def d_def)
  show ?thesis
  proof (cases above)
    case True
    then have e0: "floor_log2_ratio a b = d" by (simp add: fl)
    show ?thesis
    proof (cases "d \<ge> 0")
      case True
      with \<open>above\<close> have "b * 2 ^ nat d \<le> a" by (simp add: above_def)
      then have "real_of_int (b * 2 ^ nat d) \<le> real_of_int a"
        by (simp only: of_int_le_iff)
      then have "2 ^ nat d \<le> ?x"
        using b by (simp add: field_simps)
      with True show ?thesis by (simp add: e0 powr_int)
    next
      case False
      with \<open>above\<close> have "b \<le> a * 2 ^ nat (- d)" by (simp add: above_def)
      then have "real_of_int b \<le> real_of_int (a * 2 ^ nat (- d))"
        by (simp only: of_int_le_iff)
      then have "1 / 2 ^ nat (- d) \<le> ?x"
        using b by (simp add: field_simps)
      with False show ?thesis by (simp add: e0 powr_int)
    qed
  next
    case False
    then have e0: "floor_log2_ratio a b = d - 1" by (simp add: fl)
    from bitlen_bounds [OF a] have "2 ^ nat (bitlen a - 1) \<le> a" by simp
    then have "real_of_int (2 ^ nat (bitlen a - 1)) \<le> real_of_int a"
      by (simp only: of_int_le_iff)
    then have la: "(2::real) ^ nat (bitlen a - 1) \<le> real_of_int a" by simp
    from bitlen_bounds [OF b] have "b < 2 ^ nat (bitlen b)" by simp
    then have "real_of_int b < real_of_int (2 ^ nat (bitlen b))"
      by (simp only: of_int_less_iff)
    then have lb: "real_of_int b < 2 ^ nat (bitlen b)" by simp
    have ba: "bitlen a \<ge> 1" using a by (simp add: bitlen_alt_def)
    have bb: "bitlen b \<ge> 0" by (rule bitlen_nonneg)
    have pa: "(2::real) ^ nat (bitlen a - 1) = 2 powr real_of_int (bitlen a - 1)"
      using ba powr_int [of 2 "bitlen a - 1"] by simp
    have pb: "(2::real) ^ nat (bitlen b) = 2 powr real_of_int (bitlen b)"
      using bb powr_int [of 2 "bitlen b"] by simp
    have "2 powr real_of_int (floor_log2_ratio a b)
            = 2 powr real_of_int (bitlen a - 1) / 2 powr real_of_int (bitlen b)"
    proof -
      have "real_of_int (floor_log2_ratio a b)
              = real_of_int (bitlen a - 1) - real_of_int (bitlen b)"
        by (simp add: e0 d_def)
      then show ?thesis by (simp only: powr_diff)
    qed
    also have "\<dots> \<le> real_of_int a / 2 powr real_of_int (bitlen b)"
      using la by (simp add: pa divide_right_mono)
    also have "\<dots> \<le> real_of_int a / real_of_int b"
      using lb a b by (simp add: pb [symmetric] frac_le)
    finally show ?thesis .
  qed
qed

lemma round_frac_zero: "round_frac 0 b = (0, 0)"
  by (simp add: round_frac_def)

lemma round_frac_nonneg:
  assumes "0 \<le> a" and "0 < b"
  shows "0 \<le> fst (round_frac a b)"
  using assms by (simp add: round_frac_def Let_def nearest_even_nonneg)

text \<open>One rounding moves a positive quotient by at most its \<open>2 ^ 53\<close>-th part.\<close>

lemma round_frac_close:
  assumes a: "0 < a" and b: "0 < b"
  shows "\<bar>double_value (round_frac a b) - real_of_int a / real_of_int b\<bar>
           \<le> (real_of_int a / real_of_int b) / 2 ^ 53"
proof -
  let ?x = "real_of_int a / real_of_int b"
  define e0 where "e0 = floor_log2_ratio a b"
  define sh where "sh = 52 - e0"
  define n where "n = (if sh \<ge> 0 then a * 2 ^ nat sh else a)"
  define dd where "dd = (if sh \<ge> 0 then b else b * 2 ^ nat (- sh))"
  define m where "m = nearest_even n dd"
  have rf: "round_frac a b = (m, - sh)"
    using a by (simp add: round_frac_def Let_def m_def dd_def n_def sh_def e0_def)
  have low: "2 powr real_of_int e0 \<le> ?x"
    unfolding e0_def by (rule floor_log2_ratio_le [OF a b])
  have dd: "0 < dd" using b by (simp add: dd_def)
  have ratio: "real_of_int n / real_of_int dd = ?x * 2 powr real_of_int sh"
  proof (cases "sh \<ge> 0")
    case True
    then show ?thesis by (simp add: n_def dd_def powr_int)
  next
    case False
    then show ?thesis by (simp add: n_def dd_def powr_int field_simps)
  qed
  have near: "\<bar>real_of_int m - real_of_int n / real_of_int dd\<bar> \<le> 1 / 2"
    unfolding m_def by (rule nearest_even_close [OF dd])
  have ulp: "2 powr real_of_int (- sh) = 2 powr real_of_int e0 / 2 ^ 52"
  proof -
    have "real_of_int (- sh) = real_of_int e0 - real (52::nat)" by (simp add: sh_def)
    then have "2 powr real_of_int (- sh) = 2 powr real_of_int e0 / 2 powr real (52::nat)"
      by (simp only: powr_diff)
    then show ?thesis by (simp only: powr_realpow zero_less_numeral)
  qed
  have inv: "2 powr real_of_int sh * 2 powr real_of_int (- sh) = 1"
    by (simp add: powr_add [symmetric])
  have "double_value (round_frac a b) - ?x
          = (real_of_int m - real_of_int n / real_of_int dd) * 2 powr real_of_int (- sh)"
    using inv by (simp add: rf double_value_def ratio algebra_simps)
  then have "\<bar>double_value (round_frac a b) - ?x\<bar>
          = \<bar>real_of_int m - real_of_int n / real_of_int dd\<bar> * 2 powr real_of_int (- sh)"
    by (simp add: abs_mult)
  also have "\<dots> \<le> (1 / 2) * 2 powr real_of_int (- sh)"
    using near by (simp add: mult_right_mono)
  also have "\<dots> = 2 powr real_of_int e0 / 2 ^ 53"
    unfolding ulp by simp
  also have "\<dots> \<le> ?x / 2 ^ 53"
    using low by (simp add: divide_right_mono)
  finally show ?thesis .
qed

text \<open>
  The rounded percentage is an integer nearest to the exact one: the two roundings
  before \<open>Math.round\<close> move the value by less than \<open>2 ^ -45\<close>, too little to cross a
  half for fewer than \<open>2 ^ 44\<close> rows.
\<close>

lemma percent_rounding:
  assumes r0: "0 \<le> r" and rn: "r \<le> n" and n0: "0 < n" and nb: "n < 2 ^ 44"
  shows "2 * \<bar>Math_round (js_times (js_divide r n) 100) * n - 100 * r\<bar> \<le> n"
proof (cases "r = 0")
  case True
  then show ?thesis
    using n0 by (simp add: js_divide_def js_times_def round_frac_zero Math_round_def)
next
  case False
  with r0 have r: "0 < r" by simp
  define E where "E = real_of_int r / real_of_int n"
  have E: "0 < E" "E \<le> 1" using r rn n0 by (simp_all add: E_def)
  define x where "x = round_frac r n"
  define z where "z = round_frac (fst x * 100) 1"
  define y where "y = js_times x 100"
  define k where "k = Math_round y"
  have y: "y = (fst z, snd z + snd x)"
    by (simp add: y_def z_def js_times_def Let_def)
  have mx: "0 \<le> fst x" unfolding x_def using r n0 by (intro round_frac_nonneg) simp_all
  have cx: "\<bar>double_value x - E\<bar> \<le> E / 2 ^ 53"
    unfolding x_def E_def by (rule round_frac_close [OF r n0])
  have cz: "\<bar>double_value z - 100 * real_of_int (fst x)\<bar> \<le> 100 * real_of_int (fst x) / 2 ^ 53"
  proof (cases "fst x = 0")
    case True
    then show ?thesis by (simp add: z_def round_frac_zero double_value_def)
  next
    case False
    with mx have "0 < fst x * 100" by simp
    from round_frac_close [OF this, of 1] show ?thesis
      by (simp add: z_def mult.commute)
  qed
  have p: "0 \<le> 2 powr real_of_int (snd x)" by simp
  have vy: "double_value y = double_value z * 2 powr real_of_int (snd x)"
    by (simp add: y double_value_def powr_add)
  have vx: "double_value x = real_of_int (fst x) * 2 powr real_of_int (snd x)"
    by (simp add: double_value_def)
  have "double_value y - 100 * double_value x
          = (double_value z - 100 * real_of_int (fst x)) * 2 powr real_of_int (snd x)"
    by (simp add: vy vx algebra_simps)
  then have "\<bar>double_value y - 100 * double_value x\<bar>
          = \<bar>double_value z - 100 * real_of_int (fst x)\<bar> * 2 powr real_of_int (snd x)"
    by (simp add: abs_mult)
  also have "\<dots> \<le> (100 * real_of_int (fst x) / 2 ^ 53) * 2 powr real_of_int (snd x)"
    using cz p by (rule mult_right_mono)
  also have "\<dots> = 100 * double_value x / 2 ^ 53"
    by (simp add: vx)
  finally have cy: "\<bar>double_value y - 100 * double_value x\<bar> \<le> 100 * double_value x / 2 ^ 53" .
  have xb: "double_value x \<le> 1 + 1 / 2 ^ 53"
  proof -
    from cx have "double_value x \<le> E + E / 2 ^ 53" by linarith
    also have "\<dots> \<le> 1 + 1 / 2 ^ 53"
      using E by (intro add_mono divide_right_mono) simp_all
    finally show ?thesis .
  qed
  have "\<bar>double_value y - 100 * E\<bar>
          = \<bar>(double_value y - 100 * double_value x) + 100 * (double_value x - E)\<bar>"
    by (simp add: algebra_simps)
  also have "\<dots> \<le> \<bar>double_value y - 100 * double_value x\<bar>
                    + \<bar>100 * (double_value x - E)\<bar>"
    by (rule abs_triangle_ineq)
  also have "\<dots> = \<bar>double_value y - 100 * double_value x\<bar>
                    + 100 * \<bar>double_value x - E\<bar>"
    by (simp only: abs_mult abs_numeral)
  also have "\<dots> \<le> 100 * double_value x / 2 ^ 53 + 100 * (E / 2 ^ 53)"
    using cy cx by (intro add_mono) simp_all
  also have "\<dots> \<le> 100 * (1 + 1 / 2 ^ 53) / 2 ^ 53 + 100 * (1 / 2 ^ 53)"
    using xb E by (intro add_mono divide_right_mono mult_left_mono) simp_all
  also have "\<dots> < 1 / 2 ^ 45" by simp
  finally have close: "\<bar>double_value y - 100 * E\<bar> < 1 / 2 ^ 45" .
  have kf: "k = \<lfloor>double_value y + 1 / 2\<rfloor>"
    by (simp add: k_def Math_round_floor)
  then have k1: "real_of_int k \<le> double_value y + 1 / 2"
    and k2: "double_value y + 1 / 2 < real_of_int k + 1"
    by linarith+
  have nr: "real_of_int n < 2 ^ 44"
    using nb by (metis of_int_less_iff of_int_numeral of_int_power)
  have nE: "real_of_int n * E = real_of_int r"
    using n0 by (simp add: E_def)
  have small: "2 * real_of_int n * (1 / 2 ^ 45) < 1"
    using nr by simp
  have np: "0 < real_of_int n" using n0 by simp
  have up: "(2 * real_of_int k - 1) * real_of_int n < 200 * real_of_int r + 1"
  proof -
    have "2 * real_of_int k - 1 < 200 * E + 2 * (1 / 2 ^ 45)"
      using k1 close by linarith
    then have "(2 * real_of_int k - 1) * real_of_int n
                 < (200 * E + 2 * (1 / 2 ^ 45)) * real_of_int n"
      using np by (rule mult_strict_right_mono)
    also have "\<dots> = 200 * real_of_int r + 2 * real_of_int n * (1 / 2 ^ 45)"
      using nE by (simp add: algebra_simps)
    also have "\<dots> < 200 * real_of_int r + 1"
      using small by linarith
    finally show ?thesis .
  qed
  have down: "200 * real_of_int r < (2 * real_of_int k + 1) * real_of_int n + 1"
  proof -
    have "200 * E - 2 * (1 / 2 ^ 45) < 2 * real_of_int k + 1"
      using k2 close by linarith
    then have "(200 * E - 2 * (1 / 2 ^ 45)) * real_of_int n
                 < (2 * real_of_int k + 1) * real_of_int n"
      using np by (rule mult_strict_right_mono)
    moreover have "(200 * E - 2 * (1 / 2 ^ 45)) * real_of_int n
                 = 200 * real_of_int r - 2 * real_of_int n * (1 / 2 ^ 45)"
      using nE by (simp add: algebra_simps)
    ultimately show ?thesis using small by linarith
  qed
  from up have "real_of_int ((2 * k - 1) * n) < real_of_int (200 * r + 1)" by simp
  then have i1: "(2 * k - 1) * n < 200 * r + 1" by (simp only: of_int_less_iff)
  from down have "real_of_int (200 * r) < real_of_int ((2 * k + 1) * n + 1)" by simp
  then have i2: "200 * r < (2 * k + 1) * n + 1" by (simp only: of_int_less_iff)
  define t where "t = k * n"
  from i1 have j1: "2 * t - n < 200 * r + 1" by (simp add: t_def algebra_simps)
  from i2 have j2: "200 * r < 2 * t + n + 1" by (simp add: t_def algebra_simps)
  from j1 j2 have "2 * \<bar>t - 100 * r\<bar> \<le> n" by (cases "100 * r \<le> t") simp_all
  then have "2 * \<bar>k * n - 100 * r\<bar> \<le> n" by (simp only: t_def)
  then show ?thesis
    by (simp add: k_def y_def x_def js_divide_def)
qed

text \<open>
  Away from the exact halves the result is the exact percentage, rounded as
  \<open>Math.round\<close> rounds.
\<close>

lemma percent_exact:
  assumes r0: "0 \<le> r" and rn: "r \<le> n" and n0: "0 < n" and small: "n < 2 ^ 44"
    and no_tie: "frac (real_of_int r / real_of_int n * 100) \<noteq> 1 / 2"
  shows "Math_round (js_times (js_divide r n) 100) = round (real_of_int r / real_of_int n * 100)"
proof -
  define S where "S = Math_round (js_times (js_divide r n) 100)"
  define x where "x = real_of_int r / real_of_int n * 100"
  have "2 * \<bar>S * n - 100 * r\<bar> \<le> n"
    unfolding S_def by (rule percent_rounding [OF r0 rn n0 small])
  then have "real_of_int (2 * \<bar>S * n - 100 * r\<bar>) \<le> real_of_int n"
    by (simp only: of_int_le_iff)
  then have "2 * \<bar>real_of_int S * real_of_int n - 100 * real_of_int r\<bar> \<le> real_of_int n"
    by simp
  moreover have "real_of_int S * real_of_int n - 100 * real_of_int r
                   = (real_of_int S - x) * real_of_int n"
    using n0 by (simp add: x_def field_simps)
  ultimately have "2 * (\<bar>real_of_int S - x\<bar> * real_of_int n) \<le> 1 * real_of_int n"
    using n0 by (simp add: abs_mult)
  then have near: "\<bar>real_of_int S - x\<bar> \<le> 1 / 2"
    using n0 by simp
  have "x \<noteq> real_of_int S - 1 / 2"
  proof
    assume "x = real_of_int S - 1 / 2"
    then have "x = real_of_int (S - 1) + 1 / 2" by simp
    then have "frac x = 1 / 2"
      by (simp only: frac_unique_iff) simp
    with no_tie show False by (simp add: x_def)
  qed
  moreover have "x \<noteq> real_of_int S + 1 / 2"
  proof
    assume "x = real_of_int S + 1 / 2"
    then have "frac x = 1 / 2"
      by (simp only: frac_unique_iff) simp
    with no_tie show False by (simp add: x_def)
  qed
  ultimately have "x - 1 / 2 < real_of_int S" and "real_of_int S \<le> x + 1 / 2"
    using near by linarith+
  then have "round x = S"
    by (rule round_unique)
  then show ?thesis
    by (simp add: S_def x_def)
qed

section \<open>The constructed store, evaluated\<close>

lemma store0_value:
  "store0 =
     \<lparr>users = [],
      projects = [(1, project1 1 1700000000000), (2, project2 2 1700000000000),
                  (3, project3 3 1700000000000)],
      upvotes = [], emails = [],
      activities =
        [(1, \<lparr>a_id = 1, a_projectId = 1, a_activityType = utf16 ''email_sent'',
               a_actorName = Some (utf16 ''Alex Johnson''),
               a_description = utf16 ''Sent an email about Crosswalk Needed at Lincoln & 5th Ave'',
               a_createdAt = 1700000000000\<rparr>),
         (2, \<lparr>a_id = 2, a_projectId = 3, a_activityType = utf16 ''status_change'',
               a_actorName = Some (utf16 ''City Council''),
               a_description = utf16 ''Acknowledged Large Pothole on Main Street'',
               a_createdAt = 1700000000000\<rparr>),
         (3, \<lparr>a_id = 3, a_projectId = 2, a_activityType = utf16 ''project_created'',
               a_actorName = Some (utf16 ''Maria Lopez''),
               a_description = utf16 ''Submitted a new issue: Broken Sidewalk on Oak Street'',
               a_createdAt = 1700000000000\<rparr>)],
      comments =
        [(1, \<lparr>c_id = 1, c_projectId = 1,
               c_text = utf16 ''I cross this intersection daily and it's very dangerous. We definitely need a crosswalk here.'',
               c_commenterName = utf16 ''David Chen'', c_createdAt = 1699568000000\<rparr>),
         (2, \<lparr>c_id = 2, c_projectId = 1,
               c_text = utf16 ''I witnessed a near-miss accident here last week. The city needs to take action quickly.'',
               c_commenterName = utf16 ''Sarah Williams'', c_createdAt = 1699740800000\<rparr>),
         (3, \<lparr>c_id = 3, c_projectId = 3,
               c_text = utf16 ''My car was damaged by this pothole. It's much worse after the recent rain.'',
               c_commenterName = utf16 ''Michael Rodriguez'', c_createdAt = 1699136000000\<rparr>)],
      userId = 1, projectId = 4, upvoteId = 1, emailId = 1, activityId = 4, commentId = 4\<rparr>"
  by (simp add: store0_def new_MemStorage_def addSampleData_def empty_store_def
        createActivity_def day_ms_def Let_def project1_def project2_def project3_def)

lemma store0_fields:
  "projects store0 = [(1, project1 1 1700000000000), (2, project2 2 1700000000000),
                      (3, project3 3 1700000000000)]"
  "upvotes store0 = []" "emails store0 = []"
  "projectId store0 = 4" "upvoteId store0 = 1" "emailId store0 = 1" "activityId store0 = 4"
  by (simp_all add: store0_value)

text \<open>The constructor builds a store whose identifiers are in order, at any time.\<close>

lemma wf_new_MemStorage: "wf_store (new_MemStorage now)"
  by (simp add: new_MemStorage_def addSampleData_def empty_store_def createActivity_def
        Let_def wf_store_def fresh_ids_def keys_below_def project1_def project2_def
        project3_def)

lemma wf_store0: "wf_store store0"
  unfolding store0_def by (rule wf_new_MemStorage)

lemma counter_frame:
  "upvoteId (snd (createUser s iu)) = upvoteId s"
  "emailId (snd (createUser s iu)) = emailId s"
  "upvoteId (snd (createActivity s ia now)) = upvoteId s"
  "emailId (snd (createActivity s ia now)) = emailId s"
  "upvoteId (snd (createComment s ic now)) = upvoteId s"
  "emailId (snd (createComment s ic now)) = emailId s"
  "upvoteId (snd (createProject s ip now)) = upvoteId s"
  "emailId (snd (createProject s ip now)) = emailId s"
  "upvoteId (snd (updateProject s k u now)) = upvoteId s"
  "emailId (snd (updateProject s k u now)) = emailId s"
  "upvoteId (snd (createUpvote s iv now)) = upvoteId s + 1"
  "emailId (snd (createUpvote s iv now)) = emailId s"
  "upvoteId (snd (createEmail s ie now)) = upvoteId s"
  "emailId (snd (createEmail s ie now)) = emailId s + 1"
  by (simp_all add: createUser_def createComment_def createProject_def createUpvote_def
        createEmail_def updateProject_def Let_def createActivity_store split: option.splits)

text \<open>Rewrite rules that evaluate the rows of the example run without unfolding a store.\<close>

lemmas example_simps =
  store0_fields run_def example_ops_def upvote_on_def email_on_def comment_on_def
  createUpvote_frame(1,2) createEmail_frame(1,2) create_frame counter_frame
  updateProject_frame(1,2)
  getProjectById_def getUpvotesByProject_def getEmailsByProject_def Map_values_def

subsection \<open>The store with forty projects\<close>

lemma map_Map_set:
  "map (\<lambda>kv. (fst kv, f (snd kv))) (Map_set k v m) = Map_set k (f v) (map (\<lambda>kv. (fst kv, f (snd kv))) m)"
  by (induction m) auto

lemma Map_get_map:
  "Map_get (map (\<lambda>kv. (fst kv, f (snd kv))) m) k = map_option f (Map_get m k)"
  by (induction m) auto

lemma statuses_createProject:
  "statuses (snd (createProject s i now)) = Map_set (projectId s) idea_submitted (statuses s)"
  "projectId (snd (createProject s i now)) = projectId s + 1"
  by (simp_all add: statuses_def createProject_def Let_def createActivity_store map_Map_set)

lemma statuses_updateProject:
  "statuses (snd (updateProject s k (no_updates\<lparr>up_progressStatus := Some st\<rparr>) now))
     = (if Map_get (statuses s) k = None then statuses s else Map_set k st (statuses s))"
  by (auto simp: statuses_def updateProject_frame(3) map_Map_set Map_get_map merge_updates_def
        no_updates_def split: option.splits)

lemma statuses_updates:
  "statuses (run (map (\<lambda>i. UpdateProject i (no_updates\<lparr>up_progressStatus := Some st\<rparr>) now) ids) s)
     = fold (\<lambda>i m. if Map_get m i = None then m else Map_set i st m) ids (statuses s)"
  unfolding run_def
  by (induction ids arbitrary: s) (simp_all add: statuses_updateProject)

lemma statuses_store0:
  "statuses store0 = [(1, community_support), (2, idea_submitted), (3, official_acknowledgment)]"
  "projectId store0 = 4"
  by (simp_all add: statuses_def store0_fields project1_def project2_def project3_def)

lemma statuses_creates:
  "statuses (run (map (\<lambda>i. CreateProject street_project 1700000000100) [4 .. 40]) store0)
     = [(1, community_support), (2, idea_submitted), (3, official_acknowledgment)]
       @ map (\<lambda>i. (i, idea_submitted)) [4 .. 40]"
  by (simp add: run_def statuses_createProject statuses_store0)

lemma run_append: "run (xs @ ys) s = run ys (run xs s)"
  by (simp add: run_def)

lemma forty_projects_counts:
  "length (filter (\<lambda>p. p_progressStatus p = completed) (Map_values (projects forty_projects))) = 23"
  "length (filter (\<lambda>p. p_progressStatus p \<noteq> completed) (Map_values (projects forty_projects))) = 17"
  "length (Map_values (projects forty_projects)) = 40"
proof -
  have "statuses forty_projects
          = fold (\<lambda>i m. if Map_get m i = None then m else Map_set i completed m) [1 .. 23]
              ([(1, community_support), (2, idea_submitted), (3, official_acknowledgment)]
               @ map (\<lambda>i. (i, idea_submitted)) [4 .. 40])"
    unfolding forty_projects_def forty_ops_def
    by (simp only: run_append statuses_updates statuses_creates)
  moreover have "map p_progressStatus (Map_values (projects forty_projects))
                   = map snd (statuses forty_projects)"
    by (simp add: statuses_def Map_values_def comp_def)
  ultimately have "map p_progressStatus (Map_values (projects forty_projects))
          = map snd (fold (\<lambda>i m. if Map_get m i = None then m else Map_set i completed m) [1 .. 23]
              ([(1, community_support), (2, idea_submitted), (3, official_acknowledgment)]
               @ map (\<lambda>i. (i, idea_submitted)) [4 .. 40]))"
    by (simp only:)
  then have sts: "map p_progressStatus (Map_values (projects forty_projects))
          = [completed, completed, completed, completed, completed, completed, completed,
             completed, completed, completed, completed, completed, completed, completed,
             completed, completed, completed, completed, completed, completed, completed,
             completed, completed, idea_submitted, idea_submitted, idea_submitted,
             idea_submitted, idea_submitted, idea_submitted, idea_submitted, idea_submitted,
             idea_submitted, idea_submitted, idea_submitted, idea_submitted, idea_submitted,
             idea_submitted, idea_submitted, idea_submitted, idea_submitted]"
    by (simp add: upto_rec1)
  have "length (filter (\<lambda>p. p_progressStatus p = completed) (Map_values (projects forty_projects)))
          = length (filter (\<lambda>st. st = completed)
                      (map p_progressStatus (Map_values (projects forty_projects))))"
    by (simp add: filter_map comp_def)
  then show "length (filter (\<lambda>p. p_progressStatus p = completed)
                       (Map_values (projects forty_projects))) = 23"
    by (simp add: sts)
  have "length (filter (\<lambda>p. p_progressStatus p \<noteq> completed) (Map_values (projects forty_projects)))
          = length (filter (\<lambda>st. st \<noteq> completed)
                      (map p_progressStatus (Map_values (projects forty_projects))))"
    by (simp add: filter_map comp_def)
  then show "length (filter (\<lambda>p. p_progressStatus p \<noteq> completed)
                       (Map_values (projects forty_projects))) = 17"
    by (simp add: sts)
  have "length (Map_values (projects forty_projects))
          = length (map p_progressStatus (Map_values (projects forty_projects)))"
    by simp
  then show "length (Map_values (projects forty_projects)) = 40"
    by (simp only: sts) simp
qed

subsection \<open>The store with the Greek title, and the sample texts in lower case\<close>

lemma createProject_projects:
  "projects (snd (createProject s i now)) =
     Map_set (projectId s)
       \<lparr>p_id = projectId s, p_title = ip_title i, p_description = ip_description i,
        p_issueType = ip_issueType i, p_location = ip_location i,
        p_latitude = ip_latitude i, p_longitude = ip_longitude i,
        p_urgencyLevel = ip_urgencyLevel i, p_contactEmail = ip_contactEmail i,
        p_emailTemplate = ip_emailTemplate i, p_emailSubject = ip_emailSubject i,
        p_emailRecipient = ip_emailRecipient i,
        p_upvotes = 0, p_emailsSent = 0, p_progressStatus = idea_submitted,
        p_createdAt = now, p_createdBy = number_or_null (ip_createdBy i)\<rparr> (projects s)"
  by (simp add: createProject_def Let_def createActivity_store)

lemma sigma_in_no_text:
  "toLowerCase_here [931] = [963]"
  "toLowerCase_here [927, 916, 927, 931] = [959, 948, 959, 962]"
  "String_includes (toLowerCase_here [927, 916, 927, 931]) [963] = False"
  "String_includes (toLowerCase_here (utf16 ''unpaved road'')) [963] = False"
  "String_includes (toLowerCase_here (utf16 ''athens'')) [963] = False"
  "String_includes (toLowerCase_here (utf16 ''Crosswalk Needed at Lincoln & 5th Ave'')) [963]
     = False"
  "String_includes (toLowerCase_here
      (utf16 ''Dangerous intersection with high pedestrian traffic and no safe crossing.''))
      [963] = False"
  "String_includes (toLowerCase_here (utf16 ''Lincoln & 5th Ave'')) [963] = False"
  "String_includes (toLowerCase_here (utf16 ''Broken Sidewalk on Oak Street'')) [963] = False"
  "String_includes (toLowerCase_here
      (utf16 ''Multiple large cracks making it difficult for wheelchair access.''))
      [963] = False"
  "String_includes (toLowerCase_here (utf16 ''Oak Street'')) [963] = False"
  "String_includes (toLowerCase_here (utf16 ''Large Pothole on Main Street'')) [963] = False"
  "String_includes (toLowerCase_here
      (utf16 ''Deep pothole causing vehicle damage and traffic backup during rush hours.''))
      [963] = False"
  "String_includes (toLowerCase_here (utf16 ''Main Street & Broadway'')) [963] = False"
  by code_simp+

lemma sample_texts_ascii:
  "is_ascii (utf16 ''OAK'')" "is_ascii (utf16 ''street'')"
  "is_ascii (utf16 ''Crosswalk Needed at Lincoln & 5th Ave'')"
  "is_ascii (utf16 ''Dangerous intersection with high pedestrian traffic and no safe crossing.'')"
  "is_ascii (utf16 ''Lincoln & 5th Ave'')"
  "is_ascii (utf16 ''Broken Sidewalk on Oak Street'')"
  "is_ascii (utf16 ''Multiple large cracks making it difficult for wheelchair access.'')"
  "is_ascii (utf16 ''Oak Street'')"
  "is_ascii (utf16 ''Large Pothole on Main Street'')"
  "is_ascii (utf16 ''Deep pothole causing vehicle damage and traffic backup during rush hours.'')"
  "is_ascii (utf16 ''Main Street & Broadway'')"
  by code_simp+

lemma sample_texts_oak:
  "String_includes (ascii_lower (utf16 ''Crosswalk Needed at Lincoln & 5th Ave''))
     (ascii_lower (utf16 ''OAK'')) = False"
  "String_includes (ascii_lower
      (utf16 ''Dangerous intersection with high pedestrian traffic and no safe crossing.''))
     (ascii_lower (utf16 ''OAK'')) = False"
  "String_includes (ascii_lower (utf16 ''Lincoln & 5th Ave'')) (ascii_lower (utf16 ''OAK''))
     = False"
  "String_includes (ascii_lower (utf16 ''Broken Sidewalk on Oak Street''))
     (ascii_lower (utf16 ''OAK'')) = True"
  "String_includes (ascii_lower
      (utf16 ''Multiple large cracks making it difficult for wheelchair access.''))
     (ascii_lower (utf16 ''OAK'')) = False"
  "String_includes (ascii_lower (utf16 ''Oak Street'')) (ascii_lower (utf16 ''OAK'')) = True"
  "String_includes (ascii_lower (utf16 ''Large Pothole on Main Street''))
     (ascii_lower (utf16 ''OAK'')) = False"
  "String_includes (ascii_lower
      (utf16 ''Deep pothole causing vehicle damage and traffic backup during rush hours.''))
     (ascii_lower (utf16 ''OAK'')) = False"
  "String_includes (ascii_lower (utf16 ''Main Street & Broadway'')) (ascii_lower (utf16 ''OAK''))
     = False"
  by code_simp+

lemma sample_texts_street:
  "String_includes (ascii_lower (utf16 ''Crosswalk Needed at Lincoln & 5th Ave''))
     (ascii_lower (utf16 ''street'')) = False"
  "String_includes (ascii_lower
      (utf16 ''Dangerous intersection with high pedestrian traffic and no safe crossing.''))
     (ascii_lower (utf16 ''street'')) = False"
  "String_includes (ascii_lower (utf16 ''Lincoln & 5th Ave'')) (ascii_lower (utf16 ''street''))
     = False"
  "String_includes (ascii_lower (utf16 ''Broken Sidewalk on Oak Street''))
     (ascii_lower (utf16 ''street'')) = True"
  "String_includes (ascii_lower
      (utf16 ''Multiple large cracks making it difficult for wheelchair access.''))
     (ascii_lower (utf16 ''street'')) = False"
  "String_includes (ascii_lower (utf16 ''Oak Street'')) (ascii_lower (utf16 ''street'')) = True"
  "String_includes (ascii_lower (utf16 ''Large Pothole on Main Street''))
     (ascii_lower (utf16 ''street'')) = True"
  "String_includes (ascii_lower
      (utf16 ''Deep pothole causing vehicle damage and traffic backup during rush hours.''))
     (ascii_lower (utf16 ''street'')) = False"
  "String_includes (ascii_lower (utf16 ''Main Street & Broadway''))
     (ascii_lower (utf16 ''street'')) = True"
  by code_simp+

section \<open>The progress state machine\<close>

text \<open>
  C1. From \<open>idea_submitted\<close>, \<open>community_support\<close> or \<open>email_campaign_active\<close> the
  transition function looks at the counts only: \<open>email_campaign_active\<close> when at least
  50 emails were sent, else \<open>community_support\<close> when there are at least 25 upvotes, else
  \<open>idea_submitted\<close>. The email check comes first (30 upvotes and 60 emails give
  \<open>email_campaign_active\<close>), 24 upvotes give \<open>idea_submitted\<close>, 25 give
  \<open>community_support\<close>, and the result is never \<open>official_acknowledgment\<close> or later.
\<close>

theorem determineProgressStatus_early:
  assumes "s \<in> {idea_submitted, community_support, email_campaign_active}"
  shows "determineProgressStatus u e s =
           (if e \<ge> 50 then email_campaign_active
            else if u \<ge> 25 then community_support
            else idea_submitted)
         \<and> determineProgressStatus 30 60 idea_submitted = email_campaign_active
         \<and> determineProgressStatus 24 0 idea_submitted = idea_submitted
         \<and> determineProgressStatus 25 0 idea_submitted = community_support
         \<and> determineProgressStatus u e s \<notin>
             {official_acknowledgment, planning_stage, implementation, completed}"
  using assms by auto

theorem determineProgressStatus_early_witness:
  "community_support \<in> {idea_submitted, community_support, email_campaign_active}
   \<and> determineProgressStatus 49 49 community_support = community_support
   \<and> determineProgressStatus 49 50 community_support = email_campaign_active
   \<and> determineProgressStatus 49 50 community_support \<notin>
       {official_acknowledgment, planning_stage, implementation, completed}"
  using determineProgressStatus_early [of community_support 49 49]
        determineProgressStatus_early [of community_support 49 50]
  by simp

text \<open>
  C3. From \<open>official_acknowledgment\<close>, \<open>planning_stage\<close>, \<open>implementation\<close> or
  \<open>completed\<close> the transition function returns the status it is given, whatever the
  counts. So a chain of re-evaluations started in one of these statuses ends in it, and
  in the store no sequence of create operations (upvotes and emails re-evaluate the
  status, the others leave projects alone) moves a stored project out of it.
\<close>

theorem later_status_is_kept:
  assumes "st \<in> {official_acknowledgment, planning_stage, implementation, completed}"
  shows "determineProgressStatus u e st = st
         \<and> fold (\<lambda>ue cur. determineProgressStatus (fst ue) (snd ue) cur) counts st = st
         \<and> (wf_store s \<and> list_all is_create ops \<and> getProjectById s k = Some P
              \<and> p_progressStatus P = st
            \<longrightarrow> map_option p_progressStatus (getProjectById (run ops s) k) = Some st)"
proof -
  have one: "determineProgressStatus u' e' st = st" for u' e'
    using assms by auto
  have chain: "fold (\<lambda>ue cur. determineProgressStatus (fst ue) (snd ue) cur) counts st = st"
    by (induction counts) (simp_all add: one del: determineProgressStatus.simps)
  have stored: "map_option p_progressStatus (getProjectById (run ops s) k) = Some st"
    if "wf_store s" and "list_all is_create ops" and "getProjectById s k = Some P"
      and "p_progressStatus P = st"
  proof -
    from that(3) have "Map_get (projects s) k = Some P"
      by (simp add: getProjectById_def)
    from run_tracks [OF that(1) that(2) this]
    obtain P' where "Map_get (projects (run ops s)) k = Some P'"
      and "tracks s (run ops s) k P P'" by blast
    then show ?thesis
      using assms that(4) by (auto simp: tracks_def getProjectById_def)
  qed
  from one chain stored show ?thesis by blast
qed

theorem later_status_is_kept_witness:
  "official_acknowledgment \<in> {official_acknowledgment, planning_stage, implementation, completed}
   \<and> determineProgressStatus 0 0 official_acknowledgment = official_acknowledgment
   \<and> fold (\<lambda>ue cur. determineProgressStatus (fst ue) (snd ue) cur) [(68, 52), (68, 53)]
         official_acknowledgment = official_acknowledgment
   \<and> wf_store store0 \<and> list_all is_create example_ops
   \<and> getProjectById store0 3 = Some (project3 3 1700000000000)
   \<and> p_progressStatus (project3 3 1700000000000) = official_acknowledgment
   \<and> map_option p_progressStatus (getProjectById (run example_ops store0) 3)
       = Some official_acknowledgment"
proof -
  have h0: "official_acknowledgment
              \<in> {official_acknowledgment, planning_stage, implementation, completed}"
    by simp
  have h1: "wf_store store0" by (rule wf_store0)
  have h2: "list_all is_create example_ops" by (simp add: example_ops_def)
  have h3: "getProjectById store0 3 = Some (project3 3 1700000000000)"
    by (simp add: example_simps)
  have h4: "p_progressStatus (project3 3 1700000000000) = official_acknowledgment"
    by (simp add: project3_def)
  from later_status_is_kept [OF h0, of 0 0 "[(68, 52), (68, 53)]" store0 example_ops 3
      "project3 3 1700000000000"] h0 h1 h2 h3 h4
  show ?thesis by simp
qed

section \<open>Counters and rows\<close>

text \<open>
  C2, as the code has it. The constructor seeds three projects with counters (45, 23
  and 67 upvotes, 38, 12 and 52 emails) and stores no upvote or email row, so the
  counters do not equal the row counts in the initial state.
\<close>

theorem seeded_counters_counterexample:
  "map_option p_upvotes (getProjectById (new_MemStorage 1700000000000) 1) = Some 45
   \<and> length (getUpvotesByProject (new_MemStorage 1700000000000) 1) = 0
   \<and> map_option p_emailsSent (getProjectById (new_MemStorage 1700000000000) 1) = Some 38
   \<and> length (getEmailsByProject (new_MemStorage 1700000000000) 1) = 0"
  unfolding store0_def [symmetric] by (simp add: example_simps project1_def)

text \<open>
  C2, amended. In a store whose identifiers are in order, a project that is stored
  stays stored under every sequence of create operations (a direct \<open>updateProject\<close>
  is not one). Its \<open>upvotes\<close> counter moves by exactly the number of upvote rows
  added for its id, provided the counter is at least \<open>- 2 ^ 53\<close> before and, with the
  rows added, at most \<open>2 ^ 53\<close>: the counter is a double, and adding 1 is exact within
  these bounds only (a counter at \<open>2 ^ 53\<close> stays there). The same holds of the
  \<open>emailsSent\<close> counter and the email rows added for its id. Within the bounds the
  counters equal the row counts afterwards exactly when they did before.
\<close>

theorem counters_move_with_rows:
  assumes "wf_store s" and "list_all is_create ops" and "getProjectById s k = Some P"
  shows "getProjectById (run ops s) k \<noteq> None
         \<and> (- (2 ^ 53) \<le> p_upvotes P
              \<and> p_upvotes P + (int (length (getUpvotesByProject (run ops s) k))
                                - int (length (getUpvotesByProject s k))) \<le> 2 ^ 53
            \<longrightarrow> map_option p_upvotes (getProjectById (run ops s) k)
                  = Some (p_upvotes P + (int (length (getUpvotesByProject (run ops s) k))
                                         - int (length (getUpvotesByProject s k)))))
         \<and> (- (2 ^ 53) \<le> p_emailsSent P
              \<and> p_emailsSent P + (int (length (getEmailsByProject (run ops s) k))
                                   - int (length (getEmailsByProject s k))) \<le> 2 ^ 53
            \<longrightarrow> map_option p_emailsSent (getProjectById (run ops s) k)
                  = Some (p_emailsSent P + (int (length (getEmailsByProject (run ops s) k))
                                            - int (length (getEmailsByProject s k)))))"
proof -
  from assms(3) have "Map_get (projects s) k = Some P"
    by (simp add: getProjectById_def)
  from run_tracks [OF assms(1) assms(2) this]
  obtain P' where "Map_get (projects (run ops s)) k = Some P'"
    and "tracks s (run ops s) k P P'" by blast
  then show ?thesis
    by (simp add: tracks_def getProjectById_def upvote_count_def email_count_def)
qed

theorem counters_move_with_rows_witness:
  "wf_store store0 \<and> list_all is_create example_ops
   \<and> getProjectById store0 2 = Some (project2 2 1700000000000)
   \<and> - (2 ^ 53) \<le> p_upvotes (project2 2 1700000000000)
   \<and> - (2 ^ 53) \<le> p_emailsSent (project2 2 1700000000000)
   \<and> length (getUpvotesByProject store0 2) = 0
   \<and> length (getUpvotesByProject (run example_ops store0) 2) = 2
   \<and> length (getEmailsByProject store0 2) = 0
   \<and> length (getEmailsByProject (run example_ops store0) 2) = 0
   \<and> p_upvotes (project2 2 1700000000000) + (2 - 0) \<le> 2 ^ 53
   \<and> p_emailsSent (project2 2 1700000000000) + (0 - 0) \<le> 2 ^ 53
   \<and> map_option p_upvotes (getProjectById (run example_ops store0) 2) = Some 25
   \<and> map_option p_emailsSent (getProjectById (run example_ops store0) 2) = Some 12
   \<and> js_plus 9007199254740991 1 = 9007199254740992
   \<and> js_plus 9007199254740992 1 = 9007199254740992"
proof -
  have h1: "wf_store store0" by (rule wf_store0)
  have h2: "list_all is_create example_ops" by (simp add: example_ops_def)
  have h3: "getProjectById store0 2 = Some (project2 2 1700000000000)"
    by (simp add: example_simps)
  have b: "- (2 ^ 53) \<le> p_upvotes (project2 2 1700000000000)"
    "- (2 ^ 53) \<le> p_emailsSent (project2 2 1700000000000)"
    "p_upvotes (project2 2 1700000000000) + (2 - 0) \<le> 2 ^ 53"
    "p_emailsSent (project2 2 1700000000000) + (0 - 0) \<le> 2 ^ 53"
    by (simp_all add: project2_def)
  have n0: "length (getUpvotesByProject store0 2) = 0" by (simp add: example_simps)
  have n1: "length (getUpvotesByProject (run example_ops store0) 2) = 2"
    by (simp add: example_simps)
  have m0: "length (getEmailsByProject store0 2) = 0" by (simp add: example_simps)
  have m1: "length (getEmailsByProject (run example_ops store0) 2) = 0"
    by (simp add: example_simps)
  have top: "js_plus 9007199254740991 1 = 9007199254740992"
    "js_plus 9007199254740992 1 = 9007199254740992"
    by code_simp+
  from counters_move_with_rows [OF h1 h2 h3]
  have "map_option p_upvotes (getProjectById (run example_ops store0) 2) = Some 25
        \<and> map_option p_emailsSent (getProjectById (run example_ops store0) 2) = Some 12"
    by (simp add: n0 n1 m0 m1 project2_def)
  with h1 h2 h3 b n0 n1 m0 m1 top show ?thesis by (intro conjI) simp_all
qed

section \<open>Patching a project that is not there\<close>

text \<open>
  C10. \<open>updateProject\<close> on an id under which no project is stored returns
  \<open>undefined\<close> and the store it was given: no project is changed, no row is added
  to any collection, no activity is written.
\<close>

theorem updateProject_unknown_id:
  assumes "getProjectById s pid = None"
  shows "updateProject s pid updates now = (None, s)"
  using assms by (simp add: updateProject_def getProjectById_def)

theorem updateProject_unknown_id_witness:
  "getProjectById store0 99 = None
   \<and> updateProject store0 99
        (no_updates\<lparr>up_upvotes := Some 5, up_progressStatus := Some completed\<rparr>) 1700000000100
      = (None, store0)"
proof -
  have h: "getProjectById store0 99 = None" by (simp add: example_simps)
  from updateProject_unknown_id [OF h] h show ?thesis by simp
qed

section \<open>Duplicate upvotes\<close>

text \<open>
  C4. When the upvote handler has accepted an upvote for a project from an address
  (it answered with the updated project), \<open>hasUserUpvoted\<close> holds for the pair in the
  store it leaves, and keeps holding after any sequence of store operations; every
  later request for the same project from the same address is answered with 400
  \<open>You have already upvoted this project\<close> and leaves the store exactly as it finds
  it, so neither the project's counter nor the upvote rows change.
\<close>

theorem duplicate_upvote_is_refused:
  assumes "fresh_ids s0"
    and "upvote_route schema_error s0 (Some pid) req_ip remoteAddress now
           = (Json_project 200 answer, s)"
    and "client_ip req_ip' remoteAddress' = client_ip req_ip remoteAddress"
  shows "hasUserUpvoted s pid (client_ip req_ip remoteAddress)
         \<and> hasUserUpvoted (run ops s) pid (client_ip req_ip remoteAddress)
         \<and> upvote_route schema_error' (run ops s) (Some pid) req_ip' remoteAddress' now'
             = (Json_message 400 (utf16 ''You have already upvoted this project''), run ops s)"
proof -
  let ?ip = "client_ip req_ip remoteAddress"
  let ?data = "\<lparr>iv_projectId = pid, iv_userId = None, iv_ipAddress = ?ip\<rparr>"
  from assms(2) have stored: "getProjectById s0 pid \<noteq> None"
    and s: "s = snd (createUpvote s0 ?data now)"
    by (auto simp: upvote_route_def Let_def split: option.splits if_splits)
  have "(upvoteId s0, \<lparr>v_id = upvoteId s0, v_projectId = pid, v_userId = None,
                        v_ipAddress = ?ip, v_createdAt = now\<rparr>) \<in> set (upvotes s)"
    unfolding s by (simp add: createUpvote_frame Map_set_member)
  then have up: "hasUserUpvoted s pid ?ip"
    by (force simp: hasUserUpvoted_def Map_values_def list_ex_iff)
  have "fresh_ids s"
    unfolding s using assms(1) by (rule fresh_createUpvote)
  then have later: "hasUserUpvoted (run ops s) pid ?ip"
    using up by (rule hasUserUpvoted_run)
  have "Map_get (projects s) pid \<noteq> None"
    using stored project_stays_exec [of s0 pid "CreateUpvote ?data now"]
    by (simp add: s getProjectById_def)
  then have "Map_get (projects (run ops s)) pid \<noteq> None"
    by (rule project_stays_run)
  then have "upvote_route schema_error' (run ops s) (Some pid) req_ip' remoteAddress' now'
               = (Json_message 400 (utf16 ''You have already upvoted this project''), run ops s)"
    using later assms(3)
    by (auto simp: upvote_route_def getProjectById_def Let_def split: option.splits)
  with up later show ?thesis by simp
qed

theorem duplicate_upvote_is_refused_witness:
  "fresh_ids store0
   \<and> fst (upvote_route (\<lambda>d. None) store0 (Some 2) (Some (utf16 ''1.2.3.4'')) None 1700000000050)
       = Json_project 200
           (getProjectById
              (snd (upvote_route (\<lambda>d. None) store0 (Some 2) (Some (utf16 ''1.2.3.4'')) None
                      1700000000050)) 2)
   \<and> client_ip None (Some (utf16 ''1.2.3.4'')) = client_ip (Some (utf16 ''1.2.3.4'')) None
   \<and> upvote_route (\<lambda>d. None)
        (run example_ops
           (snd (upvote_route (\<lambda>d. None) store0 (Some 2) (Some (utf16 ''1.2.3.4'')) None
                   1700000000050)))
        (Some 2) None (Some (utf16 ''1.2.3.4'')) 1700000000900
      = (Json_message 400 (utf16 ''You have already upvoted this project''),
         run example_ops
           (snd (upvote_route (\<lambda>d. None) store0 (Some 2) (Some (utf16 ''1.2.3.4'')) None
                   1700000000050)))"
proof -
  let ?r = "upvote_route (\<lambda>d. None) store0 (Some 2) (Some (utf16 ''1.2.3.4'')) None 1700000000050"
  have h1: "fresh_ids store0"
    using wf_store0 by (simp add: wf_store_def)
  have h2: "fst ?r = Json_project 200 (getProjectById (snd ?r) 2)"
    by (simp add: upvote_route_def hasUserUpvoted_def client_ip_def Let_def example_simps)
  then have h2': "?r = (Json_project 200 (getProjectById (snd ?r) 2), snd ?r)"
    by (metis prod.collapse)
  have h3: "client_ip None (Some (utf16 ''1.2.3.4'')) = client_ip (Some (utf16 ''1.2.3.4'')) None"
    by (simp add: client_ip_def)
  from duplicate_upvote_is_refused [OF h1 h2' h3, where ops = example_ops
      and schema_error' = "\<lambda>d. None" and now' = 1700000000900] h1 h2 h3
  show ?thesis by simp
qed

section \<open>Requests that name no stored project\<close>

text \<open>
  C5, as the code has it. \<open>createUpvote\<close> does not look the project up before it
  stores the row: for project id 99, which the constructed store does not have, it
  returns the new row and the store holds it afterwards. \<open>createComment\<close> stores the
  comment and records an activity as well.
\<close>

theorem orphan_rows_counterexample:
  "getProjectById (new_MemStorage 1700000000000) 99 = None
   \<and> upvotes (new_MemStorage 1700000000000) = []
   \<and> createUpvote (new_MemStorage 1700000000000) (upvote_on 99 (utf16 ''1.2.3.4'')) 1700000000100
       = (\<lparr>v_id = 1, v_projectId = 99, v_userId = None, v_ipAddress = utf16 ''1.2.3.4'',
            v_createdAt = 1700000000100\<rparr>,
          (new_MemStorage 1700000000000)
            \<lparr>upvotes := [(1, \<lparr>v_id = 1, v_projectId = 99, v_userId = None,
                               v_ipAddress = utf16 ''1.2.3.4'', v_createdAt = 1700000000100\<rparr>)],
             upvoteId := 2\<rparr>)
   \<and> length (activities (new_MemStorage 1700000000000)) = 3
   \<and> length (activities (snd (createComment (new_MemStorage 1700000000000) (comment_on 99)
                                 1700000000100))) = 4"
  unfolding store0_def [symmetric]
  by (simp add: example_simps createUpvote_def createComment_def createActivity_store Let_def)
     (simp add: store0_value)

text \<open>
  C5, amended. When no project is stored under the id: the upvote handler and the
  send-email handler answer 404 \<open>Project not found\<close> and leave the store as it is.
  The store operations themselves do not refuse: \<open>createUpvote\<close> and \<open>createEmail\<close>
  store the row and return it, changing nothing else (no project, no activity);
  \<open>createComment\<close> stores the comment and records one \<open>comment_added\<close> activity
  about \<open>Unknown Project\<close>, changing nothing else.
\<close>

theorem unknown_project_is_handled:
  assumes "getProjectById s pid = None"
  shows "upvote_route schema_error s (Some pid) req_ip remoteAddress now
           = (Json_message 404 (utf16 ''Project not found''), s)
         \<and> send_email_route toLowerCase env s (Inr (ie\<lparr>ie_projectId := pid\<rparr>)) now
           = (Json_message 404 (utf16 ''Project not found''), s)
         \<and> createUpvote s (iv\<lparr>iv_projectId := pid\<rparr>) now
           = (\<lparr>v_id = upvoteId s, v_projectId = pid,
                v_userId = number_or_null (iv_userId iv),
                v_ipAddress = iv_ipAddress iv, v_createdAt = now\<rparr>,
              s\<lparr>upvoteId := upvoteId s + 1,
                upvotes := Map_set (upvoteId s)
                  \<lparr>v_id = upvoteId s, v_projectId = pid,
                   v_userId = number_or_null (iv_userId iv),
                   v_ipAddress = iv_ipAddress iv, v_createdAt = now\<rparr> (upvotes s)\<rparr>)
         \<and> createEmail s (ie\<lparr>ie_projectId := pid\<rparr>) now
           = (\<lparr>e_id = emailId s, e_projectId = pid,
                e_senderEmail = string_or_null (ie_senderEmail ie),
                e_senderName = string_or_null (ie_senderName ie),
                e_customContent = string_or_null (ie_customContent ie), e_sentAt = now\<rparr>,
              s\<lparr>emailId := emailId s + 1,
                emails := Map_set (emailId s)
                  \<lparr>e_id = emailId s, e_projectId = pid,
                   e_senderEmail = string_or_null (ie_senderEmail ie),
                   e_senderName = string_or_null (ie_senderName ie),
                   e_customContent = string_or_null (ie_customContent ie),
                   e_sentAt = now\<rparr> (emails s)\<rparr>)
         \<and> createComment s (ic\<lparr>ic_projectId := pid\<rparr>) now
           = (\<lparr>c_id = commentId s, c_projectId = pid, c_text = ic_text ic,
                c_commenterName = ic_commenterName ic, c_createdAt = now\<rparr>,
              s\<lparr>commentId := commentId s + 1,
                comments := Map_set (commentId s)
                  \<lparr>c_id = commentId s, c_projectId = pid, c_text = ic_text ic,
                   c_commenterName = ic_commenterName ic, c_createdAt = now\<rparr> (comments s),
                activityId := activityId s + 1,
                activities := Map_set (activityId s)
                  \<lparr>a_id = activityId s, a_projectId = pid,
                   a_activityType = utf16 ''comment_added'',
                   a_actorName = string_or_null (Some (ic_commenterName ic)),
                   a_description = utf16 ''New comment on project: Unknown Project'',
                   a_createdAt = now\<rparr> (activities s)\<rparr>)"
proof -
  from assms have none: "Map_get (projects s) pid = None"
    by (simp add: getProjectById_def)
  have r1: "upvote_route schema_error s (Some pid) req_ip remoteAddress now
              = (Json_message 404 (utf16 ''Project not found''), s)"
    using assms by (simp add: upvote_route_def)
  have r2: "send_email_route toLowerCase env s (Inr (ie\<lparr>ie_projectId := pid\<rparr>)) now
              = (Json_message 404 (utf16 ''Project not found''), s)"
    using assms by (simp add: send_email_route_def)
  have r3: "createUpvote s (iv\<lparr>iv_projectId := pid\<rparr>) now
           = (\<lparr>v_id = upvoteId s, v_projectId = pid,
                v_userId = number_or_null (iv_userId iv),
                v_ipAddress = iv_ipAddress iv, v_createdAt = now\<rparr>,
              s\<lparr>upvoteId := upvoteId s + 1,
                upvotes := Map_set (upvoteId s)
                  \<lparr>v_id = upvoteId s, v_projectId = pid,
                   v_userId = number_or_null (iv_userId iv),
                   v_ipAddress = iv_ipAddress iv, v_createdAt = now\<rparr> (upvotes s)\<rparr>)"
    using none by (simp add: createUpvote_def Let_def)
  have r4: "createEmail s (ie\<lparr>ie_projectId := pid\<rparr>) now
           = (\<lparr>e_id = emailId s, e_projectId = pid,
                e_senderEmail = string_or_null (ie_senderEmail ie),
                e_senderName = string_or_null (ie_senderName ie),
                e_customContent = string_or_null (ie_customContent ie), e_sentAt = now\<rparr>,
              s\<lparr>emailId := emailId s + 1,
                emails := Map_set (emailId s)
                  \<lparr>e_id = emailId s, e_projectId = pid,
                   e_senderEmail = string_or_null (ie_senderEmail ie),
                   e_senderName = string_or_null (ie_senderName ie),
                   e_customContent = string_or_null (ie_customContent ie),
                   e_sentAt = now\<rparr> (emails s)\<rparr>)"
    using none by (simp add: createEmail_def Let_def)
  have r5: "createComment s (ic\<lparr>ic_projectId := pid\<rparr>) now
           = (\<lparr>c_id = commentId s, c_projectId = pid, c_text = ic_text ic,
                c_commenterName = ic_commenterName ic, c_createdAt = now\<rparr>,
              s\<lparr>commentId := commentId s + 1,
                comments := Map_set (commentId s)
                  \<lparr>c_id = commentId s, c_projectId = pid, c_text = ic_text ic,
                   c_commenterName = ic_commenterName ic, c_createdAt = now\<rparr> (comments s),
                activityId := activityId s + 1,
                activities := Map_set (activityId s)
                  \<lparr>a_id = activityId s, a_projectId = pid,
                   a_activityType = utf16 ''comment_added'',
                   a_actorName = string_or_null (Some (ic_commenterName ic)),
                   a_description = utf16 ''New comment on project: Unknown Project'',
                   a_createdAt = now\<rparr> (activities s)\<rparr>)"
    using none by (simp add: createComment_def createActivity_def Let_def)
  from r1 r2 r3 r4 r5 show ?thesis by (intro conjI)
qed

theorem unknown_project_is_handled_witness:
  "getProjectById store0 99 = None
   \<and> upvote_route (\<lambda>d. None) store0 (Some 99) (Some (utf16 ''1.2.3.4'')) None 1700000000100
       = (Json_message 404 (utf16 ''Project not found''), store0)
   \<and> send_email_route ascii_lower \<lparr>SIMULATE_EMAIL_SENDING = True, transporter_sendMail = (\<lambda>m. None)\<rparr>
        store0 (Inr (email_on 99)) 1700000000100
       = (Json_message 404 (utf16 ''Project not found''), store0)
   \<and> projects (snd (createUpvote store0 (upvote_on 99 (utf16 ''1.2.3.4'')) 1700000000100))
       = projects store0
   \<and> activities (snd (createUpvote store0 (upvote_on 99 (utf16 ''1.2.3.4'')) 1700000000100))
       = activities store0
   \<and> projects (snd (createComment store0 (comment_on 99) 1700000000100)) = projects store0"
proof -
  have h: "getProjectById store0 99 = None" by (simp add: example_simps)
  have e: "(email_on 99)\<lparr>ie_projectId := 99\<rparr> = email_on 99"
    and v: "(upvote_on 99 (utf16 ''1.2.3.4''))\<lparr>iv_projectId := 99\<rparr> = upvote_on 99 (utf16 ''1.2.3.4'')"
    and c: "(comment_on 99)\<lparr>ic_projectId := 99\<rparr> = comment_on 99"
    by (simp_all add: email_on_def upvote_on_def comment_on_def)
  from unknown_project_is_handled [OF h, where ie = "email_on 99"
      and iv = "upvote_on 99 (utf16 ''1.2.3.4'')" and ic = "comment_on 99"
      and schema_error = "\<lambda>d. None" and req_ip = "Some (utf16 ''1.2.3.4'')" and remoteAddress = None
      and now = 1700000000100
      and env = "\<lparr>SIMULATE_EMAIL_SENDING = True, transporter_sendMail = (\<lambda>m. None)\<rparr>"
      and toLowerCase = ascii_lower] h
  show ?thesis by (simp add: e v c)
qed

section \<open>A dispatcher that fails\<close>

text \<open>
  C8. When \<open>sendEmail\<close> reports failure for the mail the handler built, the handler
  answers 500 with the dispatcher's message, which begins \<open>Failed to send email: \<close>,
  and returns the store it was given: no email row, no counter change, no activity.
\<close>

theorem failed_dispatch_changes_nothing:
  assumes "getProjectById s (ie_projectId d) = Some proj"
    and "\<not> success (sendEmail env (outgoing_mail toLowerCase proj d))"
  shows "send_email_route toLowerCase env s (Inr d) now
           = (Json_message 500 (message (sendEmail env (outgoing_mail toLowerCase proj d))), s)
         \<and> take 22 (message (sendEmail env (outgoing_mail toLowerCase proj d)))
             = utf16 ''Failed to send email: ''"
proof -
  have "send_email_route toLowerCase env s (Inr d) now
          = (Json_message 500 (message (sendEmail env (outgoing_mail toLowerCase proj d))), s)"
    using assms by (simp add: send_email_route_def Let_def)
  moreover have "take 22 (message (sendEmail env (outgoing_mail toLowerCase proj d)))
                   = utf16 ''Failed to send email: ''"
    using assms(2) by (auto simp: sendEmail_def Let_def split: if_splits option.splits)
  ultimately show ?thesis by simp
qed

theorem failed_dispatch_changes_nothing_witness:
  "getProjectById store0 1 = Some (project1 1 1700000000000)
   \<and> \<not> success (sendEmail
         \<lparr>SIMULATE_EMAIL_SENDING = False,
          transporter_sendMail = (\<lambda>m. Some (Error (utf16 ''connect ECONNREFUSED'')))\<rparr>
         (outgoing_mail ascii_lower (project1 1 1700000000000) (email_on 1)))
   \<and> send_email_route ascii_lower
        \<lparr>SIMULATE_EMAIL_SENDING = False,
         transporter_sendMail = (\<lambda>m. Some (Error (utf16 ''connect ECONNREFUSED'')))\<rparr>
        store0 (Inr (email_on 1)) 1700000000100
       = (Json_message 500 (utf16 ''Failed to send email: connect ECONNREFUSED''), store0)"
proof -
  let ?env = "\<lparr>SIMULATE_EMAIL_SENDING = False,
               transporter_sendMail = (\<lambda>m. Some (Error (utf16 ''connect ECONNREFUSED'')))\<rparr>"
  have h1: "getProjectById store0 (ie_projectId (email_on 1)) = Some (project1 1 1700000000000)"
    by (simp add: example_simps)
  have m: "sendEmail ?env (outgoing_mail ascii_lower (project1 1 1700000000000) (email_on 1))
             = \<lparr>success = False, message = utf16 ''Failed to send email: connect ECONNREFUSED''\<rparr>"
    by (simp add: sendEmail_def Let_def)
  then have h2: "\<not> success (sendEmail ?env
                     (outgoing_mail ascii_lower (project1 1 1700000000000) (email_on 1)))"
    by simp
  from failed_dispatch_changes_nothing [OF h1 h2, of 1700000000100] h1 h2 m
  show ?thesis by (simp add: email_on_def)
qed

section \<open>Activities and the mutations of a project\<close>

text \<open>
  C9, as the code has it. \<open>updateProject\<close> records an activity only for a change of
  status: patching the upvotes of project 1 from 45 to 100 writes no activity.
\<close>

theorem silent_patch_counterexample:
  "map_option p_upvotes (getProjectById (new_MemStorage 1700000000000) 1) = Some 45
   \<and> map_option p_upvotes
        (getProjectById
           (snd (updateProject (new_MemStorage 1700000000000) 1
                   (no_updates\<lparr>up_upvotes := Some 100\<rparr>) 1700000000100)) 1) = Some 100
   \<and> activities (snd (updateProject (new_MemStorage 1700000000000) 1
                         (no_updates\<lparr>up_upvotes := Some 100\<rparr>) 1700000000100))
       = activities (new_MemStorage 1700000000000)"
  unfolding store0_def [symmetric]
  by (simp add: example_simps updateProject_def Let_def project1_def merge_updates_def
        no_updates_def)

text \<open>
  C9, amended. In a store whose identifiers are in order and for a project that is
  stored: \<open>createUpvote\<close> appends exactly one activity of type \<open>upvote\<close>, and before it
  one of type \<open>status_change\<close> exactly when the re-evaluated status differs from the
  prior one; \<open>createEmail\<close> does the same with \<open>email_sent\<close>; \<open>updateProject\<close> appends
  exactly one \<open>status_change\<close> activity, described \<open>Project status updated to: \<close>
  followed by the new status, exactly when the patch carries a status distinct from the
  prior one, and nothing otherwise (so a patch of \<open>upvotes\<close> or \<open>emailsSent\<close> alone
  writes no activity); \<open>createComment\<close> appends exactly one \<open>comment_added\<close>
  activity. The activities recorded before stay as they are.
\<close>

theorem activities_of_mutations:
  assumes "wf_store s" and "getProjectById s pid = Some P"
  shows "Map_values (activities (snd (createUpvote s (iv\<lparr>iv_projectId := pid\<rparr>) now)))
           = Map_values (activities s) @
             (if determineProgressStatus (js_plus (p_upvotes P) 1) (p_emailsSent P) (p_progressStatus P)
                 \<noteq> p_progressStatus P
              then [\<lparr>a_id = activityId s, a_projectId = pid,
                      a_activityType = utf16 ''status_change'', a_actorName = Some (utf16 ''System''),
                      a_description = utf16 ''Project status updated to: '' @ progress_status_name
                        (determineProgressStatus (js_plus (p_upvotes P) 1) (p_emailsSent P)
                           (p_progressStatus P)),
                      a_createdAt = now\<rparr>,
                    \<lparr>a_id = activityId s + 1, a_projectId = pid, a_activityType = utf16 ''upvote'',
                      a_actorName = Some (utf16 ''Anonymous User''),
                      a_description = utf16 ''Someone upvoted: '' @ p_title P, a_createdAt = now\<rparr>]
              else [\<lparr>a_id = activityId s, a_projectId = pid, a_activityType = utf16 ''upvote'',
                      a_actorName = Some (utf16 ''Anonymous User''),
                      a_description = utf16 ''Someone upvoted: '' @ p_title P, a_createdAt = now\<rparr>])
         \<and> Map_values (activities (snd (createEmail s (ie\<lparr>ie_projectId := pid\<rparr>) now)))
           = Map_values (activities s) @
             (if determineProgressStatus (p_upvotes P) (js_plus (p_emailsSent P) 1) (p_progressStatus P)
                 \<noteq> p_progressStatus P
              then [\<lparr>a_id = activityId s, a_projectId = pid,
                      a_activityType = utf16 ''status_change'', a_actorName = Some (utf16 ''System''),
                      a_description = utf16 ''Project status updated to: '' @ progress_status_name
                        (determineProgressStatus (p_upvotes P) (js_plus (p_emailsSent P) 1)
                           (p_progressStatus P)),
                      a_createdAt = now\<rparr>,
                    \<lparr>a_id = activityId s + 1, a_projectId = pid,
                      a_activityType = utf16 ''email_sent'',
                      a_actorName = Some (case string_or_null (ie_senderName ie) of
                                            None \<Rightarrow> utf16 ''Anonymous User'' | Some n \<Rightarrow> n),
                      a_description = utf16 ''Email sent regarding: '' @ p_title P,
                      a_createdAt = now\<rparr>]
              else [\<lparr>a_id = activityId s, a_projectId = pid, a_activityType = utf16 ''email_sent'',
                      a_actorName = Some (case string_or_null (ie_senderName ie) of
                                            None \<Rightarrow> utf16 ''Anonymous User'' | Some n \<Rightarrow> n),
                      a_description = utf16 ''Email sent regarding: '' @ p_title P,
                      a_createdAt = now\<rparr>])
         \<and> Map_values (activities (snd (updateProject s pid updates now)))
           = Map_values (activities s) @
             (case up_progressStatus updates of
                None \<Rightarrow> []
              | Some st \<Rightarrow>
                  if st \<noteq> p_progressStatus P
                  then [\<lparr>a_id = activityId s, a_projectId = pid,
                          a_activityType = utf16 ''status_change'', a_actorName = Some (utf16 ''System''),
                          a_description =
                            utf16 ''Project status updated to: '' @ progress_status_name st,
                          a_createdAt = now\<rparr>]
                  else [])
         \<and> Map_values (activities (snd (createComment s (ic\<lparr>ic_projectId := pid\<rparr>) now)))
           = Map_values (activities s) @
             [\<lparr>a_id = activityId s, a_projectId = pid, a_activityType = utf16 ''comment_added'',
               a_actorName = string_or_null (Some (ic_commenterName ic)),
               a_description = utf16 ''New comment on project: ''
                 @ (if p_title P = [] then utf16 ''Unknown Project'' else p_title P),
               a_createdAt = now\<rparr>]"
proof -
  from assms(2) have P: "Map_get (projects s) pid = Some P"
    by (simp add: getProjectById_def)
  from assms(1) have kb: "keys_below (activityId s) (activities s)"
    by (simp add: wf_store_def fresh_ids_def)
  from assms(1) P have own: "p_id P = pid"
    by (auto simp: wf_store_def dest: Map_get_own_id)
  have up: "Map_values (activities (snd (createUpvote s (iv\<lparr>iv_projectId := pid\<rparr>) now)))
           = Map_values (activities s) @
             (if determineProgressStatus (js_plus (p_upvotes P) 1) (p_emailsSent P) (p_progressStatus P)
                 \<noteq> p_progressStatus P
              then [\<lparr>a_id = activityId s, a_projectId = pid,
                      a_activityType = utf16 ''status_change'', a_actorName = Some (utf16 ''System''),
                      a_description = utf16 ''Project status updated to: '' @ progress_status_name
                        (determineProgressStatus (js_plus (p_upvotes P) 1) (p_emailsSent P)
                           (p_progressStatus P)),
                      a_createdAt = now\<rparr>,
                    \<lparr>a_id = activityId s + 1, a_projectId = pid, a_activityType = utf16 ''upvote'',
                      a_actorName = Some (utf16 ''Anonymous User''),
                      a_description = utf16 ''Someone upvoted: '' @ p_title P, a_createdAt = now\<rparr>]
              else [\<lparr>a_id = activityId s, a_projectId = pid, a_activityType = utf16 ''upvote'',
                      a_actorName = Some (utf16 ''Anonymous User''),
                      a_description = utf16 ''Someone upvoted: '' @ p_title P, a_createdAt = now\<rparr>])"
  proof -
    let ?s2 = "s\<lparr>upvoteId := upvoteId s + 1,
                 upvotes := Map_set (upvoteId s)
                   \<lparr>v_id = upvoteId s, v_projectId = pid,
                    v_userId = number_or_null (iv_userId iv),
                    v_ipAddress = iv_ipAddress iv, v_createdAt = now\<rparr> (upvotes s)\<rparr>"
    have kb2: "keys_below (activityId ?s2) (activities ?s2)" using kb by simp
    have P2: "Map_get (projects ?s2) pid = Some P" using P by simp
    show ?thesis
      using P own
      by (simp add: createUpvote_def Let_def patch_then_activity [OF kb2 P2]
            del: determineProgressStatus.simps)
  qed
  have em: "Map_values (activities (snd (createEmail s (ie\<lparr>ie_projectId := pid\<rparr>) now)))
           = Map_values (activities s) @
             (if determineProgressStatus (p_upvotes P) (js_plus (p_emailsSent P) 1) (p_progressStatus P)
                 \<noteq> p_progressStatus P
              then [\<lparr>a_id = activityId s, a_projectId = pid,
                      a_activityType = utf16 ''status_change'', a_actorName = Some (utf16 ''System''),
                      a_description = utf16 ''Project status updated to: '' @ progress_status_name
                        (determineProgressStatus (p_upvotes P) (js_plus (p_emailsSent P) 1)
                           (p_progressStatus P)),
                      a_createdAt = now\<rparr>,
                    \<lparr>a_id = activityId s + 1, a_projectId = pid,
                      a_activityType = utf16 ''email_sent'',
                      a_actorName = Some (case string_or_null (ie_senderName ie) of
                                            None \<Rightarrow> utf16 ''Anonymous User'' | Some n \<Rightarrow> n),
                      a_description = utf16 ''Email sent regarding: '' @ p_title P,
                      a_createdAt = now\<rparr>]
              else [\<lparr>a_id = activityId s, a_projectId = pid, a_activityType = utf16 ''email_sent'',
                      a_actorName = Some (case string_or_null (ie_senderName ie) of
                                            None \<Rightarrow> utf16 ''Anonymous User'' | Some n \<Rightarrow> n),
                      a_description = utf16 ''Email sent regarding: '' @ p_title P,
                      a_createdAt = now\<rparr>])"
  proof -
    let ?s2 = "s\<lparr>emailId := emailId s + 1,
                 emails := Map_set (emailId s)
                   \<lparr>e_id = emailId s, e_projectId = pid,
                    e_senderEmail = string_or_null (ie_senderEmail ie),
                    e_senderName = string_or_null (ie_senderName ie),
                    e_customContent = string_or_null (ie_customContent ie),
                    e_sentAt = now\<rparr> (emails s)\<rparr>"
    have kb2: "keys_below (activityId ?s2) (activities ?s2)" using kb by simp
    have P2: "Map_get (projects ?s2) pid = Some P" using P by simp
    show ?thesis
      using P own
      by (simp add: createEmail_def Let_def patch_then_activity [OF kb2 P2]
            sender_or_anonymous del: determineProgressStatus.simps string_or_null.simps)
  qed
  have pa: "Map_values (activities (snd (updateProject s pid updates now)))
           = Map_values (activities s) @
             (case up_progressStatus updates of
                None \<Rightarrow> []
              | Some st \<Rightarrow>
                  if st \<noteq> p_progressStatus P
                  then [\<lparr>a_id = activityId s, a_projectId = pid,
                          a_activityType = utf16 ''status_change'', a_actorName = Some (utf16 ''System''),
                          a_description =
                            utf16 ''Project status updated to: '' @ progress_status_name st,
                          a_createdAt = now\<rparr>]
                  else [])"
    using P kb
    by (simp add: Map_values_def updateProject_activities split: option.splits)
  have co: "Map_values (activities (snd (createComment s (ic\<lparr>ic_projectId := pid\<rparr>) now)))
           = Map_values (activities s) @
             [\<lparr>a_id = activityId s, a_projectId = pid, a_activityType = utf16 ''comment_added'',
               a_actorName = string_or_null (Some (ic_commenterName ic)),
               a_description = utf16 ''New comment on project: ''
                 @ (if p_title P = [] then utf16 ''Unknown Project'' else p_title P),
               a_createdAt = now\<rparr>]"
    using P kb
    by (simp add: createComment_def Let_def Map_values_def createActivity_appends)
  from up em pa co show ?thesis by (intro conjI)
qed

theorem activities_of_mutations_witness:
  "wf_store store0 \<and> getProjectById store0 2 = Some (project2 2 1700000000000)
   \<and> map a_activityType
        (drop 3 (Map_values (activities
           (snd (createUpvote store0 (upvote_on 2 (utf16 ''1.2.3.4'')) 1700000000100)))))
       = [utf16 ''upvote'']
   \<and> map a_activityType
        (drop 3 (Map_values (activities
           (snd (updateProject store0 2 (no_updates\<lparr>up_progressStatus := Some planning_stage\<rparr>)
                   1700000000100)))))
       = [utf16 ''status_change'']
   \<and> map a_description
        (drop 3 (Map_values (activities
           (snd (updateProject store0 2 (no_updates\<lparr>up_progressStatus := Some planning_stage\<rparr>)
                   1700000000100)))))
       = [utf16 ''Project status updated to: planning_stage'']
   \<and> map a_activityType
        (drop 3 (Map_values (activities
           (snd (updateProject store0 2 (no_updates\<lparr>up_emailsSent := Some 13\<rparr>)
                   1700000000100)))))
       = []
   \<and> map a_activityType
        (drop 3 (Map_values (activities
           (snd (createComment store0 (comment_on 2) 1700000000100)))))
       = [utf16 ''comment_added'']
   \<and> wf_store (snd (updateProject store0 2 (no_updates\<lparr>up_upvotes := Some 24\<rparr>)
                       1700000000100))
   \<and> map_option p_upvotes
        (getProjectById (snd (updateProject store0 2 (no_updates\<lparr>up_upvotes := Some 24\<rparr>)
                                1700000000100)) 2) = Some 24
   \<and> map a_activityType
        (drop 3 (Map_values (activities
           (snd (createUpvote
                   (snd (updateProject store0 2 (no_updates\<lparr>up_upvotes := Some 24\<rparr>)
                           1700000000100))
                   (upvote_on 2 (utf16 ''1.2.3.4'')) 1700000000200)))))
       = [utf16 ''status_change'', utf16 ''upvote'']"
proof -
  let ?s1 = "snd (updateProject store0 2 (no_updates\<lparr>up_upvotes := Some 24\<rparr>) 1700000000100)"
  let ?P1 = "(project2 2 1700000000000)\<lparr>p_upvotes := 24\<rparr>"
  have h1: "wf_store store0" by (rule wf_store0)
  have h2: "getProjectById store0 2 = Some (project2 2 1700000000000)"
    by (simp add: example_simps)
  have n: "length (Map_values (activities store0)) = 3"
    by (simp add: store0_value Map_values_def)
  have v: "(upvote_on 2 (utf16 ''1.2.3.4''))\<lparr>iv_projectId := 2\<rparr> = upvote_on 2 (utf16 ''1.2.3.4'')"
    and c: "(comment_on 2)\<lparr>ic_projectId := 2\<rparr> = comment_on 2"
    by (simp_all add: upvote_on_def comment_on_def)
  have s1: "?s1 = store0\<lparr>projects := [(1, project1 1 1700000000000), (2, ?P1),
                                          (3, project3 3 1700000000000)]\<rparr>"
    by (simp add: updateProject_def Let_def example_simps merge_updates_def no_updates_def
          project2_def)
  have g1: "wf_store ?s1"
    using h1 unfolding s1
    by (simp add: wf_store_def fresh_ids_def keys_below_def example_simps project1_def
          project2_def project3_def)
  have g2: "getProjectById ?s1 2 = Some ?P1"
    unfolding s1 by (simp add: getProjectById_def)
  have n1: "length (Map_values (activities ?s1)) = 3"
    unfolding s1 by (simp add: n)
  have first: "map a_activityType
        (drop 3 (Map_values (activities
           (snd (createUpvote store0 (upvote_on 2 (utf16 ''1.2.3.4'')) 1700000000100)))))
       = [utf16 ''upvote'']
     \<and> map a_activityType
        (drop 3 (Map_values (activities
           (snd (updateProject store0 2 (no_updates\<lparr>up_progressStatus := Some planning_stage\<rparr>)
                   1700000000100)))))
       = [utf16 ''status_change'']
     \<and> map a_description
        (drop 3 (Map_values (activities
           (snd (updateProject store0 2 (no_updates\<lparr>up_progressStatus := Some planning_stage\<rparr>)
                   1700000000100)))))
       = [utf16 ''Project status updated to: planning_stage'']
     \<and> map a_activityType
        (drop 3 (Map_values (activities
           (snd (createComment store0 (comment_on 2) 1700000000100)))))
       = [utf16 ''comment_added'']"
    using activities_of_mutations [OF h1 h2, where iv = "upvote_on 2 (utf16 ''1.2.3.4'')"
      and ic = "comment_on 2" and now = 1700000000100
      and updates = "no_updates\<lparr>up_progressStatus := Some planning_stage\<rparr>"]
    by (simp add: v c n project2_def js_plus_exact)
  have quiet: "map a_activityType
        (drop 3 (Map_values (activities
           (snd (updateProject store0 2 (no_updates\<lparr>up_emailsSent := Some 13\<rparr>)
                   1700000000100)))))
       = []"
    using activities_of_mutations [OF h1 h2, where now = 1700000000100
      and updates = "no_updates\<lparr>up_emailsSent := Some 13\<rparr>"]
    by (simp add: n no_updates_def)
  have second: "map a_activityType
        (drop 3 (Map_values (activities
           (snd (createUpvote ?s1 (upvote_on 2 (utf16 ''1.2.3.4'')) 1700000000200)))))
       = [utf16 ''status_change'', utf16 ''upvote'']"
    using activities_of_mutations [OF g1 g2, where iv = "upvote_on 2 (utf16 ''1.2.3.4'')"
      and now = 1700000000200]
    by (simp add: v n1 project2_def js_plus_exact)
  have g3: "map_option p_upvotes (getProjectById ?s1 2) = Some 24"
    by (simp add: g2)
  from h1 h2 first quiet g1 g3 second show ?thesis by (intro conjI) simp_all
qed

section \<open>Community statistics\<close>

text \<open>
  C6, as the code has it. \<open>successRate\<close> is computed on doubles, and the quotient is
  rounded before it is multiplied by 100. With 23 of 40 projects completed the exact
  percentage is 57.5, which every rule for rounding to the nearest integer takes to
  58 (the larger neighbour, and the even one); \<open>23 / 40\<close> as a double times 100 is a
  double just below 57.5, and \<open>getCommunityStats\<close> returns 57.
\<close>

theorem rounded_percentage_counterexample:
  "length (Map_values (projects forty_projects)) = 40
   \<and> issuesResolved (getCommunityStats forty_projects) = 23
   \<and> successRate (getCommunityStats forty_projects) = 57
   \<and> round (23 / 40 * 100 :: real) = 58"
proof -
  have r: "Math_round (js_times (js_divide 23 40) 100) = 57" by code_simp
  have e: "round (23 / 40 * 100 :: real) = 58"
    by (simp add: round_def)
  have ne: "Map_values (projects forty_projects) \<noteq> []"
    using forty_projects_counts(3) by auto
  from r e ne show ?thesis
    by (simp add: getCommunityStats_def Let_def forty_projects_counts)
qed

text \<open>
  C6, amended. \<open>getCommunityStats\<close> counts the projects that are not \<open>completed\<close> as
  \<open>activeIssues\<close> and those that are as \<open>issuesResolved\<close> (together, all projects);
  \<open>emailsSent\<close> is the size of the email collection, whatever the counters of the
  projects say; \<open>successRate\<close> is 0 when there is no project and otherwise
  \<open>Math.round((issuesResolved / totalIssues) * 100)\<close>, computed on doubles as JavaScript
  does. For fewer than \<open>2 ^ 44\<close> projects that number is at most one half away from
  the exact percentage, and it is the exact percentage rounded to the nearest integer
  whenever the exact percentage is not half-way between two integers; at an exact half
  either neighbour occurs (1 of 8 gives 13, 23 of 40 gives 57).
\<close>

theorem community_stats_values:
  "activeIssues (getCommunityStats s)
     = int (length (filter (\<lambda>p. p_progressStatus p \<noteq> completed) (Map_values (projects s))))
   \<and> issuesResolved (getCommunityStats s)
     = int (length (filter (\<lambda>p. p_progressStatus p = completed) (Map_values (projects s))))
   \<and> activeIssues (getCommunityStats s) + issuesResolved (getCommunityStats s)
     = int (length (Map_values (projects s)))
   \<and> emailsSent (getCommunityStats s) = int (length (Map_values (emails s)))
   \<and> successRate (getCommunityStats s)
     = (if Map_values (projects s) = [] then 0
        else Math_round
               (js_times
                  (js_divide (issuesResolved (getCommunityStats s))
                     (int (length (Map_values (projects s)))))
                  100))
   \<and> (int (length (Map_values (projects s))) < 2 ^ 44
        \<longrightarrow> 2 * \<bar>successRate (getCommunityStats s) * int (length (Map_values (projects s)))
                    - 100 * issuesResolved (getCommunityStats s)\<bar>
            \<le> int (length (Map_values (projects s))))
   \<and> (int (length (Map_values (projects s))) < 2 ^ 44
        \<and> Map_values (projects s) \<noteq> []
        \<and> frac (real_of_int (issuesResolved (getCommunityStats s))
                 / real_of_int (int (length (Map_values (projects s)))) * 100) \<noteq> 1 / 2
        \<longrightarrow> successRate (getCommunityStats s)
            = round (real_of_int (issuesResolved (getCommunityStats s))
                     / real_of_int (int (length (Map_values (projects s)))) * 100))"
proof -
  let ?ps = "Map_values (projects s)"
  let ?r = "int (length (filter (\<lambda>p. p_progressStatus p = completed) ?ps))"
  let ?n = "int (length ?ps)"
  have "length (filter (\<lambda>p. p_progressStatus p \<noteq> completed) ?ps)
          + length (filter (\<lambda>p. p_progressStatus p = completed) ?ps) = length ?ps"
    using sum_length_filter_compl [of "\<lambda>p. p_progressStatus p = completed" ?ps] by simp
  then have total: "int (length (filter (\<lambda>p. p_progressStatus p \<noteq> completed) ?ps)) + ?r = ?n"
    by (metis of_nat_add)
  have counts: "activeIssues (getCommunityStats s)
                  = int (length (filter (\<lambda>p. p_progressStatus p \<noteq> completed) ?ps))"
    "issuesResolved (getCommunityStats s) = ?r"
    "emailsSent (getCommunityStats s) = int (length (Map_values (emails s)))"
    "successRate (getCommunityStats s)
       = (if ?ps = [] then 0 else Math_round (js_times (js_divide ?r ?n) 100))"
    by (simp_all add: getCommunityStats_def Let_def)
  have rn: "?r \<le> ?n" by simp
  have near: "2 * \<bar>successRate (getCommunityStats s) * ?n - 100 * ?r\<bar> \<le> ?n"
    if small: "?n < 2 ^ 44"
  proof (cases "?ps = []")
    case True
    then show ?thesis by (simp add: counts)
  next
    case False
    then have n0: "0 < ?n" by simp
    from percent_rounding [OF _ rn n0 small] False show ?thesis
      by (simp add: counts)
  qed
  have exact: "successRate (getCommunityStats s)
                 = round (real_of_int ?r / real_of_int ?n * 100)"
    if small: "?n < 2 ^ 44" and some: "?ps \<noteq> []"
      and no_tie: "frac (real_of_int ?r / real_of_int ?n * 100) \<noteq> 1 / 2"
  proof -
    from some have n0: "0 < ?n" by simp
    from percent_exact [OF _ rn n0 small no_tie] some show ?thesis
      by (simp add: counts)
  qed
  have c5: "successRate (getCommunityStats s)
     = (if ?ps = [] then 0
        else Math_round (js_times (js_divide (issuesResolved (getCommunityStats s)) ?n) 100))"
    by (simp only: counts)
  have c6: "?n < 2 ^ 44
        \<longrightarrow> 2 * \<bar>successRate (getCommunityStats s) * ?n
                    - 100 * issuesResolved (getCommunityStats s)\<bar> \<le> ?n"
    using near by (simp only: counts(2)) blast
  have c7: "?n < 2 ^ 44 \<and> ?ps \<noteq> []
        \<and> frac (real_of_int (issuesResolved (getCommunityStats s)) / real_of_int ?n * 100)
            \<noteq> 1 / 2
        \<longrightarrow> successRate (getCommunityStats s)
            = round (real_of_int (issuesResolved (getCommunityStats s))
                     / real_of_int ?n * 100)"
    using exact by (simp only: counts(2)) blast
  have c3: "activeIssues (getCommunityStats s) + issuesResolved (getCommunityStats s) = ?n"
    using total by (simp only: counts)
  from counts(1) counts(2) c3 counts(3) c5 c6 c7 show ?thesis
    by (intro conjI)
qed

theorem community_stats_values_witness:
  "getCommunityStats store0
     = \<lparr>activeIssues = 3, emailsSent = 0, issuesResolved = 0, successRate = 0\<rparr>
   \<and> sum_list (map p_emailsSent (Map_values (projects store0))) = 102
   \<and> getCommunityStats empty_store
     = \<lparr>activeIssues = 0, emailsSent = 0, issuesResolved = 0, successRate = 0\<rparr>
   \<and> int (length (Map_values (projects
            (snd (updateProject store0 3 (no_updates\<lparr>up_progressStatus := Some completed\<rparr>)
                    1700000000100))))) < 2 ^ 44
   \<and> Map_values (projects
         (snd (updateProject store0 3 (no_updates\<lparr>up_progressStatus := Some completed\<rparr>)
                 1700000000100))) \<noteq> []
   \<and> frac (real_of_int 1 / real_of_int 3 * 100) \<noteq> 1 / 2
   \<and> successRate
        (getCommunityStats
           (snd (updateProject store0 3 (no_updates\<lparr>up_progressStatus := Some completed\<rparr>)
                   1700000000100))) = 33
   \<and> round (real_of_int 1 / real_of_int 3 * 100) = 33
   \<and> Math_round (js_times (js_divide 1 8) 100) = 13
   \<and> Math_round (js_times (js_divide 23 40) 100) = 57"
proof -
  let ?s1 = "snd (updateProject store0 3 (no_updates\<lparr>up_progressStatus := Some completed\<rparr>)
                    1700000000100)"
  have r0: "Math_round (js_times (js_divide 0 3) 100) = 0" by code_simp
  have r2: "Math_round (js_times (js_divide 1 8) 100) = 13"
    "Math_round (js_times (js_divide 23 40) 100) = 57" by code_simp+
  have p: "Map_values (projects ?s1)
           = [project1 1 1700000000000, project2 2 1700000000000,
              (project3 3 1700000000000)\<lparr>p_progressStatus := completed\<rparr>]"
    by (simp add: example_simps updateProject_frame(3) merge_updates_def no_updates_def
          project3_def)
  have a: "getCommunityStats store0
             = \<lparr>activeIssues = 3, emailsSent = 0, issuesResolved = 0, successRate = 0\<rparr>"
    using community_stats_values [of store0]
    by (simp add: example_simps project1_def project2_def project3_def r0)
  have b: "sum_list (map p_emailsSent (Map_values (projects store0))) = 102"
    by (simp add: example_simps project1_def project2_def project3_def)
  have c: "getCommunityStats empty_store
             = \<lparr>activeIssues = 0, emailsSent = 0, issuesResolved = 0, successRate = 0\<rparr>"
    using community_stats_values [of empty_store]
    by (simp add: empty_store_def Map_values_def)
  have n: "int (length (Map_values (projects ?s1))) < 2 ^ 44"
    by (simp add: p)
  have ne: "Map_values (projects ?s1) \<noteq> []"
    by (simp add: p)
  have third: "\<lfloor>real_of_int 1 / real_of_int 3 * 100\<rfloor> = 33"
    by (simp add: floor_eq_iff)
  then have f: "frac (real_of_int 1 / real_of_int 3 * 100) \<noteq> 1 / 2"
    by (simp add: frac_def)
  have rd: "round (real_of_int 1 / real_of_int 3 * 100) = 33"
    by (simp add: round_def floor_eq_iff)
  have res: "issuesResolved (getCommunityStats ?s1) = 1"
    using community_stats_values [of ?s1]
    by (simp add: p project1_def project2_def)
  have d: "successRate (getCommunityStats ?s1) = 33"
    using community_stats_values [of ?s1] n ne f rd
    by (simp add: res p)
  from a b c n ne f d rd r2 show ?thesis by (intro conjI)
qed

section \<open>Searching and listing\<close>

text \<open>
  C7, as the code has it. \<open>searchProjects\<close> looks for the lower-case form of the query
  in the lower-case forms of the texts, and the lower-case form of a letter can depend
  on its place: the capital sigma at the end of a word becomes the final sigma, a
  capital sigma alone the other small sigma. A project whose title ends in a capital
  sigma contains the query that is this letter, without any change of case, and the
  search for it returns nothing.
\<close>

theorem final_sigma_counterexample:
  "map_option p_title (getProjectById street_store 4) = Some [927, 916, 927, 931]
   \<and> String_includes [927, 916, 927, 931] [931]
   \<and> contains_up_to_case [927, 916, 927, 931] [931]
   \<and> toLowerCase_here [927, 916, 927, 931] = [959, 948, 959, 962]
   \<and> toLowerCase_here [931] = [963]
   \<and> searchProjects toLowerCase_here street_store [931] = []"
proof -
  have p: "projects street_store
             = [(1, project1 1 1700000000000), (2, project2 2 1700000000000),
                (3, project3 3 1700000000000),
                (4, \<lparr>p_id = 4, p_title = [927, 916, 927, 931],
                      p_description = utf16 ''unpaved road'', p_issueType = other,
                      p_location = utf16 ''athens'', p_latitude = utf16 ''37.9838'',
                      p_longitude = utf16 ''23.7275'', p_urgencyLevel = None,
                      p_contactEmail = None,
                      p_emailTemplate = utf16 ''please pave the road'',
                      p_emailSubject = utf16 ''unpaved road'',
                      p_emailRecipient = utf16 ''publicworks@cityname.gov'',
                      p_upvotes = 0, p_emailsSent = 0, p_progressStatus = idea_submitted,
                      p_createdAt = 1700000000100, p_createdBy = None\<rparr>)]"
    by (simp add: street_store_def createProject_projects store0_fields street_project_def)
  have a: "map_option p_title (getProjectById street_store 4) = Some [927, 916, 927, 931]"
    by (simp add: getProjectById_def p)
  have b: "String_includes [927, 916, 927, 931] [931]"
    "contains_up_to_case [927, 916, 927, 931] [931]"
    by code_simp+
  have c: "searchProjects toLowerCase_here street_store [931] = []"
    by (simp add: searchProjects_def Let_def Map_values_def p sort_by_upvotes_def
          project1_def project2_def project3_def sigma_in_no_text)
  from a b c sigma_in_no_text(1) sigma_in_no_text(2) show ?thesis by (intro conjI)
qed

text \<open>
  C7, amended. \<open>searchProjects\<close> returns exactly the stored projects for which the
  lower-case form of the title, of the description or of the location, as
  \<open>toLowerCase\<close> gives it, includes the lower-case form of the query, each as often as
  it is stored. For a query in ASCII, the projects returned whose three texts are in
  ASCII are exactly the stored projects whose three texts are in ASCII and one of
  whose three texts contains the query up to the case of the letters \<open>A\<close> to \<open>Z\<close>;
  when every stored project is such a project, these are all the projects returned.
  \<open>getAllProjects\<close> returns exactly the
  stored projects, \<open>getProjectsByType\<close> exactly those of the given issue type and
  \<open>getProjectsByStatus\<close> exactly those in the given status; and the results of all
  four are in descending order of upvotes.
\<close>

theorem search_matches_and_order:
  "mset (searchProjects toLowerCase s query)
     = filter_mset
         (\<lambda>p. String_includes (toLowerCase (p_title p)) (toLowerCase query)
               \<or> String_includes (toLowerCase (p_description p)) (toLowerCase query)
               \<or> String_includes (toLowerCase (p_location p)) (toLowerCase query))
         (mset (Map_values (projects s)))
   \<and> ((\<forall>t. is_ascii t \<longrightarrow> toLowerCase t = ascii_lower t) \<and> is_ascii query
      \<longrightarrow> filter_mset ascii_texts (mset (searchProjects toLowerCase s query))
          = filter_mset
              (\<lambda>p. ascii_texts p
                    \<and> (contains_up_to_case (p_title p) query
                         \<or> contains_up_to_case (p_description p) query
                         \<or> contains_up_to_case (p_location p) query))
              (mset (Map_values (projects s))))
   \<and> ((\<forall>t. is_ascii t \<longrightarrow> toLowerCase t = ascii_lower t) \<and> is_ascii query
        \<and> list_all ascii_texts (Map_values (projects s))
      \<longrightarrow> mset (searchProjects toLowerCase s query)
          = filter_mset
              (\<lambda>p. contains_up_to_case (p_title p) query
                    \<or> contains_up_to_case (p_description p) query
                    \<or> contains_up_to_case (p_location p) query)
              (mset (Map_values (projects s))))
   \<and> mset (getAllProjects s) = mset (Map_values (projects s))
   \<and> mset (getProjectsByType s issueType)
       = filter_mset (\<lambda>p. issue_type_name (p_issueType p) = issueType)
           (mset (Map_values (projects s)))
   \<and> mset (getProjectsByStatus s progressStatus)
       = filter_mset (\<lambda>p. progress_status_name (p_progressStatus p) = progressStatus)
           (mset (Map_values (projects s)))
   \<and> sorted_wrt (\<lambda>a b. p_upvotes a \<ge> p_upvotes b) (searchProjects toLowerCase s query)
   \<and> sorted_wrt (\<lambda>a b. p_upvotes a \<ge> p_upvotes b) (getAllProjects s)
   \<and> sorted_wrt (\<lambda>a b. p_upvotes a \<ge> p_upvotes b) (getProjectsByType s issueType)
   \<and> sorted_wrt (\<lambda>a b. p_upvotes a \<ge> p_upvotes b) (getProjectsByStatus s progressStatus)"
proof -
  let ?ps = "Map_values (projects s)"
  have found: "mset (searchProjects toLowerCase s query)
     = filter_mset
         (\<lambda>p. String_includes (toLowerCase (p_title p)) (toLowerCase query)
               \<or> String_includes (toLowerCase (p_description p)) (toLowerCase query)
               \<or> String_includes (toLowerCase (p_location p)) (toLowerCase query))
         (mset ?ps)"
    by (simp add: searchProjects_def Let_def mset_filter_sort_by_upvotes)
  have among_ascii: "filter_mset ascii_texts (mset (searchProjects toLowerCase s query))
          = filter_mset
              (\<lambda>p. ascii_texts p
                    \<and> (contains_up_to_case (p_title p) query
                         \<or> contains_up_to_case (p_description p) query
                         \<or> contains_up_to_case (p_location p) query))
              (mset ?ps)"
    if lower: "\<forall>t. is_ascii t \<longrightarrow> toLowerCase t = ascii_lower t"
      and q: "is_ascii query"
  proof -
    have same: "String_includes (toLowerCase t) (toLowerCase query) = contains_up_to_case t query"
      if "is_ascii t" for t
      using that lower q by (simp add: includes_ascii_lower)
    have "((String_includes (toLowerCase (p_title p)) (toLowerCase query)
             \<or> String_includes (toLowerCase (p_description p)) (toLowerCase query)
             \<or> String_includes (toLowerCase (p_location p)) (toLowerCase query))
            \<and> ascii_texts p)
           = (ascii_texts p
              \<and> (contains_up_to_case (p_title p) query
                   \<or> contains_up_to_case (p_description p) query
                   \<or> contains_up_to_case (p_location p) query))" for p
      using same [of "p_title p"] same [of "p_description p"] same [of "p_location p"]
      by (auto simp: ascii_texts_def)
    then show ?thesis
      unfolding found by (simp only: filter_filter_mset)
  qed
  have in_ascii: "mset (searchProjects toLowerCase s query)
          = filter_mset
              (\<lambda>p. contains_up_to_case (p_title p) query
                    \<or> contains_up_to_case (p_description p) query
                    \<or> contains_up_to_case (p_location p) query)
              (mset ?ps)"
    if lower: "\<forall>t. is_ascii t \<longrightarrow> toLowerCase t = ascii_lower t"
      and q: "is_ascii query"
      and texts: "list_all ascii_texts ?ps"
  proof -
    have "String_includes (toLowerCase t) (toLowerCase query) = contains_up_to_case t query"
      if "is_ascii t" for t
      using that lower q by (simp add: includes_ascii_lower)
    then have "(String_includes (toLowerCase (p_title p)) (toLowerCase query)
                \<or> String_includes (toLowerCase (p_description p)) (toLowerCase query)
                \<or> String_includes (toLowerCase (p_location p)) (toLowerCase query))
               = (contains_up_to_case (p_title p) query
                  \<or> contains_up_to_case (p_description p) query
                  \<or> contains_up_to_case (p_location p) query)"
      if "p \<in># mset ?ps" for p
      using that texts by (simp add: list_all_iff ascii_texts_def)
    then show ?thesis
      unfolding found by (rule filter_mset_cong [OF refl])
  qed
  have listed: "mset (getAllProjects s) = mset ?ps"
    "mset (getProjectsByType s issueType)
       = filter_mset (\<lambda>p. issue_type_name (p_issueType p) = issueType) (mset ?ps)"
    "mset (getProjectsByStatus s progressStatus)
       = filter_mset (\<lambda>p. progress_status_name (p_progressStatus p) = progressStatus)
           (mset ?ps)"
    by (simp_all add: getAllProjects_def getProjectsByType_def getProjectsByStatus_def
          mset_sort_by_upvotes mset_filter_sort_by_upvotes)
  have ordered:
    "sorted_wrt (\<lambda>a b. p_upvotes a \<ge> p_upvotes b) (searchProjects toLowerCase s query)"
    "sorted_wrt (\<lambda>a b. p_upvotes a \<ge> p_upvotes b) (getAllProjects s)"
    "sorted_wrt (\<lambda>a b. p_upvotes a \<ge> p_upvotes b) (getProjectsByType s issueType)"
    "sorted_wrt (\<lambda>a b. p_upvotes a \<ge> p_upvotes b) (getProjectsByStatus s progressStatus)"
    by (simp_all add: searchProjects_def getAllProjects_def getProjectsByType_def
          getProjectsByStatus_def Let_def sorted_sort_by_upvotes)
  from found among_ascii in_ascii listed ordered show ?thesis
    by (intro conjI impI) blast+
qed

theorem search_matches_and_order_witness:
  "is_ascii (utf16 ''OAK'')
   \<and> list_all ascii_texts (Map_values (projects store0))
   \<and> mset (searchProjects ascii_lower store0 (utf16 ''OAK''))
       = filter_mset
           (\<lambda>p. contains_up_to_case (p_title p) (utf16 ''OAK'')
                 \<or> contains_up_to_case (p_description p) (utf16 ''OAK'')
                 \<or> contains_up_to_case (p_location p) (utf16 ''OAK''))
           (mset (Map_values (projects store0)))
   \<and> map p_id (searchProjects ascii_lower store0 (utf16 ''OAK'')) = [2]
   \<and> map p_id (searchProjects ascii_lower store0 (utf16 ''street'')) = [3, 2]
   \<and> map p_id (getAllProjects store0) = [3, 1, 2]
   \<and> map p_upvotes (getAllProjects store0) = [67, 45, 23]
   \<and> map p_id (getProjectsByType store0 (utf16 ''pothole'')) = [3]
   \<and> map p_id (getProjectsByStatus store0 (utf16 ''idea_submitted'')) = [2]
   \<and> mset (getProjectsByStatus store0 (utf16 ''idea_submitted''))
       = filter_mset (\<lambda>p. progress_status_name (p_progressStatus p) = utf16 ''idea_submitted'')
           (mset (Map_values (projects store0)))
   \<and> sorted_wrt (\<lambda>a b. p_upvotes a \<ge> p_upvotes b)
        (searchProjects ascii_lower store0 (utf16 ''street''))"
proof -
  have q: "is_ascii (utf16 ''OAK'')" by (rule sample_texts_ascii)
  have texts: "list_all ascii_texts (Map_values (projects store0))"
    by (simp add: example_simps ascii_texts_def project1_def project2_def project3_def
          sample_texts_ascii)
  have a: "map p_id (searchProjects ascii_lower store0 (utf16 ''OAK'')) = [2]"
    by (simp add: searchProjects_def sort_by_upvotes_def sample_texts_oak
          Let_def example_simps project1_def project2_def project3_def)
  have b: "map p_id (searchProjects ascii_lower store0 (utf16 ''street'')) = [3, 2]"
    by (simp add: searchProjects_def sort_by_upvotes_def sample_texts_street
          Let_def example_simps project1_def project2_def project3_def)
  have c: "map p_id (getAllProjects store0) = [3, 1, 2]"
    "map p_upvotes (getAllProjects store0) = [67, 45, 23]"
    by (simp_all add: getAllProjects_def sort_by_upvotes_def example_simps
          project1_def project2_def project3_def)
  have d: "map p_id (getProjectsByType store0 (utf16 ''pothole'')) = [3]"
    by (simp add: getProjectsByType_def sort_by_upvotes_def example_simps
          project1_def project2_def project3_def)
  have e: "map p_id (getProjectsByStatus store0 (utf16 ''idea_submitted'')) = [2]"
    by (simp add: getProjectsByStatus_def sort_by_upvotes_def example_simps
          project1_def project2_def project3_def)
  from search_matches_and_order [of ascii_lower store0 "utf16 ''OAK''" "utf16 ''pothole''"
      "utf16 ''idea_submitted''"] q texts
  have f: "mset (searchProjects ascii_lower store0 (utf16 ''OAK''))
       = filter_mset
           (\<lambda>p. contains_up_to_case (p_title p) (utf16 ''OAK'')
                 \<or> contains_up_to_case (p_description p) (utf16 ''OAK'')
                 \<or> contains_up_to_case (p_location p) (utf16 ''OAK''))
           (mset (Map_values (projects store0)))"
    and g: "mset (getProjectsByStatus store0 (utf16 ''idea_submitted''))
       = filter_mset (\<lambda>p. progress_status_name (p_progressStatus p) = utf16 ''idea_submitted'')
           (mset (Map_values (projects store0)))"
    by blast+
  from search_matches_and_order [of ascii_lower store0 "utf16 ''street''"]
  have h: "sorted_wrt (\<lambda>a b. p_upvotes a \<ge> p_upvotes b)
        (searchProjects ascii_lower store0 (utf16 ''street''))"
    by blast
  from q texts f a b c d e g h show ?thesis by (intro conjI)
qed

end
